theory Spec2Isabelle
  imports Main "HOL-Library.Word"
begin

unbundle bit_operations_syntax

chapter \<open>Pauli: a validator monitor over the Beacon Node API\<close>

text \<open>
  A shallow embedding of the monitoring engine of the repository: the decoders of
  \<^verbatim>\<open>internal/beacon/types.go\<close>, the retrying HTTP client, the backoff generator, the
  store writer, the scheduler's event generator and the monitor's job processing.
  Go's \<^verbatim>\<open>uint64\<close> and \<^verbatim>\<open>int64\<close> are 64-bit words (\<open>+\<close> wraps, \<open>unat\<close> and
  \<open>sint\<close> read them); a Go \<^verbatim>\<open>(value, error)\<close> result is a sum with the error on the
  left; whatever lies outside the process (the network, the wall clock, the database
  session, the JSON scanner of the standard library) is an explicit argument.
\<close>

section \<open>Definitions\<close>

type_synonym uint64 = "64 word"
type_synonym int64 = "64 word"

subsection \<open>The standard library's integer parser\<close>

text \<open>
  \<^verbatim>\<open>strconv.ParseUint(s, 10, 64)\<close> and \<^verbatim>\<open>strconv.ParseInt(s, 10, 64)\<close> as the Go
  standard library defines them, specialised to base 10 and 64 bits (so an underscore
  and a letter are both syntax errors). A string is the list of its bytes.
\<close>

datatype strconv_err = ErrSyntax | ErrRange

datatype NumError = NumError (Func: string) (Num: string) (Err: strconv_err)

definition syntaxError :: "string \<Rightarrow> string \<Rightarrow> NumError" where
  "syntaxError fn str = NumError fn str ErrSyntax"

definition rangeError :: "string \<Rightarrow> string \<Rightarrow> NumError" where
  "rangeError fn str = NumError fn str ErrRange"

definition lower :: "nat \<Rightarrow> nat" where
  "lower c = c OR 32"

text \<open>The digit a byte stands for; \<open>None\<close> is the \<^verbatim>\<open>default\<close> branch of the switch.\<close>

definition digit_of :: "char \<Rightarrow> nat option" where
  "digit_of c =
     (let b = (of_char c :: nat) in
      if 48 \<le> b \<and> b \<le> 57 then Some (b - 48)
      else if 97 \<le> lower b \<and> lower b \<le> 122 then Some (lower b - 97 + 10)
      else None)"

definition maxUint64 :: uint64 where
  "maxUint64 = - 1"

definition cutoff10 :: uint64 where
  "cutoff10 = maxUint64 div 10 + 1"

fun ParseUint_loop :: "string \<Rightarrow> uint64 \<Rightarrow> string \<Rightarrow> uint64 \<times> NumError option" where
  "ParseUint_loop s0 n [] = (n, None)"
| "ParseUint_loop s0 n (c # cs) =
     (case digit_of c of
        None \<Rightarrow> (0, Some (syntaxError ''ParseUint'' s0))
      | Some d \<Rightarrow>
          if d \<ge> 10 then (0, Some (syntaxError ''ParseUint'' s0))
          else if n \<ge> cutoff10 then (maxUint64, Some (rangeError ''ParseUint'' s0))
          else
            (let n' = n * 10; n1 = n' + of_nat d in
             if n1 < n' \<or> n1 > maxUint64 then (maxUint64, Some (rangeError ''ParseUint'' s0))
             else ParseUint_loop s0 n1 cs))"

definition ParseUint :: "string \<Rightarrow> uint64 \<times> NumError option" where
  "ParseUint s = (if s = [] then (0, Some (syntaxError ''ParseUint'' s)) else ParseUint_loop s 0 s)"

text \<open>
  The second half of \<^verbatim>\<open>ParseInt\<close>: a syntax error of \<^verbatim>\<open>ParseUint\<close> is passed on
  under the name of \<^verbatim>\<open>ParseInt\<close>, anything else goes through the range check.
\<close>

definition ParseInt_range ::
  "string \<Rightarrow> bool \<Rightarrow> uint64 \<times> NumError option \<Rightarrow> int64 \<times> NumError option" where
  "ParseInt_range s0 neg r =
     (case r of
        (un, Some (NumError f n ErrSyntax)) \<Rightarrow> (0, Some (NumError ''ParseInt'' s0 ErrSyntax))
      | (un, _) \<Rightarrow>
          (let cutoff = (push_bit 63 1 :: uint64) in
           if \<not> neg \<and> un \<ge> cutoff then (cutoff - 1, Some (rangeError ''ParseInt'' s0))
           else if neg \<and> un > cutoff then (- cutoff, Some (rangeError ''ParseInt'' s0))
           else (if neg then - un else un, None)))"

definition ParseInt :: "string \<Rightarrow> int64 \<times> NumError option" where
  "ParseInt s0 =
     (if s0 = [] then (0, Some (syntaxError ''ParseInt'' s0))
      else if hd s0 = CHR ''+'' then ParseInt_range s0 False (ParseUint (tl s0))
      else if hd s0 = CHR ''-'' then ParseInt_range s0 True (ParseUint (tl s0))
      else ParseInt_range s0 False (ParseUint s0))"

text \<open>\<^verbatim>\<open>fmt.Sprintf("%d", v)\<close> for an unsigned value: its decimal digits, no leading zero.\<close>

fun digits10 :: "nat \<Rightarrow> string" where
  "digits10 n =
     (if n < 10 then [char_of (48 + n)]
      else digits10 (n div 10) @ [char_of (48 + n mod 10)])"

declare digits10.simps [simp del]

definition fmt_d :: "uint64 \<Rightarrow> string" where
  "fmt_d v = digits10 (unat v)"

subsection \<open>internal/beacon/types.go: integers that arrive quoted or bare\<close>

text \<open>
  Lines 122 to 125 of both \<^verbatim>\<open>UnmarshalJSON\<close> functions: one pair of surrounding double
  quotes is removed when the data has at least two bytes.
\<close>

definition unquote :: "string \<Rightarrow> string" where
  "unquote s =
     (if length s \<ge> 2 \<and> hd s = CHR 0x22 \<and> last s = CHR 0x22 then butlast (tl s) else s)"

text \<open>
  The receiver is written only when the parse succeeds: \<open>Inr v\<close> is the new content
  with a nil error, \<open>Inl err\<close> the error with the receiver untouched.
\<close>

definition Uint64Str_UnmarshalJSON :: "string \<Rightarrow> NumError + uint64" where
  "Uint64Str_UnmarshalJSON data =
     (case ParseUint (unquote data) of
        (v, Some err) \<Rightarrow> Inl err
      | (v, None) \<Rightarrow> Inr v)"

definition Int64Str_UnmarshalJSON :: "string \<Rightarrow> NumError + int64" where
  "Int64Str_UnmarshalJSON data =
     (case ParseInt (unquote data) of
        (v, Some err) \<Rightarrow> Inl err
      | (v, None) \<Rightarrow> Inr v)"

text \<open>
  What the claims call an integer token, written after their words and not after the
  code: a non-empty run of decimal digits (after an optional sign for a signed field)
  whose value the 64-bit type holds, bare or between one pair of double quotes.
\<close>

definition is_digit :: "char \<Rightarrow> bool" where
  "is_digit c = (48 \<le> (of_char c :: nat) \<and> (of_char c :: nat) \<le> 57)"

definition dec_from :: "nat \<Rightarrow> string \<Rightarrow> nat" where
  "dec_from a ds = foldl (\<lambda>a c. a * 10 + (of_char c - 48)) a ds"

definition dec_value :: "string \<Rightarrow> nat" where
  "dec_value ds = dec_from 0 ds"

definition uint64_literal :: "string \<Rightarrow> bool" where
  "uint64_literal s = (s \<noteq> [] \<and> list_all is_digit s \<and> dec_value s < 2 ^ 64)"

definition int64_literal :: "string \<Rightarrow> bool" where
  "int64_literal s =
     (s \<noteq> [] \<and>
      (let ds = (if hd s = CHR ''+'' \<or> hd s = CHR ''-'' then tl s else s) in
       ds \<noteq> [] \<and> list_all is_digit ds \<and>
       (if hd s = CHR ''-'' then dec_value ds \<le> 2 ^ 63 else dec_value ds < 2 ^ 63)))"

definition optionally_quoted :: "(string \<Rightarrow> bool) \<Rightarrow> string \<Rightarrow> bool" where
  "optionally_quoted P data =
     (P data \<or>
      (length data \<ge> 2 \<and> hd data = CHR 0x22 \<and> last data = CHR 0x22 \<and> P (butlast (tl data))))"

text \<open>The decimal encoding of a signed integer: a minus sign and the digits of its magnitude.\<close>

definition fmt_int :: "int \<Rightarrow> string" where
  "fmt_int i = (if i < 0 then CHR ''-'' # digits10 (nat (- i)) else digits10 (nat i))"

definition quoted :: "string \<Rightarrow> string" where
  "quoted s = CHR 0x22 # s @ [CHR 0x22]"

subsection \<open>pkg/backoff\<close>

text \<open>
  A \<^verbatim>\<open>time.Duration\<close> is a count of nanoseconds. \<^verbatim>\<open>Multiplier\<close> and
  \<^verbatim>\<open>JitterFactor\<close> are \<^verbatim>\<open>float64\<close> and enter \<^verbatim>\<open>NextDelay\<close> only through its
  floating-point lines (65 to 78), together with a draw of the global random source.
  Those lines are not computed here: their result for the call at attempt \<open>n\<close> is the
  argument \<open>jitter n\<close>.
\<close>

type_synonym Duration = int

record Config =
  InitialDelay :: Duration
  MaxDelay :: Duration

definition DefaultConfig :: Config where
  "DefaultConfig = \<lparr>InitialDelay = 100 * 1000000, MaxDelay = 30 * 1000000000\<rparr>"

record Backoff =
  cfg :: Config
  attempts :: int

definition New :: "Config \<Rightarrow> Backoff" where
  "New c = \<lparr>cfg = c, attempts = 0\<rparr>"

definition NewDefault :: Backoff where
  "NewDefault = New DefaultConfig"

definition Reset :: "Backoff \<Rightarrow> Backoff" where
  "Reset b = b\<lparr>attempts := 0\<rparr>"

definition NextDelay :: "(int \<Rightarrow> Duration) \<Rightarrow> Backoff \<Rightarrow> Duration \<times> Backoff" where
  "NextDelay jitter b =
     (if attempts b = 0 then (InitialDelay (cfg b), b\<lparr>attempts := attempts b + 1\<rparr>)
      else (jitter (attempts b), b\<lparr>attempts := attempts b + 1\<rparr>))"

text \<open>
  \<^verbatim>\<open>Wait\<close>: \<open>fired\<close> says whether the timer fires before the context is done. The
  delay waited for is returned beside the answer, for the trace of the request.
\<close>

definition Wait :: "(int \<Rightarrow> Duration) \<Rightarrow> bool \<Rightarrow> Backoff \<Rightarrow> (bool \<times> Duration) \<times> Backoff" where
  "Wait jitter fired b = (let (delay, b') = NextDelay jitter b in ((fired, delay), b'))"

definition ShouldRetry :: "int \<Rightarrow> bool" where
  "ShouldRetry statusCode = (statusCode = 429 \<or> statusCode = 503)"

subsection \<open>internal/beacon: the HTTP client\<close>

text \<open>
  What one request meets outside the process, iteration by iteration of the retry
  loop: the rate limiter's answer, whether the request can be built, the answer of
  \<^verbatim>\<open>httpClient.Do\<close> (a transport error, or a status code with the body), whether the
  backoff timer fires before the context is cancelled, and the jittered delays.
\<close>

datatype http_result = TransportError string | Response int string

record net =
  limiter_Wait :: "int \<Rightarrow> string option"
  NewRequest :: "string option"
  httpClient_Do :: "int \<Rightarrow> http_result"
  timer_fires :: "int \<Rightarrow> bool"
  jitter_delay :: "int \<Rightarrow> Duration"

datatype json_error = JsonSyntax | JsonField NumError

datatype error =
    ErrRateLimiter string
  | ErrCreateRequest string
  | ErrContext
  | ErrTransport string
  | ErrRequestFailedAfter int error
  | RetryableError int string
  | ErrUnexpectedStatus int string
  | ErrDecode json_error
  | ErrRequestFailed error
  | ErrWrap string error
  | ErrStore string string

text \<open>The trace of a request: what it did outside the process, in order.\<close>

datatype net_event =
    LimiterWait
  | HttpDo string string "string list option"
  | BackoffWait Duration

definition is_HttpDo :: "net_event \<Rightarrow> bool" where
  "is_HttpDo e = (case e of HttpDo m u b \<Rightarrow> True | _ \<Rightarrow> False)"

definition is_BackoffWait :: "net_event \<Rightarrow> bool" where
  "is_BackoffWait e = (case e of BackoffWait d \<Rightarrow> True | _ \<Rightarrow> False)"

record Client =
  baseURL :: string
  maxRetries :: int

text \<open>
  The loop of \<^verbatim>\<open>doRequest\<close> from iteration \<open>attempt\<close> on. \<open>result\<close> is the content of
  the variable the caller passed by pointer; \<open>decode\<close> is \<^verbatim>\<open>json.Decode\<close> into it.
  The answer is the error, or the content of the variable when the error is nil.
  The counter is an integer without bound: the code computes \<open>attempt + 1\<close> for the
  next iteration only when \<open>attempt\<close> is below \<open>maxRetries\<close>, so Go's 64-bit
  \<^verbatim>\<open>int\<close> never wraps there.
\<close>

function doRequest_loop ::
  "Client \<Rightarrow> net \<Rightarrow> string \<Rightarrow> string \<Rightarrow> (string \<Rightarrow> json_error + 'a) \<Rightarrow> 'a \<Rightarrow>
     int \<Rightarrow> error option \<Rightarrow> Backoff \<Rightarrow> (error + 'a) \<times> net_event list" where
  "doRequest_loop c nw meth url decode result attempt lastErr b =
     (if attempt \<le> maxRetries c then
        (case limiter_Wait nw attempt of
           Some err \<Rightarrow> (Inl (ErrRateLimiter err), [LimiterWait])
         | None \<Rightarrow>
        (case NewRequest nw of
           Some err \<Rightarrow> (Inl (ErrCreateRequest err), [LimiterWait])
         | None \<Rightarrow>
        (case httpClient_Do nw attempt of
           TransportError err \<Rightarrow>
             if attempt < maxRetries c then
               (case Wait (jitter_delay nw) (timer_fires nw attempt) b of
                  ((False, d), b') \<Rightarrow>
                    (Inl ErrContext, [LimiterWait, HttpDo meth url None, BackoffWait d])
                | ((True, d), b') \<Rightarrow>
                    (case doRequest_loop c nw meth url decode result (attempt + 1)
                            (Some (ErrTransport err)) b' of
                       (r, tr) \<Rightarrow> (r, [LimiterWait, HttpDo meth url None, BackoffWait d] @ tr)))
             else (Inl (ErrRequestFailedAfter (attempt + 1) (ErrTransport err)),
                   [LimiterWait, HttpDo meth url None])
         | Response status body \<Rightarrow>
             if ShouldRetry status then
               (if attempt < maxRetries c then
                  (case Wait (jitter_delay nw) (timer_fires nw attempt) b of
                     ((False, d), b') \<Rightarrow>
                       (Inl ErrContext, [LimiterWait, HttpDo meth url None, BackoffWait d])
                   | ((True, d), b') \<Rightarrow>
                       (case doRequest_loop c nw meth url decode result (attempt + 1)
                               (Some (RetryableError status body)) b' of
                          (r, tr) \<Rightarrow> (r, [LimiterWait, HttpDo meth url None, BackoffWait d] @ tr)))
                else (Inl (RetryableError status body), [LimiterWait, HttpDo meth url None]))
             else if status \<noteq> 200 then
               (Inl (ErrUnexpectedStatus status body), [LimiterWait, HttpDo meth url None])
             else
               (case decode body of
                  Inl e \<Rightarrow> (Inl (ErrDecode e), [LimiterWait, HttpDo meth url None])
                | Inr v \<Rightarrow> (Inr v, [LimiterWait, HttpDo meth url None])))))
      else ((case lastErr of None \<Rightarrow> Inr result | Some e \<Rightarrow> Inl e), []))"
  by pat_completeness auto
termination
  by (relation "measure (\<lambda>(c, nw, meth, url, decode, result, attempt, lastErr, b).
        nat (maxRetries c + 1 - attempt))") auto

declare doRequest_loop.simps [simp del]

definition doRequest ::
  "Client \<Rightarrow> net \<Rightarrow> string \<Rightarrow> string \<Rightarrow> (string \<Rightarrow> json_error + 'a) \<Rightarrow> 'a \<Rightarrow>
     (error + 'a) \<times> net_event list" where
  "doRequest c nw meth path decode result =
     doRequest_loop c nw meth (baseURL c @ path) decode result 0 None NewDefault"

definition get ::
  "Client \<Rightarrow> net \<Rightarrow> string \<Rightarrow> (string \<Rightarrow> json_error + 'a) \<Rightarrow> 'a \<Rightarrow>
     (error + 'a) \<times> net_event list" where
  "get c nw path decode result = doRequest c nw ''GET'' path decode result"

text \<open>
  \<^verbatim>\<open>doRequestWithBody\<close>: the body is the list of strings both callers send, and
  \<open>result\<close> is never nil at either call site, so the response is always decoded.
\<close>

definition doRequestWithBody ::
  "Client \<Rightarrow> net \<Rightarrow> string \<Rightarrow> string \<Rightarrow> string list \<Rightarrow> (string \<Rightarrow> json_error + 'a) \<Rightarrow> 'a \<Rightarrow>
     (error + 'a) \<times> net_event list" where
  "doRequestWithBody c nw meth path body decode result =
     (let url = baseURL c @ path in
      case limiter_Wait nw 0 of
        Some err \<Rightarrow> (Inl (ErrRateLimiter err), [LimiterWait])
      | None \<Rightarrow>
     (case NewRequest nw of
        Some err \<Rightarrow> (Inl (ErrCreateRequest err), [LimiterWait])
      | None \<Rightarrow>
     (case httpClient_Do nw 0 of
        TransportError err \<Rightarrow>
          (Inl (ErrRequestFailed (ErrTransport err)), [LimiterWait, HttpDo meth url (Some body)])
      | Response status respBody \<Rightarrow>
          if status \<noteq> 200 then
            (Inl (ErrUnexpectedStatus status respBody), [LimiterWait, HttpDo meth url (Some body)])
          else
            (case decode respBody of
               Inl e \<Rightarrow> (Inl (ErrDecode e), [LimiterWait, HttpDo meth url (Some body)])
             | Inr v \<Rightarrow> (Inr v, [LimiterWait, HttpDo meth url (Some body)])))))"

definition post ::
  "Client \<Rightarrow> net \<Rightarrow> string \<Rightarrow> string list \<Rightarrow> (string \<Rightarrow> json_error + 'a) \<Rightarrow> 'a \<Rightarrow>
     (error + 'a) \<times> net_event list" where
  "post c nw path body decode result = doRequestWithBody c nw ''POST'' path body decode result"

subsection \<open>internal/beacon: response types and their decoding\<close>

text \<open>
  The structs of \<^verbatim>\<open>types.go\<close> that the monitor reads. Every integer field has type
  \<^verbatim>\<open>Uint64Str\<close> or \<^verbatim>\<open>Int64Str\<close>.
\<close>

record Validator =
  v_Index :: uint64
  v_Balance :: uint64
  v_Status :: string
  v_Pubkey :: string
  v_WithdrawalCredentials :: string
  v_EffectiveBalance :: uint64
  v_Slashed :: bool
  v_ActivationEligibilityEpoch :: uint64
  v_ActivationEpoch :: uint64
  v_ExitEpoch :: uint64
  v_WithdrawableEpoch :: uint64

record AttesterDuty =
  d_Pubkey :: string
  d_ValidatorIndex :: uint64
  d_CommitteeIndex :: uint64
  d_CommitteeLength :: uint64
  d_CommitteesAtSlot :: uint64
  d_ValidatorCommitteeIndex :: uint64
  d_Slot :: uint64

record AttesterDutiesResponse =
  DependentRoot :: string
  ExecutionOptimistic :: bool
  Data :: "AttesterDuty list"

record beacon_AttestationReward =
  r_ValidatorIndex :: uint64
  r_Head :: int64
  r_Target :: int64
  r_Source :: int64

record AttestationRewardsData =
  IdealRewards :: "beacon_AttestationReward list"
  TotalRewards :: "beacon_AttestationReward list"

record Checkpoint =
  cp_Epoch :: uint64
  cp_Root :: string

record FinalityCheckpoints =
  PreviousJustified :: Checkpoint
  CurrentJustified :: Checkpoint
  Finalized :: Checkpoint

text \<open>
  \<^verbatim>\<open>encoding/json\<close> belongs to the standard library: how it scans a body into the
  members of the expected object is an argument (the scanners below, \<open>None\<close> for a body
  it refuses). For an integer member it hands the raw bytes of the value to the
  \<^verbatim>\<open>UnmarshalJSON\<close> function of the field, and the first error ends the decoding; a member
  that is absent leaves the zero value. The raw records hold the bytes of each integer
  member (\<open>None\<close> when absent). The decoders below take the members in the order of
  the struct where \<^verbatim>\<open>encoding/json\<close> takes them in the order of the body: when several
  members are refused, that order decides only which of their errors is reported.
\<close>

record raw_Validator =
  rv_index :: "string option"
  rv_balance :: "string option"
  rv_status :: string
  rv_pubkey :: string
  rv_withdrawal_credentials :: string
  rv_effective_balance :: "string option"
  rv_slashed :: bool
  rv_activation_eligibility_epoch :: "string option"
  rv_activation_epoch :: "string option"
  rv_exit_epoch :: "string option"
  rv_withdrawable_epoch :: "string option"

record raw_AttesterDuty =
  rd_pubkey :: string
  rd_validator_index :: "string option"
  rd_committee_index :: "string option"
  rd_committee_length :: "string option"
  rd_committees_at_slot :: "string option"
  rd_validator_committee_index :: "string option"
  rd_slot :: "string option"

record raw_AttesterDutiesResponse =
  rdr_dependent_root :: string
  rdr_execution_optimistic :: bool
  rdr_data :: "raw_AttesterDuty list"

record raw_AttestationReward =
  rr_validator_index :: "string option"
  rr_head :: "string option"
  rr_target :: "string option"
  rr_source :: "string option"

record raw_AttestationRewardsData =
  rr_ideal_rewards :: "raw_AttestationReward list"
  rr_total_rewards :: "raw_AttestationReward list"

record raw_Checkpoint =
  rc_epoch :: "string option"
  rc_root :: string

record raw_FinalityCheckpoints =
  rf_previous_justified :: raw_Checkpoint
  rf_current_justified :: raw_Checkpoint
  rf_finalized :: raw_Checkpoint

record scanners =
  scan_Validator :: "string \<Rightarrow> raw_Validator option"
  scan_Duties :: "string \<Rightarrow> raw_AttesterDutiesResponse option"
  scan_Rewards :: "string \<Rightarrow> raw_AttestationRewardsData option"
  scan_Checkpoints :: "string \<Rightarrow> raw_FinalityCheckpoints option"

definition and_then :: "('e + 'a) \<Rightarrow> ('a \<Rightarrow> 'e + 'b) \<Rightarrow> 'e + 'b" where
  "and_then r f = (case r of Inl e \<Rightarrow> Inl e | Inr v \<Rightarrow> f v)"

definition field_uint64 :: "string option \<Rightarrow> json_error + uint64" where
  "field_uint64 member =
     (case member of
        None \<Rightarrow> Inr 0
      | Some data \<Rightarrow>
          (case Uint64Str_UnmarshalJSON data of Inl e \<Rightarrow> Inl (JsonField e) | Inr v \<Rightarrow> Inr v))"

definition field_int64 :: "string option \<Rightarrow> json_error + int64" where
  "field_int64 member =
     (case member of
        None \<Rightarrow> Inr 0
      | Some data \<Rightarrow>
          (case Int64Str_UnmarshalJSON data of Inl e \<Rightarrow> Inl (JsonField e) | Inr v \<Rightarrow> Inr v))"

fun decode_all :: "('r \<Rightarrow> json_error + 'a) \<Rightarrow> 'r list \<Rightarrow> json_error + 'a list" where
  "decode_all f [] = Inr []"
| "decode_all f (x # xs) =
     and_then (f x) (\<lambda>v. and_then (decode_all f xs) (\<lambda>vs. Inr (v # vs)))"

definition decode_Validator :: "raw_Validator \<Rightarrow> json_error + Validator" where
  "decode_Validator raw =
     and_then (field_uint64 (rv_index raw)) (\<lambda>index.
     and_then (field_uint64 (rv_balance raw)) (\<lambda>balance.
     and_then (field_uint64 (rv_effective_balance raw)) (\<lambda>effective.
     and_then (field_uint64 (rv_activation_eligibility_epoch raw)) (\<lambda>eligibility.
     and_then (field_uint64 (rv_activation_epoch raw)) (\<lambda>activation.
     and_then (field_uint64 (rv_exit_epoch raw)) (\<lambda>exit.
     and_then (field_uint64 (rv_withdrawable_epoch raw)) (\<lambda>withdrawable.
       Inr \<lparr>v_Index = index, v_Balance = balance, v_Status = rv_status raw,
            v_Pubkey = rv_pubkey raw,
            v_WithdrawalCredentials = rv_withdrawal_credentials raw,
            v_EffectiveBalance = effective, v_Slashed = rv_slashed raw,
            v_ActivationEligibilityEpoch = eligibility, v_ActivationEpoch = activation,
            v_ExitEpoch = exit, v_WithdrawableEpoch = withdrawable\<rparr>)))))))"

definition decode_AttesterDuty :: "raw_AttesterDuty \<Rightarrow> json_error + AttesterDuty" where
  "decode_AttesterDuty raw =
     and_then (field_uint64 (rd_validator_index raw)) (\<lambda>index.
     and_then (field_uint64 (rd_committee_index raw)) (\<lambda>committee.
     and_then (field_uint64 (rd_committee_length raw)) (\<lambda>len.
     and_then (field_uint64 (rd_committees_at_slot raw)) (\<lambda>at_slot.
     and_then (field_uint64 (rd_validator_committee_index raw)) (\<lambda>position.
     and_then (field_uint64 (rd_slot raw)) (\<lambda>slot.
       Inr \<lparr>d_Pubkey = rd_pubkey raw, d_ValidatorIndex = index, d_CommitteeIndex = committee,
            d_CommitteeLength = len, d_CommitteesAtSlot = at_slot,
            d_ValidatorCommitteeIndex = position, d_Slot = slot\<rparr>))))))"

definition decode_AttesterDutiesResponse ::
  "raw_AttesterDutiesResponse \<Rightarrow> json_error + AttesterDutiesResponse" where
  "decode_AttesterDutiesResponse raw =
     and_then (decode_all decode_AttesterDuty (rdr_data raw)) (\<lambda>duties.
       Inr \<lparr>DependentRoot = rdr_dependent_root raw,
            ExecutionOptimistic = rdr_execution_optimistic raw, Data = duties\<rparr>)"

definition decode_AttestationReward :: "raw_AttestationReward \<Rightarrow> json_error + beacon_AttestationReward" where
  "decode_AttestationReward raw =
     and_then (field_uint64 (rr_validator_index raw)) (\<lambda>index.
     and_then (field_int64 (rr_head raw)) (\<lambda>head.
     and_then (field_int64 (rr_target raw)) (\<lambda>target.
     and_then (field_int64 (rr_source raw)) (\<lambda>source.
       Inr \<lparr>r_ValidatorIndex = index, r_Head = head, r_Target = target, r_Source = source\<rparr>))))"

definition decode_AttestationRewardsData ::
  "raw_AttestationRewardsData \<Rightarrow> json_error + AttestationRewardsData" where
  "decode_AttestationRewardsData raw =
     and_then (decode_all decode_AttestationReward (rr_ideal_rewards raw)) (\<lambda>ideal.
     and_then (decode_all decode_AttestationReward (rr_total_rewards raw)) (\<lambda>total.
       Inr \<lparr>IdealRewards = ideal, TotalRewards = total\<rparr>))"

definition decode_Checkpoint :: "raw_Checkpoint \<Rightarrow> json_error + Checkpoint" where
  "decode_Checkpoint raw =
     and_then (field_uint64 (rc_epoch raw)) (\<lambda>epoch.
       Inr \<lparr>cp_Epoch = epoch, cp_Root = rc_root raw\<rparr>)"

definition decode_FinalityCheckpoints :: "raw_FinalityCheckpoints \<Rightarrow> json_error + FinalityCheckpoints" where
  "decode_FinalityCheckpoints raw =
     and_then (decode_Checkpoint (rf_previous_justified raw)) (\<lambda>previous.
     and_then (decode_Checkpoint (rf_current_justified raw)) (\<lambda>current.
     and_then (decode_Checkpoint (rf_finalized raw)) (\<lambda>finalized.
       Inr \<lparr>PreviousJustified = previous, CurrentJustified = current, Finalized = finalized\<rparr>)))"

definition decode_body :: "(string \<Rightarrow> 'r option) \<Rightarrow> ('r \<Rightarrow> json_error + 'a) \<Rightarrow> string \<Rightarrow> json_error + 'a" where
  "decode_body scan dec body = (case scan body of None \<Rightarrow> Inl JsonSyntax | Some raw \<Rightarrow> dec raw)"

text \<open>The zero values the callers declare before the request.\<close>

definition zero_Validator :: Validator where
  "zero_Validator =
     \<lparr>v_Index = 0, v_Balance = 0, v_Status = [], v_Pubkey = [], v_WithdrawalCredentials = [],
      v_EffectiveBalance = 0, v_Slashed = False, v_ActivationEligibilityEpoch = 0,
      v_ActivationEpoch = 0, v_ExitEpoch = 0, v_WithdrawableEpoch = 0\<rparr>"

definition zero_AttesterDutiesResponse :: AttesterDutiesResponse where
  "zero_AttesterDutiesResponse = \<lparr>DependentRoot = [], ExecutionOptimistic = False, Data = []\<rparr>"

definition zero_AttestationRewardsData :: AttestationRewardsData where
  "zero_AttestationRewardsData = \<lparr>IdealRewards = [], TotalRewards = []\<rparr>"

definition zero_FinalityCheckpoints :: FinalityCheckpoints where
  "zero_FinalityCheckpoints =
     \<lparr>PreviousJustified = \<lparr>cp_Epoch = 0, cp_Root = []\<rparr>,
      CurrentJustified = \<lparr>cp_Epoch = 0, cp_Root = []\<rparr>,
      Finalized = \<lparr>cp_Epoch = 0, cp_Root = []\<rparr>\<rparr>"

subsection \<open>internal/beacon: the typed operations\<close>

definition wrap :: "string \<Rightarrow> (error + 'a) \<times> net_event list \<Rightarrow> (error + 'a) \<times> net_event list" where
  "wrap msg r = (case r of (Inl err, tr) \<Rightarrow> (Inl (ErrWrap msg err), tr) | (Inr v, tr) \<Rightarrow> (Inr v, tr))"

definition GetValidator ::
  "Client \<Rightarrow> net \<Rightarrow> scanners \<Rightarrow> string \<Rightarrow> uint64 \<Rightarrow> (error + Validator) \<times> net_event list" where
  "GetValidator c nw sc stateID validatorID =
     wrap (''failed to get validator '' @ fmt_d validatorID)
       (get c nw (''/eth/v1/beacon/states/'' @ stateID @ ''/validators/'' @ fmt_d validatorID)
          (decode_body (scan_Validator sc) decode_Validator) zero_Validator)"

definition GetFinalityCheckpoints ::
  "Client \<Rightarrow> net \<Rightarrow> scanners \<Rightarrow> string \<Rightarrow> (error + FinalityCheckpoints) \<times> net_event list" where
  "GetFinalityCheckpoints c nw sc stateID =
     wrap ''failed to get finality checkpoints''
       (get c nw (''/eth/v1/beacon/states/'' @ stateID @ ''/finality_checkpoints'')
          (decode_body (scan_Checkpoints sc) decode_FinalityCheckpoints) zero_FinalityCheckpoints)"

definition GetAttesterDuties ::
  "Client \<Rightarrow> net \<Rightarrow> scanners \<Rightarrow> uint64 \<Rightarrow> uint64 list \<Rightarrow>
     (error + AttesterDutiesResponse) \<times> net_event list" where
  "GetAttesterDuties c nw sc epoch validatorIndices =
     wrap (''failed to get attester duties for epoch '' @ fmt_d epoch)
       (post c nw (''/eth/v1/validator/duties/attester/'' @ fmt_d epoch)
          (map fmt_d validatorIndices)
          (decode_body (scan_Duties sc) decode_AttesterDutiesResponse) zero_AttesterDutiesResponse)"

definition GetAttestationRewards ::
  "Client \<Rightarrow> net \<Rightarrow> scanners \<Rightarrow> uint64 \<Rightarrow> uint64 list \<Rightarrow>
     (error + AttestationRewardsData) \<times> net_event list" where
  "GetAttestationRewards c nw sc epoch validatorIndices =
     wrap (''failed to get attestation rewards for epoch '' @ fmt_d epoch)
       (post c nw (''/eth/v1/beacon/rewards/attestations/'' @ fmt_d epoch)
          (map fmt_d validatorIndices)
          (decode_body (scan_Rewards sc) decode_AttestationRewardsData) zero_AttestationRewardsData)"

subsection \<open>internal/storage: rows and the store writer\<close>

text \<open>
  A \<^verbatim>\<open>time.Time\<close> is the count of nanoseconds since the zero instant, so
  \<^verbatim>\<open>IsZero\<close> is equality with 0. Go's \<^verbatim>\<open>int\<close> has 64 bits on the platforms the
  monitor is built for.
\<close>

type_synonym Time = int

definition IsZero :: "Time \<Rightarrow> bool" where
  "IsZero t = (t = 0)"

record ValidatorSnapshot =
  vs_ValidatorIndex :: uint64
  vs_Slot :: uint64
  vs_Status :: string
  vs_Balance :: uint64
  vs_EffectiveBalance :: uint64
  vs_Timestamp :: Time

record AttestationDuty =
  ad_ValidatorIndex :: uint64
  ad_Epoch :: uint64
  ad_Slot :: uint64
  ad_CommitteeIndex :: int64
  ad_CommitteePosition :: int64
  ad_Timestamp :: Time

record AttestationReward =
  ar_ValidatorIndex :: uint64
  ar_Epoch :: uint64
  ar_HeadReward :: int64
  ar_SourceReward :: int64
  ar_TargetReward :: int64
  ar_TotalReward :: int64
  ar_Timestamp :: Time

record ValidatorPenalty =
  vp_ValidatorIndex :: uint64
  vp_Epoch :: uint64
  vp_Slot :: uint64
  vp_PenaltyType :: string
  vp_PenaltyGwei :: int64
  vp_Timestamp :: Time

definition PenaltyTypeAttestationMiss :: string where
  "PenaltyTypeAttestationMiss = ''attestation_miss''"

text \<open>
  A statement handed to the database session: the table and the columns of the
  \<^verbatim>\<open>INSERT\<close> text, and the Go values bound to its placeholders, in order.
\<close>

datatype bound_value =
    V_uint64 uint64
  | V_int64 int64
  | V_int int64
  | V_string string
  | V_Time Time

record statement =
  table :: string
  columns :: "string list"
  args :: "bound_value list"

datatype db_call = Exec statement | ExecuteBatch "statement list"

datatype log_line = LogError string error | LogWarn string error

text \<open>
  The world a job runs in: the wall clock (its \<open>k\<close>-th reading), the database session
  (the error, if any, that its \<open>k\<close>-th call reports), the calls made on the session so
  far with what each reported, and the lines logged.
\<close>

record world =
  now :: "nat \<Rightarrow> Time"
  clock_reads :: nat
  session_result :: "nat \<Rightarrow> string option"
  session_calls :: "(db_call \<times> string option) list"
  logged :: "log_line list"

definition time_Now :: "world \<Rightarrow> Time \<times> world" where
  "time_Now w = (now w (clock_reads w), w\<lparr>clock_reads := Suc (clock_reads w)\<rparr>)"

definition session_run :: "db_call \<Rightarrow> world \<Rightarrow> string option \<times> world" where
  "session_run call w =
     (let res = session_result w (length (session_calls w))
      in (res, w\<lparr>session_calls := session_calls w @ [(call, res)]\<rparr>))"

definition log_line :: "log_line \<Rightarrow> world \<Rightarrow> world" where
  "log_line l w = w\<lparr>logged := logged w @ [l]\<rparr>"

definition store_error :: "string \<Rightarrow> string option \<Rightarrow> error option" where
  "store_error msg res = (case res of None \<Rightarrow> None | Some e \<Rightarrow> Some (ErrStore msg e))"

definition snapshot_insert :: "ValidatorSnapshot \<Rightarrow> statement" where
  "snapshot_insert snapshot =
     \<lparr>table = ''validator_snapshots'',
      columns = [''validator_index'', ''slot'', ''status'', ''balance'', ''effective_balance'',
                 ''timestamp''],
      args = [V_uint64 (vs_ValidatorIndex snapshot), V_uint64 (vs_Slot snapshot),
              V_string (vs_Status snapshot), V_uint64 (vs_Balance snapshot),
              V_uint64 (vs_EffectiveBalance snapshot), V_Time (vs_Timestamp snapshot)]\<rparr>"

definition duty_insert :: "AttestationDuty \<Rightarrow> statement" where
  "duty_insert duty =
     \<lparr>table = ''attestation_duties'',
      columns = [''validator_index'', ''epoch'', ''slot'', ''committee_index'',
                 ''committee_position'', ''timestamp''],
      args = [V_uint64 (ad_ValidatorIndex duty), V_uint64 (ad_Epoch duty), V_uint64 (ad_Slot duty),
              V_int (ad_CommitteeIndex duty), V_int (ad_CommitteePosition duty),
              V_Time (ad_Timestamp duty)]\<rparr>"

definition reward_insert :: "AttestationReward \<Rightarrow> statement" where
  "reward_insert reward =
     \<lparr>table = ''attestation_rewards'',
      columns = [''validator_index'', ''epoch'', ''head_reward'', ''source_reward'',
                 ''target_reward'', ''total_reward'', ''timestamp''],
      args = [V_uint64 (ar_ValidatorIndex reward), V_uint64 (ar_Epoch reward),
              V_int64 (ar_HeadReward reward), V_int64 (ar_SourceReward reward),
              V_int64 (ar_TargetReward reward), V_int64 (ar_TotalReward reward),
              V_Time (ar_Timestamp reward)]\<rparr>"

definition penalty_insert :: "ValidatorPenalty \<Rightarrow> statement" where
  "penalty_insert penalty =
     \<lparr>table = ''validator_penalties'',
      columns = [''validator_index'', ''epoch'', ''slot'', ''penalty_type'', ''penalty_gwei'',
                 ''timestamp''],
      args = [V_uint64 (vp_ValidatorIndex penalty), V_uint64 (vp_Epoch penalty),
              V_uint64 (vp_Slot penalty), V_string (vp_PenaltyType penalty),
              V_int64 (vp_PenaltyGwei penalty), V_Time (vp_Timestamp penalty)]\<rparr>"

text \<open>
  The save operations take the row by pointer and may write its timestamp, so each
  returns the row as it is afterwards beside the error.
\<close>

definition SaveValidatorSnapshot ::
  "world \<Rightarrow> ValidatorSnapshot \<Rightarrow> (error option \<times> ValidatorSnapshot) \<times> world" where
  "SaveValidatorSnapshot w snapshot =
     (let (snapshot1, w1) =
            (if IsZero (vs_Timestamp snapshot)
             then (case time_Now w of (t, w') \<Rightarrow> (snapshot\<lparr>vs_Timestamp := t\<rparr>, w'))
             else (snapshot, w));
          (res, w2) = session_run (Exec (snapshot_insert snapshot1)) w1
      in ((store_error ''failed to save validator snapshot'' res, snapshot1), w2))"

definition SaveAttestationDuty ::
  "world \<Rightarrow> AttestationDuty \<Rightarrow> (error option \<times> AttestationDuty) \<times> world" where
  "SaveAttestationDuty w duty =
     (let (duty1, w1) =
            (if IsZero (ad_Timestamp duty)
             then (case time_Now w of (t, w') \<Rightarrow> (duty\<lparr>ad_Timestamp := t\<rparr>, w'))
             else (duty, w));
          (res, w2) = session_run (Exec (duty_insert duty1)) w1
      in ((store_error ''failed to save attestation duty'' res, duty1), w2))"

definition SaveAttestationReward ::
  "world \<Rightarrow> AttestationReward \<Rightarrow> (error option \<times> AttestationReward) \<times> world" where
  "SaveAttestationReward w reward =
     (let (reward1, w1) =
            (if IsZero (ar_Timestamp reward)
             then (case time_Now w of (t, w') \<Rightarrow> (reward\<lparr>ar_Timestamp := t\<rparr>, w'))
             else (reward, w));
          (res, w2) = session_run (Exec (reward_insert reward1)) w1
      in ((store_error ''failed to save attestation reward'' res, reward1), w2))"

definition SaveValidatorPenalty ::
  "world \<Rightarrow> ValidatorPenalty \<Rightarrow> (error option \<times> ValidatorPenalty) \<times> world" where
  "SaveValidatorPenalty w penalty =
     (let (penalty1, w1) =
            (if IsZero (vp_Timestamp penalty)
             then (case time_Now w of (t, w') \<Rightarrow> (penalty\<lparr>vp_Timestamp := t\<rparr>, w'))
             else (penalty, w));
          (res, w2) = session_run (Exec (penalty_insert penalty1)) w1
      in ((store_error ''failed to save validator penalty'' res, penalty1), w2))"

text \<open>The loops that fill a batch: each row is stamped when its timestamp is zero, then queued.\<close>

fun batch_duties ::
  "world \<Rightarrow> AttestationDuty list \<Rightarrow> (AttestationDuty list \<times> statement list) \<times> world" where
  "batch_duties w [] = (([], []), w)"
| "batch_duties w (duty # rest) =
     (let (duty1, w1) =
            (if IsZero (ad_Timestamp duty)
             then (case time_Now w of (t, w') \<Rightarrow> (duty\<lparr>ad_Timestamp := t\<rparr>, w'))
             else (duty, w))
      in case batch_duties w1 rest of
           ((rows, batch), w2) \<Rightarrow> ((duty1 # rows, duty_insert duty1 # batch), w2))"

definition SaveAttestationDuties ::
  "world \<Rightarrow> AttestationDuty list \<Rightarrow> (error option \<times> AttestationDuty list) \<times> world" where
  "SaveAttestationDuties w duties =
     (case batch_duties w duties of
        ((rows, batch), w1) \<Rightarrow>
          (case session_run (ExecuteBatch batch) w1 of
             (res, w2) \<Rightarrow> ((store_error ''failed to save attestation duties batch'' res, rows), w2)))"

fun batch_rewards ::
  "world \<Rightarrow> AttestationReward list \<Rightarrow> (AttestationReward list \<times> statement list) \<times> world" where
  "batch_rewards w [] = (([], []), w)"
| "batch_rewards w (reward # rest) =
     (let (reward1, w1) =
            (if IsZero (ar_Timestamp reward)
             then (case time_Now w of (t, w') \<Rightarrow> (reward\<lparr>ar_Timestamp := t\<rparr>, w'))
             else (reward, w))
      in case batch_rewards w1 rest of
           ((rows, batch), w2) \<Rightarrow> ((reward1 # rows, reward_insert reward1 # batch), w2))"

definition SaveAttestationRewards ::
  "world \<Rightarrow> AttestationReward list \<Rightarrow> (error option \<times> AttestationReward list) \<times> world" where
  "SaveAttestationRewards w rewards =
     (case batch_rewards w rewards of
        ((rows, batch), w1) \<Rightarrow>
          (case session_run (ExecuteBatch batch) w1 of
             (res, w2) \<Rightarrow> ((store_error ''failed to save attestation rewards batch'' res, rows), w2)))"

subsection \<open>internal/monitor: the scheduler's event generator\<close>

definition SlotsPerEpoch :: uint64 where
  "SlotsPerEpoch = 32"

datatype EventType = EventTypeSlotPoll | EventTypeEpochBoundary | EventTypeEpochFinalized

record ScheduleEvent =
  ev_Slot :: uint64
  ev_Epoch :: uint64
  ev_Type :: EventType
  ev_Validators :: "uint64 list"

record Scheduler =
  client :: Client
  validators :: "uint64 list"
  intervalSlots :: int
  genesisTime :: Time
  lastEpoch :: uint64
  lastFinalEpoch :: uint64
  warnings :: "log_line list"

definition NewScheduler :: "Client \<Rightarrow> uint64 list \<Rightarrow> int \<Rightarrow> Scheduler" where
  "NewScheduler c vs interval =
     \<lparr>client = c, validators = vs, intervalSlots = interval, genesisTime = 0,
      lastEpoch = 0, lastFinalEpoch = 0, warnings = []\<rparr>"

text \<open>
  The loop of lines 341 to 348: \<open>e\<close> is a \<^verbatim>\<open>uint64\<close>, so \<open>e + 1\<close> wraps, and the loop
  may run forever; \<open>None\<close> is that it does not return.
\<close>

partial_function (option) finalized_loop ::
  "uint64 \<Rightarrow> uint64 list \<Rightarrow> uint64 \<Rightarrow> uint64 \<Rightarrow> ScheduleEvent list \<Rightarrow> ScheduleEvent list option" where
  "finalized_loop slot vs e finalizedEpoch events =
     (if e \<le> finalizedEpoch
      then finalized_loop slot vs (e + 1) finalizedEpoch
             (events @ [\<lparr>ev_Slot = slot, ev_Epoch = e, ev_Type = EventTypeEpochFinalized,
                         ev_Validators = vs\<rparr>])
      else Some events)"

declare finalized_loop.simps [code]

text \<open>
  \<^verbatim>\<open>NextEvents\<close> returns the events with its error (always nil) and leaves the
  scheduler updated; \<open>None\<close> when it does not return.
\<close>

definition NextEvents ::
  "Scheduler \<Rightarrow> net \<Rightarrow> scanners \<Rightarrow> uint64 \<Rightarrow>
     ((ScheduleEvent list \<times> error option) \<times> Scheduler) option" where
  "NextEvents s nw sc slot =
     (let epoch = slot div SlotsPerEpoch;
          events = [\<lparr>ev_Slot = slot, ev_Epoch = epoch, ev_Type = EventTypeSlotPoll,
                     ev_Validators = validators s\<rparr>];
          (s1, events1) =
            (if slot mod SlotsPerEpoch = 0 \<and> epoch \<noteq> lastEpoch s
             then (s\<lparr>lastEpoch := epoch\<rparr>,
                   events @ [\<lparr>ev_Slot = slot, ev_Epoch = epoch + 1,
                               ev_Type = EventTypeEpochBoundary, ev_Validators = validators s\<rparr>])
             else (s, events))
      in case fst (GetFinalityCheckpoints (client s1) nw sc ''head'') of
           Inl err \<Rightarrow>
             Some ((events1, None),
                   s1\<lparr>warnings := warnings s1 @ [LogWarn ''Failed to get finality checkpoints'' err]\<rparr>)
         | Inr checkpoints \<Rightarrow>
             (let finalizedEpoch = cp_Epoch (Finalized checkpoints) in
              if finalizedEpoch > lastFinalEpoch s1 then
                (case finalized_loop slot (validators s1) (lastFinalEpoch s1 + 1) finalizedEpoch events1 of
                   None \<Rightarrow> None
                 | Some events2 \<Rightarrow> Some ((events2, None), s1\<lparr>lastFinalEpoch := finalizedEpoch\<rparr>))
              else Some ((events1, None), s1)))"

subsection \<open>internal/monitor: job processing\<close>

datatype JobType = JobTypeStatus | JobTypeDuties | JobTypeRewards | JobTypeOther int

record Job =
  job_ValidatorIndex :: uint64
  job_Slot :: uint64
  job_Epoch :: uint64
  job_Type :: JobType

record Monitor =
  cfg_Validators :: "uint64 list"
  m_client :: Client

text \<open>What \<^verbatim>\<open>Process\<close> returns in its \<^verbatim>\<open>interface{}\<close>.\<close>

datatype job_data =
    SnapshotData ValidatorSnapshot
  | DutiesData "AttestationDuty list"
  | RewardsData "AttestationReward list"
  | NoData

definition processStatusJob ::
  "Monitor \<Rightarrow> net \<Rightarrow> scanners \<Rightarrow> world \<Rightarrow> Job \<Rightarrow> (error + ValidatorSnapshot) \<times> world" where
  "processStatusJob m nw sc w job =
     (case fst (GetValidator (m_client m) nw sc ''head'' (job_ValidatorIndex job)) of
        Inl err \<Rightarrow> (Inl err, w)
      | Inr validator \<Rightarrow>
          (case time_Now w of
             (t, w1) \<Rightarrow>
               (case SaveValidatorSnapshot w1
                       \<lparr>vs_ValidatorIndex = job_ValidatorIndex job, vs_Slot = job_Slot job,
                        vs_Status = v_Status validator, vs_Balance = v_Balance validator,
                        vs_EffectiveBalance = v_EffectiveBalance validator, vs_Timestamp = t\<rparr> of
                  ((None, snapshot), w2) \<Rightarrow> (Inr snapshot, w2)
                | ((Some err, snapshot), w2) \<Rightarrow>
                    (Inr snapshot, log_line (LogError ''Failed to save validator snapshot'' err) w2))))"

fun duties_loop ::
  "Job \<Rightarrow> world \<Rightarrow> AttesterDuty list \<Rightarrow> AttestationDuty list \<Rightarrow> AttestationDuty list \<times> world" where
  "duties_loop job w [] duties = (duties, w)"
| "duties_loop job w (d # ds) duties =
     (case time_Now w of
        (t, w1) \<Rightarrow>
          duties_loop job w1 ds
            (duties @ [\<lparr>ad_ValidatorIndex = d_ValidatorIndex d, ad_Epoch = job_Epoch job,
                         ad_Slot = d_Slot d, ad_CommitteeIndex = d_CommitteeIndex d,
                         ad_CommitteePosition = d_ValidatorCommitteeIndex d,
                         ad_Timestamp = t\<rparr>]))"

definition processDutiesJob ::
  "Monitor \<Rightarrow> net \<Rightarrow> scanners \<Rightarrow> world \<Rightarrow> Job \<Rightarrow> (error + AttestationDuty list) \<times> world" where
  "processDutiesJob m nw sc w job =
     (case fst (GetAttesterDuties (m_client m) nw sc (job_Epoch job) (cfg_Validators m)) of
        Inl err \<Rightarrow> (Inl err, w)
      | Inr resp \<Rightarrow>
          (case duties_loop job w (Data resp) [] of
             (duties, w1) \<Rightarrow>
               (case SaveAttestationDuties w1 duties of
                  ((None, duties1), w2) \<Rightarrow> (Inr duties1, w2)
                | ((Some err, duties1), w2) \<Rightarrow>
                    (Inr duties1, log_line (LogError ''Failed to save attestation duties'' err) w2))))"

fun rewards_loop ::
  "Job \<Rightarrow> world \<Rightarrow> beacon_AttestationReward list \<Rightarrow> AttestationReward list \<Rightarrow>
     ValidatorPenalty list \<Rightarrow> (AttestationReward list \<times> ValidatorPenalty list) \<times> world" where
  "rewards_loop job w [] rewards penalties = ((rewards, penalties), w)"
| "rewards_loop job w (r # rs) rewards penalties =
     (let totalReward = r_Head r + r_Source r + r_Target r in
      case time_Now w of
        (t, w1) \<Rightarrow>
          (let reward = \<lparr>ar_ValidatorIndex = r_ValidatorIndex r, ar_Epoch = job_Epoch job,
                         ar_HeadReward = r_Head r, ar_SourceReward = r_Source r,
                         ar_TargetReward = r_Target r, ar_TotalReward = totalReward,
                         ar_Timestamp = t\<rparr>
           in if sint totalReward < 0 then
                (case time_Now w1 of
                   (t', w2) \<Rightarrow>
                     rewards_loop job w2 rs (rewards @ [reward])
                       (penalties @ [\<lparr>vp_ValidatorIndex = r_ValidatorIndex r,
                                       vp_Epoch = job_Epoch job, vp_Slot = job_Slot job,
                                       vp_PenaltyType = PenaltyTypeAttestationMiss,
                                       vp_PenaltyGwei = - totalReward, vp_Timestamp = t'\<rparr>]))
              else rewards_loop job w1 rs (rewards @ [reward]) penalties))"

fun save_penalties :: "world \<Rightarrow> ValidatorPenalty list \<Rightarrow> world" where
  "save_penalties w [] = w"
| "save_penalties w (penalty # rest) =
     (case SaveValidatorPenalty w penalty of
        ((None, penalty1), w1) \<Rightarrow> save_penalties w1 rest
      | ((Some err, penalty1), w1) \<Rightarrow>
          save_penalties (log_line (LogError ''Failed to save validator penalty'' err) w1) rest)"

definition processRewardsJob ::
  "Monitor \<Rightarrow> net \<Rightarrow> scanners \<Rightarrow> world \<Rightarrow> Job \<Rightarrow> (error + AttestationReward list) \<times> world" where
  "processRewardsJob m nw sc w job =
     (case fst (GetAttestationRewards (m_client m) nw sc (job_Epoch job) (cfg_Validators m)) of
        Inl err \<Rightarrow> (Inl err, w)
      | Inr resp \<Rightarrow>
          (case rewards_loop job w (TotalRewards resp) [] [] of
             ((rewards, penalties), w1) \<Rightarrow>
               (case SaveAttestationRewards w1 rewards of
                  ((res, rewards1), w2) \<Rightarrow>
                    (let w3 = (case res of
                                 None \<Rightarrow> w2
                               | Some err \<Rightarrow>
                                   log_line (LogError ''Failed to save attestation rewards'' err) w2)
                     in (Inr rewards1, save_penalties w3 penalties)))))"

definition Process ::
  "Monitor \<Rightarrow> net \<Rightarrow> scanners \<Rightarrow> world \<Rightarrow> Job \<Rightarrow> (error + job_data) \<times> world" where
  "Process m nw sc w job =
     (case job_Type job of
        JobTypeStatus \<Rightarrow>
          (case processStatusJob m nw sc w job of
             (Inl err, w') \<Rightarrow> (Inl err, w') | (Inr snapshot, w') \<Rightarrow> (Inr (SnapshotData snapshot), w'))
      | JobTypeDuties \<Rightarrow>
          (case processDutiesJob m nw sc w job of
             (Inl err, w') \<Rightarrow> (Inl err, w') | (Inr duties, w') \<Rightarrow> (Inr (DutiesData duties), w'))
      | JobTypeRewards \<Rightarrow>
          (case processRewardsJob m nw sc w job of
             (Inl err, w') \<Rightarrow> (Inl err, w') | (Inr rewards, w') \<Rightarrow> (Inr (RewardsData rewards), w'))
      | JobTypeOther k \<Rightarrow> (Inr NoData, w))"

subsection \<open>Concrete inputs\<close>

text \<open>
  A client with three retries; a network that answers every attempt with the same
  status and body; and scanners that read the whole body as the value of one integer
  member (the finalized epoch, the balance, the head reward) beside fixed other members.
\<close>

definition example_client :: Client where
  "example_client = \<lparr>baseURL = ''http://localhost:5052'', maxRetries = 3\<rparr>"

definition net_answering :: "int \<Rightarrow> string \<Rightarrow> net" where
  "net_answering status body =
     \<lparr>limiter_Wait = (\<lambda>k. None), NewRequest = None,
      httpClient_Do = (\<lambda>k. Response status body),
      timer_fires = (\<lambda>k. True), jitter_delay = (\<lambda>n. 200 * 1000000)\<rparr>"

definition example_scanners :: scanners where
  "example_scanners =
     \<lparr>scan_Validator = (\<lambda>body. Some
        \<lparr>rv_index = Some (quoted ''100''), rv_balance = Some body, rv_status = ''active_ongoing'',
         rv_pubkey = [], rv_withdrawal_credentials = [],
         rv_effective_balance = Some (quoted ''32000000000''), rv_slashed = False,
         rv_activation_eligibility_epoch = Some ''0'', rv_activation_epoch = Some ''0'',
         rv_exit_epoch = Some (quoted ''18446744073709551615''),
         rv_withdrawable_epoch = Some (quoted ''18446744073709551615'')\<rparr>),
      scan_Duties = (\<lambda>body. Some
        \<lparr>rdr_dependent_root = [], rdr_execution_optimistic = False,
         rdr_data = [\<lparr>rd_pubkey = [], rd_validator_index = Some (quoted ''100''),
                      rd_committee_index = Some (quoted ''3''), rd_committee_length = Some (quoted ''128''),
                      rd_committees_at_slot = Some (quoted ''4''),
                      rd_validator_committee_index = Some (quoted ''5''), rd_slot = Some body\<rparr>]\<rparr>),
      scan_Rewards = (\<lambda>body. Some
        \<lparr>rr_ideal_rewards = [],
         rr_total_rewards = [\<lparr>rr_validator_index = Some (quoted ''100''), rr_head = Some body,
                               rr_target = Some (quoted ''200''), rr_source = Some (quoted ''-500'')\<rparr>]\<rparr>),
      scan_Checkpoints = (\<lambda>body. Some
        \<lparr>rf_previous_justified = \<lparr>rc_epoch = Some (quoted ''11''), rc_root = []\<rparr>,
         rf_current_justified = \<lparr>rc_epoch = Some (quoted ''12''), rc_root = []\<rparr>,
         rf_finalized = \<lparr>rc_epoch = Some body, rc_root = []\<rparr>\<rparr>)\<rparr>"

definition example_scheduler :: Scheduler where
  "example_scheduler =
     \<lparr>client = example_client, validators = [100], intervalSlots = 1, genesisTime = 0,
      lastEpoch = 0, lastFinalEpoch = 10, warnings = []\<rparr>"

definition example_monitor :: Monitor where
  "example_monitor = \<lparr>cfg_Validators = [100], m_client = example_client\<rparr>"

text \<open>A world whose clock reads 1000, 1001, ... and whose session fails when \<open>fails\<close> says so.\<close>

definition example_world :: "(nat \<Rightarrow> bool) \<Rightarrow> world" where
  "example_world fails =
     \<lparr>now = (\<lambda>k. 1000 + int k), clock_reads = 0,
      session_result = (\<lambda>k. if fails k then Some ''write timeout'' else None),
      session_calls = [], logged = []\<rparr>"

text \<open>A network whose first two attempts meet status 503 and whose third succeeds.\<close>

definition net_flaky :: "string \<Rightarrow> net" where
  "net_flaky body =
     \<lparr>limiter_Wait = (\<lambda>k. None), NewRequest = None,
      httpClient_Do = (\<lambda>k. if k < 2 then Response 503 ''busy'' else Response 200 body),
      timer_fires = (\<lambda>k. True), jitter_delay = (\<lambda>n. 200 * 1000000)\<rparr>"

definition example_job :: "JobType \<Rightarrow> Job" where
  "example_job ty = \<lparr>job_ValidatorIndex = 100, job_Slot = 1600, job_Epoch = 50, job_Type = ty\<rparr>"


text \<open>
  A rewards response at the bounds of \<^verbatim>\<open>int64\<close>: the scanners read the body as three
  entries of total rewards, for validators 100, 101 and 102, whose members are quoted
  decimal integers between \<open>-2^63\<close> and \<open>2^63 - 1\<close>.
\<close>

definition boundary_scanners :: scanners where
  "boundary_scanners =
     example_scanners\<lparr>scan_Rewards := (\<lambda>body. Some
        \<lparr>rr_ideal_rewards = [],
         rr_total_rewards =
           [\<lparr>rr_validator_index = Some (quoted ''100''),
             rr_head = Some (quoted ''-9223372036854775808''),
             rr_target = Some (quoted ''0''), rr_source = Some (quoted ''0'')\<rparr>,
            \<lparr>rr_validator_index = Some (quoted ''101''),
             rr_head = Some (quoted ''-9223372036854775808''),
             rr_target = Some (quoted ''0''), rr_source = Some (quoted ''-1'')\<rparr>,
            \<lparr>rr_validator_index = Some (quoted ''102''),
             rr_head = Some (quoted ''9223372036854775807''),
             rr_target = Some (quoted ''0''), rr_source = Some (quoted ''1'')\<rparr>]\<rparr>)\<rparr>"

definition boundary_monitor :: Monitor where
  "boundary_monitor = \<lparr>cfg_Validators = [100, 101, 102], m_client = example_client\<rparr>"
subsection \<open>Notions the statements use\<close>

text \<open>
  These are not code of the repository. They count the HTTP attempts in a trace, say
  which answers the retry policy calls transient, and name the rows the jobs build and
  the events the specification describes, for the theorems to state the results with.
\<close>

definition sends :: "net_event list \<Rightarrow> nat" where
  "sends tr = length (filter is_HttpDo tr)"

text \<open>A transport-level error, or a status of 429 or 503.\<close>

definition transient :: "http_result \<Rightarrow> bool" where
  "transient r = (case r of TransportError e \<Rightarrow> True | Response status body \<Rightarrow> status = 429 \<or> status = 503)"

text \<open>
  No attempt follows another without a backoff wait in between: \<open>ready\<close> says whether
  an attempt may come next.
\<close>

fun spaced :: "bool \<Rightarrow> net_event list \<Rightarrow> bool" where
  "spaced ready [] = True"
| "spaced ready (LimiterWait # tr) = spaced ready tr"
| "spaced ready (HttpDo m u b # tr) = (ready \<and> spaced False tr)"
| "spaced ready (BackoffWait d # tr) = spaced True tr"

text \<open>One iteration of the retry loop, without the recursive call (used in the proofs).\<close>

datatype 'a iteration = Return "error + 'a" "net_event list" | Continue error Backoff "net_event list"

definition iteration ::
  "Client \<Rightarrow> net \<Rightarrow> string \<Rightarrow> string \<Rightarrow> (string \<Rightarrow> json_error + 'a) \<Rightarrow> int \<Rightarrow> Backoff \<Rightarrow> 'a iteration" where
  "iteration c nw meth url decode attempt b =
     (case limiter_Wait nw attempt of
        Some err \<Rightarrow> Return (Inl (ErrRateLimiter err)) [LimiterWait]
      | None \<Rightarrow>
     (case NewRequest nw of
        Some err \<Rightarrow> Return (Inl (ErrCreateRequest err)) [LimiterWait]
      | None \<Rightarrow>
     (case httpClient_Do nw attempt of
        TransportError err \<Rightarrow>
          if attempt < maxRetries c then
            (case Wait (jitter_delay nw) (timer_fires nw attempt) b of
               ((False, d), b') \<Rightarrow> Return (Inl ErrContext) [LimiterWait, HttpDo meth url None, BackoffWait d]
             | ((True, d), b') \<Rightarrow> Continue (ErrTransport err) b' [LimiterWait, HttpDo meth url None, BackoffWait d])
          else Return (Inl (ErrRequestFailedAfter (attempt + 1) (ErrTransport err))) [LimiterWait, HttpDo meth url None]
      | Response status body \<Rightarrow>
          if ShouldRetry status then
            (if attempt < maxRetries c then
               (case Wait (jitter_delay nw) (timer_fires nw attempt) b of
                  ((False, d), b') \<Rightarrow> Return (Inl ErrContext) [LimiterWait, HttpDo meth url None, BackoffWait d]
                | ((True, d), b') \<Rightarrow> Continue (RetryableError status body) b' [LimiterWait, HttpDo meth url None, BackoffWait d])
             else Return (Inl (RetryableError status body)) [LimiterWait, HttpDo meth url None])
          else if status \<noteq> 200 then
            Return (Inl (ErrUnexpectedStatus status body)) [LimiterWait, HttpDo meth url None]
          else
            (case decode body of
               Inl e \<Rightarrow> Return (Inl (ErrDecode e)) [LimiterWait, HttpDo meth url None]
             | Inr v \<Rightarrow> Return (Inr v) [LimiterWait, HttpDo meth url None]))))"

text \<open>The finalization event of an epoch, and the epochs from \<open>lo\<close> to \<open>hi\<close> in ascending order.\<close>

definition fin_event :: "uint64 \<Rightarrow> uint64 list \<Rightarrow> uint64 \<Rightarrow> ScheduleEvent" where
  "fin_event slot vs e = \<lparr>ev_Slot = slot, ev_Epoch = e, ev_Type = EventTypeEpochFinalized, ev_Validators = vs\<rparr>"

definition epochs_between :: "uint64 \<Rightarrow> uint64 \<Rightarrow> uint64 list" where
  "epochs_between lo hi = map of_nat [unat lo ..< Suc (unat hi)]"

text \<open>The timestamp a row is written with: the clock's reading when the row's own is zero.\<close>

definition stamp :: "world \<Rightarrow> Time \<Rightarrow> Time" where
  "stamp w t = (if IsZero t then now w (clock_reads w) else t)"

text \<open>
  The rows a job builds from one entry of a response, as the code computes them: the
  total of a reward is the \<^verbatim>\<open>int64\<close> sum of the three components and the amount of
  a penalty its \<^verbatim>\<open>int64\<close> negation, both wrapping around, and \<open>negative_total\<close> is the
  test \<^verbatim>\<open>totalReward < 0\<close> on that sum. They abbreviate the results of the jobs in the
  statements below. Lists of rows are compared up to their timestamps.
\<close>

definition reward_of :: "Job \<Rightarrow> beacon_AttestationReward \<Rightarrow> Time \<Rightarrow> AttestationReward" where
  "reward_of job r t =
     \<lparr>ar_ValidatorIndex = r_ValidatorIndex r, ar_Epoch = job_Epoch job,
      ar_HeadReward = r_Head r, ar_SourceReward = r_Source r, ar_TargetReward = r_Target r,
      ar_TotalReward = r_Head r + r_Source r + r_Target r, ar_Timestamp = t\<rparr>"

definition penalty_of :: "Job \<Rightarrow> beacon_AttestationReward \<Rightarrow> Time \<Rightarrow> ValidatorPenalty" where
  "penalty_of job r t =
     \<lparr>vp_ValidatorIndex = r_ValidatorIndex r, vp_Epoch = job_Epoch job, vp_Slot = job_Slot job,
      vp_PenaltyType = ''attestation_miss'',
      vp_PenaltyGwei = - (r_Head r + r_Source r + r_Target r), vp_Timestamp = t\<rparr>"

definition negative_total :: "beacon_AttestationReward \<Rightarrow> bool" where
  "negative_total r = (sint (r_Head r + r_Source r + r_Target r) < 0)"

definition duty_of :: "Job \<Rightarrow> AttesterDuty \<Rightarrow> Time \<Rightarrow> AttestationDuty" where
  "duty_of job d t =
     \<lparr>ad_ValidatorIndex = d_ValidatorIndex d, ad_Epoch = job_Epoch job, ad_Slot = d_Slot d,
      ad_CommitteeIndex = d_CommitteeIndex d, ad_CommitteePosition = d_ValidatorCommitteeIndex d,
      ad_Timestamp = t\<rparr>"

definition same_rewards :: "AttestationReward list \<Rightarrow> AttestationReward list \<Rightarrow> bool" where
  "same_rewards xs ys = (map (\<lambda>r. r\<lparr>ar_Timestamp := 0\<rparr>) xs = map (\<lambda>r. r\<lparr>ar_Timestamp := 0\<rparr>) ys)"

definition same_penalties :: "ValidatorPenalty list \<Rightarrow> ValidatorPenalty list \<Rightarrow> bool" where
  "same_penalties xs ys = (map (\<lambda>r. r\<lparr>vp_Timestamp := 0\<rparr>) xs = map (\<lambda>r. r\<lparr>vp_Timestamp := 0\<rparr>) ys)"

definition same_duties :: "AttestationDuty list \<Rightarrow> AttestationDuty list \<Rightarrow> bool" where
  "same_duties xs ys = (map (\<lambda>r. r\<lparr>ad_Timestamp := 0\<rparr>) xs = map (\<lambda>r. r\<lparr>ad_Timestamp := 0\<rparr>) ys)"

text \<open>
  The total of an entry in the words of the specification: head + source + target, a
  sum of integers.
\<close>

definition spec_total :: "beacon_AttestationReward \<Rightarrow> int" where
  "spec_total r = sint (r_Head r) + sint (r_Source r) + sint (r_Target r)"

text \<open>The signed 64-bit values bound to a statement, read as integers, in order.\<close>

definition int64_args :: "statement \<Rightarrow> int list" where
  "int64_args st = concat (map (\<lambda>a. case a of V_int64 v \<Rightarrow> [sint v] | _ \<Rightarrow> []) (args st))"

section \<open>Properties\<close>

subsection \<open>The integer decoders\<close>

lemma digit_of_digit: "is_digit c \<Longrightarrow> digit_of c = Some (of_char c - 48) \<and> (of_char c :: nat) - 48 < 10"
  by (auto simp: is_digit_def digit_of_def Let_def)

lemma digit_of_nondigit: "\<not> is_digit c \<Longrightarrow> digit_of c = None \<or> (\<exists>d. digit_of c = Some d \<and> 10 \<le> d)"
  by (auto simp: is_digit_def digit_of_def Let_def)

lemma dec_from_ge: "a \<le> dec_from a ds"
proof (induction ds arbitrary: a)
  case Nil
  then show ?case by (simp add: dec_from_def)
next
  case (Cons c cs)
  have "a \<le> a * 10 + (of_char c - 48)" by simp
  also have "\<dots> \<le> dec_from (a * 10 + (of_char c - 48)) cs" by (rule Cons.IH)
  finally show ?case by (simp add: dec_from_def)
qed

lemma dec_from_Cons: "dec_from a (c # cs) = dec_from (a * 10 + (of_char c - 48)) cs"
  by (simp add: dec_from_def)

lemma unat_cutoff10: "unat cutoff10 = 1844674407370955162"
  by (simp add: cutoff10_def maxUint64_def unat_div unat_word_ariths)

lemma ge_cutoff10: "(cutoff10 \<le> n) = (1844674407370955162 \<le> unat n)"
  by (simp add: word_le_nat_alt unat_cutoff10)

lemma unat_step:
  fixes n :: uint64
  assumes "unat n < 1844674407370955162" "d < 10"
  shows "unat (n * 10) = unat n * 10"
    and "unat (n * 10 + of_nat d) = (unat n * 10 + d) mod 2 ^ 64"
proof -
  show a: "unat (n * 10) = unat n * 10"
    using assms by (simp add: unat_word_ariths)
  show "unat (n * 10 + of_nat d) = (unat n * 10 + d) mod 2 ^ 64"
    using assms a by (simp add: unat_word_ariths unat_of_nat mod_add_right_eq)
qed

lemma step_overflow:
  fixes n :: uint64
  assumes "unat n < 1844674407370955162" "d < 10"
  shows "(n * 10 + of_nat d < n * 10) = (2 ^ 64 \<le> unat n * 10 + d)"
proof -
  have b: "unat n * 10 + d < 2 * 2 ^ 64" using assms by simp
  show ?thesis
  proof (cases "2 ^ 64 \<le> unat n * 10 + d")
    case True
    then have "(unat n * 10 + d) mod 2 ^ 64 = unat n * 10 + d - 2 ^ 64"
      using b by (simp add: mod_if)
    then show ?thesis using True assms
      by (simp add: word_less_nat_alt unat_step)
  next
    case False
    then show ?thesis using assms
      by (simp add: word_less_nat_alt unat_step)
  qed
qed

lemma not_gt_max: "\<not> (x :: uint64) > maxUint64"
  by (simp add: maxUint64_def not_less)


lemma ParseUint_loop_step:
  fixes n :: uint64
  assumes "digit_of c = Some d" "d < 10" "unat n < 1844674407370955162" "unat n * 10 + d < 2 ^ 64"
  shows "ParseUint_loop s0 n (c # cs) = ParseUint_loop s0 (n * 10 + of_nat d) cs"
    and "unat (n * 10 + of_nat d) = unat n * 10 + d"
proof -
  show u: "unat (n * 10 + of_nat d) = unat n * 10 + d"
    using unat_step(2) [OF assms(3) assms(2)] assms(4) by simp
  have "\<not> (n * 10 + of_nat d < n * 10)"
    using step_overflow [OF assms(3) assms(2)] assms(4) by simp
  then show "ParseUint_loop s0 n (c # cs) = ParseUint_loop s0 (n * 10 + of_nat d) cs"
    using assms by (simp add: ge_cutoff10 not_gt_max Let_def)
qed

lemma ParseUint_loop_overflow:
  fixes n :: uint64
  assumes "digit_of c = Some d" "d < 10" "2 ^ 64 \<le> unat n * 10 + d"
  shows "ParseUint_loop s0 n (c # cs) = (maxUint64, Some (rangeError ''ParseUint'' s0))"
proof (cases "1844674407370955162 \<le> unat n")
  case True
  then show ?thesis using assms by (simp add: ge_cutoff10)
next
  case False
  then have lt: "unat n < 1844674407370955162" by simp
  have "n * 10 + of_nat d < n * 10"
    using step_overflow [OF lt assms(2)] assms(3) by simp
  then show ?thesis using assms lt by (simp add: ge_cutoff10 Let_def)
qed

lemma ParseUint_loop_ok:
  "list_all is_digit ds \<Longrightarrow> dec_from (unat n) ds < 2 ^ 64 \<Longrightarrow>
   ParseUint_loop s0 n ds = (of_nat (dec_from (unat n) ds), None)"
proof (induction ds arbitrary: n)
  case Nil
  then show ?case by (simp add: dec_from_def)
next
  case (Cons c cs)
  define d where "d = (of_char c :: nat) - 48"
  from Cons.prems have dig: "is_digit c" and rest: "list_all is_digit cs" by simp_all
  have d: "digit_of c = Some d" "d < 10" using digit_of_digit [OF dig] by (simp_all add: d_def)
  have v: "dec_from (unat n) (c # cs) = dec_from (unat n * 10 + d) cs"
    by (simp add: dec_from_Cons d_def)
  have "unat n * 10 + d \<le> dec_from (unat n * 10 + d) cs" by (rule dec_from_ge)
  with Cons.prems(2) v have small: "unat n * 10 + d < 2 ^ 64" by simp
  then have lt: "unat n < 1844674407370955162" by simp
  note st = ParseUint_loop_step [OF d lt small]
  have "ParseUint_loop s0 (n * 10 + of_nat d) cs
          = (of_nat (dec_from (unat (n * 10 + of_nat d)) cs), None)"
    using Cons.prems(2) v by (intro Cons.IH [OF rest]) (simp add: st(2))
  then show ?case by (simp only: st v)
qed

lemma ParseUint_loop_range:
  "list_all is_digit ds \<Longrightarrow> 2 ^ 64 \<le> dec_from (unat n) ds \<Longrightarrow>
   ParseUint_loop s0 n ds = (maxUint64, Some (rangeError ''ParseUint'' s0))"
proof (induction ds arbitrary: n)
  case Nil
  then show ?case using unsigned_less [of n, where ?'a = nat] by (simp add: dec_from_def)
next
  case (Cons c cs)
  define d where "d = (of_char c :: nat) - 48"
  from Cons.prems have dig: "is_digit c" and rest: "list_all is_digit cs" by simp_all
  have d: "digit_of c = Some d" "d < 10" using digit_of_digit [OF dig] by (simp_all add: d_def)
  have v: "dec_from (unat n) (c # cs) = dec_from (unat n * 10 + d) cs"
    by (simp add: dec_from_Cons d_def)
  show ?case
  proof (cases "2 ^ 64 \<le> unat n * 10 + d")
    case True
    then show ?thesis by (rule ParseUint_loop_overflow [OF d])
  next
    case False
    then have small: "unat n * 10 + d < 2 ^ 64" by simp
    then have lt: "unat n < 1844674407370955162" by simp
    note st = ParseUint_loop_step [OF d lt small]
    have "ParseUint_loop s0 (n * 10 + of_nat d) cs = (maxUint64, Some (rangeError ''ParseUint'' s0))"
      using Cons.prems(2) v by (intro Cons.IH [OF rest]) (simp add: st(2))
    then show ?thesis by (simp only: st)
  qed
qed

lemma ParseUint_ok:
  "uint64_literal s \<Longrightarrow> ParseUint s = (of_nat (dec_value s), None)"
  using ParseUint_loop_ok [of s 0 s]
  by (simp add: uint64_literal_def ParseUint_def dec_value_def)

lemma ParseUint_range:
  "s \<noteq> [] \<Longrightarrow> list_all is_digit s \<Longrightarrow> 2 ^ 64 \<le> dec_value s \<Longrightarrow>
   ParseUint s = (maxUint64, Some (rangeError ''ParseUint'' s))"
  using ParseUint_loop_range [of s 0 s]
  by (simp add: ParseUint_def dec_value_def)

lemma is_digit_char_of: "d < 10 \<Longrightarrow> is_digit (char_of (48 + d)) \<and> (of_char (char_of (48 + d :: nat)) :: nat) - 48 = d"
  by (simp add: is_digit_def)

lemma dec_from_append: "dec_from a (xs @ ys) = dec_from (dec_from a xs) ys"
  by (simp add: dec_from_def)

lemma digits10_props:
  "digits10 n \<noteq> [] \<and> list_all is_digit (digits10 n) \<and> dec_value (digits10 n) = n"
proof (induction n rule: digits10.induct)
  case (1 n)
  show ?case
  proof (cases "n < 10")
    case True
    then show ?thesis
      using is_digit_char_of [of n]
      by (subst (1 2 3) digits10.simps) (simp add: dec_value_def dec_from_def)
  next
    case False
    have m: "n mod 10 < 10" by simp
    from 1 [OF False] show ?thesis
      using False is_digit_char_of [OF m]
      by (subst (1 2 3) digits10.simps) (simp add: dec_value_def dec_from_append, simp add: dec_from_def)
  qed
qed

lemma digits10_uint64_literal: "n < 2 ^ 64 \<Longrightarrow> uint64_literal (digits10 n)"
  using digits10_props [of n] by (simp add: uint64_literal_def)

lemma is_digit_not_special:
  "is_digit c \<Longrightarrow> c \<noteq> CHR 0x22 \<and> c \<noteq> CHR ''+'' \<and> c \<noteq> CHR ''-''"
  by (auto simp: is_digit_def)

lemma hd_digits10: "is_digit (hd (digits10 n))"
  using digits10_props [of n] by (cases "digits10 n") simp_all

lemma unquote_bare: "hd s \<noteq> CHR 0x22 \<Longrightarrow> unquote s = s"
  by (simp add: unquote_def)

lemma unquote_quoted: "unquote (quoted s) = s"
  by (simp add: unquote_def quoted_def butlast_append)

lemma Uint64Str_accepts:
  assumes "n < 2 ^ 64"
  shows "Uint64Str_UnmarshalJSON (digits10 n) = Inr (of_nat n)"
    and "Uint64Str_UnmarshalJSON (quoted (digits10 n)) = Inr (of_nat n)"
proof -
  have p: "ParseUint (digits10 n) = (of_nat n, None)"
    using ParseUint_ok [OF digits10_uint64_literal [OF assms]] digits10_props [of n] by simp
  have "hd (digits10 n) \<noteq> CHR 0x22"
    using is_digit_not_special [OF hd_digits10 [of n]] by simp
  then show "Uint64Str_UnmarshalJSON (digits10 n) = Inr (of_nat n)"
    by (simp add: Uint64Str_UnmarshalJSON_def unquote_bare p)
  show "Uint64Str_UnmarshalJSON (quoted (digits10 n)) = Inr (of_nat n)"
    by (simp only: Uint64Str_UnmarshalJSON_def unquote_quoted p) simp
qed

lemma ParseInt_nonneg:
  assumes "ParseUint s = (of_nat m, None)" "m < 2 ^ 63" "s \<noteq> []" "is_digit (hd s)"
  shows "ParseInt s = (of_nat m, None)"
proof -
  have h: "hd s \<noteq> CHR ''+''" "hd s \<noteq> CHR ''-''"
    using is_digit_not_special [OF assms(4)] by simp_all
  have u: "unat (of_nat m :: uint64) = m" using assms(2) by (simp add: unat_of_nat)
  have "\<not> (push_bit 63 1 :: uint64) \<le> of_nat m"
    using assms(2) by (simp add: word_le_nat_alt u)
  then show ?thesis using assms(1,3) h
    by (simp add: ParseInt_def ParseInt_range_def Let_def)
qed

lemma ParseInt_neg:
  assumes "ParseUint s = (of_nat m, None)" "m \<le> 2 ^ 63"
  shows "ParseInt (CHR ''-'' # s) = (- of_nat m, None)"
proof -
  have u: "unat (of_nat m :: uint64) = m" using assms(2) by (simp add: unat_of_nat)
  have "\<not> (push_bit 63 1 :: uint64) < of_nat m"
    using assms(2) by (simp add: word_less_nat_alt u)
  then show ?thesis using assms(1)
    by (simp add: ParseInt_def ParseInt_range_def Let_def)
qed

lemma ParseInt_fmt_int:
  assumes "- (2 ^ 63) \<le> i" "i < 2 ^ 63"
  shows "ParseInt (fmt_int i) = (word_of_int i, None)"
proof (cases "i < 0")
  case True
  define m where "m = nat (- i)"
  have m: "m \<le> 2 ^ 63" using assms True by (simp add: m_def nat_le_iff)
  then have "m < 2 ^ 64" by simp
  then have p: "ParseUint (digits10 m) = (of_nat m, None)"
    using ParseUint_ok [OF digits10_uint64_literal] digits10_props [of m] by simp
  have "(- of_nat m :: uint64) = word_of_int i"
    using True by (simp add: m_def)
  then show ?thesis using ParseInt_neg [OF p m] True
    by (simp add: fmt_int_def m_def)
next
  case False
  define m where "m = nat i"
  have m: "m < 2 ^ 63" using assms False by (simp add: m_def)
  then have "m < 2 ^ 64" by simp
  then have p: "ParseUint (digits10 m) = (of_nat m, None)"
    using ParseUint_ok [OF digits10_uint64_literal] digits10_props [of m] by simp
  have ne: "digits10 m \<noteq> []" using digits10_props [of m] by simp
  have "(of_nat m :: uint64) = word_of_int i"
    using False by (simp add: m_def)
  then show ?thesis using ParseInt_nonneg [OF p m ne hd_digits10] False
    by (simp add: fmt_int_def m_def)
qed

lemma hd_fmt_int: "hd (fmt_int i) \<noteq> CHR 0x22"
  using is_digit_not_special [OF hd_digits10] by (simp add: fmt_int_def)

lemma Int64Str_accepts:
  assumes "- (2 ^ 63) \<le> i" "i < 2 ^ 63"
  shows "Int64Str_UnmarshalJSON (fmt_int i) = Inr (word_of_int i)"
    and "Int64Str_UnmarshalJSON (quoted (fmt_int i)) = Inr (word_of_int i)"
proof -
  note p = ParseInt_fmt_int [OF assms]
  show "Int64Str_UnmarshalJSON (fmt_int i) = Inr (word_of_int i)"
    by (simp add: Int64Str_UnmarshalJSON_def unquote_bare hd_fmt_int p)
  show "Int64Str_UnmarshalJSON (quoted (fmt_int i)) = Inr (word_of_int i)"
    by (simp only: Int64Str_UnmarshalJSON_def unquote_quoted p) simp
qed

lemma ParseUint_loop_refuses:
  "\<not> list_all is_digit ds \<Longrightarrow>
   ParseUint_loop s0 n ds = (0, Some (syntaxError ''ParseUint'' s0)) \<or>
   ParseUint_loop s0 n ds = (maxUint64, Some (rangeError ''ParseUint'' s0))"
proof (induction ds arbitrary: n)
  case Nil
  then show ?case by simp
next
  case (Cons c cs)
  show ?case
  proof (cases "is_digit c")
    case True
    with Cons.prems have "\<not> list_all is_digit cs" by simp
    from Cons.IH [OF this] show ?thesis
      using digit_of_digit [OF True] by (simp add: Let_def)
  next
    case False
    from digit_of_nondigit [OF this] show ?thesis by auto
  qed
qed

lemma ParseUint_refuses:
  assumes "\<not> uint64_literal s"
  shows "ParseUint s = (0, Some (syntaxError ''ParseUint'' s)) \<or>
         ParseUint s = (maxUint64, Some (rangeError ''ParseUint'' s))"
proof (cases "s = []")
  case True
  then show ?thesis by (simp add: ParseUint_def)
next
  case ne: False
  show ?thesis
  proof (cases "list_all is_digit s")
    case True
    with assms ne have "2 ^ 64 \<le> dec_value s"
      by (simp add: uint64_literal_def)
    from ParseUint_range [OF ne True this] show ?thesis by simp
  next
    case False
    from ParseUint_loop_refuses [OF this, of s 0] show ?thesis using ne
      by (simp add: ParseUint_def)
  qed
qed

lemma max_ge_cutoff63: "(push_bit 63 1 :: uint64) \<le> maxUint64" "(push_bit 63 1 :: uint64) < maxUint64"
  by (simp_all add: maxUint64_def word_less_nat_alt unsigned_minus_1_eq_mask mask_eq_exp_minus_1)

lemma ParseInt_error:
  assumes "\<not> int64_literal s0"
  shows "\<exists>v e. ParseInt s0 = (v, Some e)"
proof (cases "s0 = []")
  case True
  then show ?thesis by (simp add: ParseInt_def)
next
  case ne: False
  define neg where "neg = (hd s0 = CHR ''-'')"
  define ds where "ds = (if hd s0 = CHR ''+'' \<or> hd s0 = CHR ''-'' then tl s0 else s0)"
  have unf: "ParseInt s0 = ParseInt_range s0 neg (ParseUint ds)"
    using ne by (simp add: ParseInt_def neg_def ds_def)
  show ?thesis
  proof (cases "uint64_literal ds")
    case False
    from ParseUint_refuses [OF this] show ?thesis
    proof
      assume "ParseUint ds = (0, Some (syntaxError ''ParseUint'' ds))"
      then show ?thesis by (simp add: unf syntaxError_def ParseInt_range_def)
    next
      assume "ParseUint ds = (maxUint64, Some (rangeError ''ParseUint'' ds))"
      then show ?thesis using max_ge_cutoff63
        by (cases neg) (simp_all add: unf rangeError_def ParseInt_range_def Let_def)
    qed
  next
    case True
    then have p: "ParseUint ds = (of_nat (dec_value ds), None)" by (rule ParseUint_ok)
    from True have lt: "dec_value ds < 2 ^ 64" and dne: "ds \<noteq> []" and dd: "list_all is_digit ds"
      by (simp_all add: uint64_literal_def)
    have u: "unat (of_nat (dec_value ds) :: uint64) = dec_value ds"
      using lt by (simp add: unat_of_nat)
    from assms ne dne dd have big: "if neg then 2 ^ 63 < dec_value ds else 2 ^ 63 \<le> dec_value ds"
      by (auto simp: int64_literal_def Let_def neg_def ds_def split: if_splits)
    show ?thesis
    proof (cases neg)
      case True
      with big have "(push_bit 63 1 :: uint64) < of_nat (dec_value ds)"
        by (simp add: word_less_nat_alt u)
      then show ?thesis using True by (simp add: unf p ParseInt_range_def Let_def)
    next
      case False
      with big have "(push_bit 63 1 :: uint64) \<le> of_nat (dec_value ds)"
        by (simp add: word_le_nat_alt u)
      then show ?thesis using False by (simp add: unf p ParseInt_range_def Let_def)
    qed
  qed
qed

lemma not_optionally_quoted: "\<not> optionally_quoted P data \<Longrightarrow> \<not> P (unquote data)"
  by (auto simp: optionally_quoted_def unquote_def)

lemma Uint64Str_rejects:
  assumes "\<not> optionally_quoted uint64_literal data"
  shows "\<exists>e. Uint64Str_UnmarshalJSON data = Inl e"
  using ParseUint_refuses [OF not_optionally_quoted [OF assms]]
  by (auto simp: Uint64Str_UnmarshalJSON_def)

lemma Int64Str_rejects:
  assumes "\<not> optionally_quoted int64_literal data"
  shows "\<exists>e. Int64Str_UnmarshalJSON data = Inl e"
  using ParseInt_error [OF not_optionally_quoted [OF assms]]
  by (auto simp: Int64Str_UnmarshalJSON_def)

lemma Uint64Str_rejects_sign:
  assumes "unquote data \<noteq> []" "hd (unquote data) = CHR ''-''"
  shows "Uint64Str_UnmarshalJSON data = Inl (syntaxError ''ParseUint'' (unquote data))"
proof -
  obtain cs where s: "unquote data = CHR ''-'' # cs"
    using assms by (cases "unquote data") simp_all
  have "digit_of CHR ''-'' = None" by (simp add: digit_of_def lower_def)
  then have "ParseUint (unquote data) = (0, Some (syntaxError ''ParseUint'' (unquote data)))"
    by (simp add: s ParseUint_def)
  then show ?thesis by (simp add: Uint64Str_UnmarshalJSON_def)
qed

lemma Uint64Str_rejects_range:
  assumes "unquote data \<noteq> []" "list_all is_digit (unquote data)" "2 ^ 64 \<le> dec_value (unquote data)"
  shows "Uint64Str_UnmarshalJSON data = Inl (rangeError ''ParseUint'' (unquote data))"
  using ParseUint_range [OF assms] by (simp add: Uint64Str_UnmarshalJSON_def)

lemma unat_of_nat_uint64: "n < 2 ^ 64 \<Longrightarrow> unat (of_nat n :: uint64) = n"
  by (simp add: unat_of_nat)

lemma sint_word_of_int_int64: "- (2 ^ 63) \<le> i \<Longrightarrow> i < 2 ^ 63 \<Longrightarrow> sint (word_of_int i :: int64) = i"
  by (simp add: sint_sbintrunc' signed_take_bit_int_eq_self)

text \<open>
  C6: every integer field of the Beacon API response types has type \<^verbatim>\<open>Uint64Str\<close> or
  \<^verbatim>\<open>Int64Str\<close>. For every integer \<open>n\<close> that fits \<^verbatim>\<open>uint64\<close>, the decoder of
  \<^verbatim>\<open>Uint64Str\<close> accepts its decimal digits bare and between double quotes and yields
  \<open>n\<close> both times; for every integer \<open>i\<close> that fits \<^verbatim>\<open>int64\<close>, negative ones
  included, the decoder of \<^verbatim>\<open>Int64Str\<close> does the same.
\<close>

theorem decoders_accept_quoted_and_bare:
  assumes "n < 2 ^ 64" and "- (2 ^ 63) \<le> i" and "i < 2 ^ 63"
  shows "Uint64Str_UnmarshalJSON (digits10 n) = Inr (of_nat n) \<and>
         Uint64Str_UnmarshalJSON (quoted (digits10 n)) = Inr (of_nat n) \<and>
         unat (of_nat n :: uint64) = n \<and>
         Int64Str_UnmarshalJSON (fmt_int i) = Inr (word_of_int i) \<and>
         Int64Str_UnmarshalJSON (quoted (fmt_int i)) = Inr (word_of_int i) \<and>
         sint (word_of_int i :: int64) = i"
  using Uint64Str_accepts [OF assms(1)] Int64Str_accepts [OF assms(2,3)]
    unat_of_nat_uint64 [OF assms(1)] sint_word_of_int_int64 [OF assms(2,3)]
  by simp

theorem decoders_accept_quoted_and_bare_witness:
  "Uint64Str_UnmarshalJSON ''123'' = Inr 123 \<and>
   Uint64Str_UnmarshalJSON (quoted ''123'') = Inr 123 \<and>
   Int64Str_UnmarshalJSON ''-5'' = Inr (- 5) \<and>
   Int64Str_UnmarshalJSON (quoted ''-5'') = Inr (- 5)"
proof -
  have d: "digits10 123 = ''123''" by code_simp
  have f: "fmt_int (- 5) = ''-5''" by code_simp
  show ?thesis
    using decoders_accept_quoted_and_bare [of 123 "- 5"] by (simp add: d f)
qed

subsection \<open>The backoff generator\<close>

text \<open>
  What does not depend on floating-point arithmetic: the call at attempt 0 returns the
  initial delay whatever the random source draws, every call advances the attempt
  counter by one, and \<^verbatim>\<open>Reset\<close> returns the generator to attempt 0.
\<close>

lemma NextDelay_first:
  "attempts b = 0 \<Longrightarrow> NextDelay jitter b = (InitialDelay (cfg b), b\<lparr>attempts := 1\<rparr>)"
  by (simp add: NextDelay_def)

lemma NextDelay_advances: "attempts (snd (NextDelay jitter b)) = attempts b + 1"
  by (simp add: NextDelay_def)

lemma Reset_first: "fst (NextDelay jitter (Reset b)) = InitialDelay (cfg b)"
  by (simp add: NextDelay_def Reset_def)

subsection \<open>The retry policy of the HTTP client\<close>

lemma doRequest_loop_iteration:
  "doRequest_loop c nw meth url decode result attempt lastErr b =
     (if attempt \<le> maxRetries c then
        (case iteration c nw meth url decode attempt b of
           Return r tr \<Rightarrow> (r, tr)
         | Continue e b' tr \<Rightarrow>
             (case doRequest_loop c nw meth url decode result (attempt + 1) (Some e) b' of
                (r, tr') \<Rightarrow> (r, tr @ tr')))
      else ((case lastErr of None \<Rightarrow> Inr result | Some e \<Rightarrow> Inl e), []))"
  by (subst doRequest_loop.simps)
     (auto simp add: iteration_def split: option.splits http_result.splits prod.splits bool.splits sum.splits)


lemma sends_simps [simp]:
  "sends [] = 0"
  "sends (LimiterWait # tr) = sends tr"
  "sends (HttpDo m u b # tr) = Suc (sends tr)"
  "sends (BackoffWait d # tr) = sends tr"
  "sends (tr @ tr') = sends tr + sends tr'"
  by (simp_all add: sends_def is_HttpDo_def)

lemma Wait_eq: "Wait j f b = ((f, fst (NextDelay j b)), snd (NextDelay j b))"
  by (simp add: Wait_def split_def Let_def)

lemma iteration_Continue:
  "(\<exists>e b' tr. iteration c nw meth url decode a b = Continue e b' tr) =
     (limiter_Wait nw a = None \<and> NewRequest nw = None \<and> transient (httpClient_Do nw a) \<and>
      a < maxRetries c \<and> timer_fires nw a)"
  by (auto simp add: iteration_def transient_def ShouldRetry_def Wait_eq
        split: option.splits http_result.splits bool.splits sum.splits)

lemma iteration_Continue_trace:
  "iteration c nw meth url decode a b = Continue e b' tr \<Longrightarrow>
   \<exists>d. tr = [LimiterWait, HttpDo meth url None, BackoffWait d]"
  by (auto simp add: iteration_def Wait_eq
        split: option.splits http_result.splits bool.splits if_splits sum.splits)

lemma iteration_Return_trace:
  "iteration c nw meth url decode a b = Return r tr \<Longrightarrow>
   sends tr \<le> 1 \<and> (0 < sends tr) = (limiter_Wait nw a = None \<and> NewRequest nw = None) \<and> spaced True tr"
  by (auto simp add: iteration_def Wait_eq
        split: option.splits http_result.splits bool.splits if_splits sum.splits)

lemma iteration_Return_status:
  "iteration c nw meth url decode a b = Return r tr \<Longrightarrow> 0 < sends tr \<Longrightarrow>
   httpClient_Do nw a = Response status rb \<Longrightarrow> status \<noteq> 200 \<Longrightarrow> \<not> ShouldRetry status \<Longrightarrow>
   r = Inl (ErrUnexpectedStatus status rb)"
  by (auto simp add: iteration_def Wait_eq
        split: option.splits http_result.splits bool.splits if_splits sum.splits)

lemma loop_past_budget:
  "\<not> a \<le> maxRetries c \<Longrightarrow> snd (doRequest_loop c nw meth url decode result a lastErr b) = []"
  by (subst doRequest_loop_iteration) simp

lemma loop_Return:
  "a \<le> maxRetries c \<Longrightarrow> iteration c nw meth url decode a b = Return r tr \<Longrightarrow>
   doRequest_loop c nw meth url decode result a lastErr b = (r, tr)"
  by (subst doRequest_loop_iteration) simp

lemma loop_Continue:
  "a \<le> maxRetries c \<Longrightarrow> iteration c nw meth url decode a b = Continue e b' tr \<Longrightarrow>
   doRequest_loop c nw meth url decode result a lastErr b =
     (fst (doRequest_loop c nw meth url decode result (a + 1) (Some e) b'),
      tr @ snd (doRequest_loop c nw meth url decode result (a + 1) (Some e) b'))"
  by (subst doRequest_loop_iteration) (simp add: split_def)

lemma loop_trace:
  "int (sends (snd (doRequest_loop c nw meth url decode result a lastErr b))) \<le> max 0 (maxRetries c + 1 - a) \<and>
   spaced True (snd (doRequest_loop c nw meth url decode result a lastErr b)) \<and>
   (0 < sends (snd (doRequest_loop c nw meth url decode result a lastErr b))) =
     (a \<le> maxRetries c \<and> limiter_Wait nw a = None \<and> NewRequest nw = None)"
proof (induction "nat (maxRetries c + 1 - a)" arbitrary: a lastErr b)
  case 0
  then have "\<not> a \<le> maxRetries c" by simp
  then show ?case by (simp add: loop_past_budget)
next
  case (Suc n)
  then have le: "a \<le> maxRetries c" by simp
  show ?case
  proof (cases "iteration c nw meth url decode a b")
    case (Return r tr)
    from iteration_Return_trace [OF Return] show ?thesis
      using le by (simp add: loop_Return [OF le Return])
  next
    case (Continue e b' tr)
    from iteration_Continue_trace [OF Continue] obtain d
      where tr: "tr = [LimiterWait, HttpDo meth url None, BackoffWait d]" by blast
    from Continue have ok: "limiter_Wait nw a = None \<and> NewRequest nw = None"
      using iteration_Continue [of c nw meth url decode a b] by simp
    from Suc(2) have n: "n = nat (maxRetries c + 1 - (a + 1))" by simp
    from Suc(1) [OF n, of "Some e" b'] show ?thesis
      using le ok by (simp add: loop_Continue [OF le Continue] tr)
  qed
qed

lemma loop_retry:
  "(Suc j < sends (snd (doRequest_loop c nw meth url decode result a lastErr b))) =
     (j < sends (snd (doRequest_loop c nw meth url decode result a lastErr b)) \<and>
      transient (httpClient_Do nw (a + int j)) \<and> a + int j < maxRetries c \<and>
      timer_fires nw (a + int j) \<and> limiter_Wait nw (a + int j + 1) = None)"
proof (induction "nat (maxRetries c + 1 - a)" arbitrary: a lastErr b j)
  case 0
  then have "\<not> a \<le> maxRetries c" by simp
  then show ?case by (simp add: loop_past_budget)
next
  case (Suc n)
  note IH = Suc(1) and hyp = Suc(2)
  from hyp have le: "a \<le> maxRetries c" by simp
  show ?case
  proof (cases "iteration c nw meth url decode a b")
    case (Return r tr)
    have "\<not> (limiter_Wait nw a = None \<and> NewRequest nw = None \<and> transient (httpClient_Do nw a) \<and>
      a < maxRetries c \<and> timer_fires nw a)"
      using iteration_Continue [of c nw meth url decode a b] Return by simp
    with iteration_Return_trace [OF Return] show ?thesis
      by (cases j) (auto simp add: loop_Return [OF le Return])
  next
    case (Continue e b' tr)
    from iteration_Continue_trace [OF Continue] obtain d
      where tr: "tr = [LimiterWait, HttpDo meth url None, BackoffWait d]" by blast
    from Continue have ok: "limiter_Wait nw a = None \<and> NewRequest nw = None \<and> transient (httpClient_Do nw a) \<and>
      a < maxRetries c \<and> timer_fires nw a"
      using iteration_Continue [of c nw meth url decode a b] by simp
    from hyp have n: "n = nat (maxRetries c + 1 - (a + 1))" by simp
    show ?thesis
    proof (cases j)
      case 0
      from loop_trace [of c nw meth url decode result "a + 1" "Some e" b'] ok show ?thesis
        by (simp add: loop_Continue [OF le Continue] tr 0)
    next
      case (Suc j')
      have "a + 1 + int j' = a + int j" using Suc by simp
      with IH [OF n, of j' "Some e" b'] show ?thesis
        using Suc by (simp add: loop_Continue [OF le Continue] tr)
    qed
  qed
qed

lemma iteration_Return_ok:
  "iteration c nw meth url decode a b = Return r tr \<Longrightarrow> 0 < sends tr \<Longrightarrow>
   httpClient_Do nw a = Response 200 rb \<Longrightarrow>
   r = (case decode rb of Inl e \<Rightarrow> Inl (ErrDecode e) | Inr v \<Rightarrow> Inr v)"
  by (auto simp add: iteration_def Wait_eq ShouldRetry_def
        split: option.splits http_result.splits bool.splits if_splits sum.splits)

lemma loop_final:
  assumes "j < sends (snd (doRequest_loop c nw meth url decode result a lastErr b))"
      and "httpClient_Do nw (a + int j) = Response status rb" and "\<not> ShouldRetry status"
  shows "fst (doRequest_loop c nw meth url decode result a lastErr b) =
           (if status \<noteq> 200 then Inl (ErrUnexpectedStatus status rb)
            else (case decode rb of Inl e \<Rightarrow> Inl (ErrDecode e) | Inr v \<Rightarrow> Inr v)) \<and>
         sends (snd (doRequest_loop c nw meth url decode result a lastErr b)) = Suc j"
  using assms
proof (induction "nat (maxRetries c + 1 - a)" arbitrary: a lastErr b j)
  case 0
  then have "\<not> a \<le> maxRetries c" by simp
  with 0 show ?case by (simp add: loop_past_budget)
next
  case (Suc n)
  note IH = Suc(1) and hyp = Suc(2) and sent = Suc(3) and resp = Suc(4) and nr = Suc(5)
  from hyp have le: "a \<le> maxRetries c" by simp
  show ?case
  proof (cases "iteration c nw meth url decode a b")
    case (Return r tr)
    from sent iteration_Return_trace [OF Return] have j0: "j = 0" and pos: "0 < sends tr"
      by (simp_all add: loop_Return [OF le Return])
    from resp j0 have r0: "httpClient_Do nw a = Response status rb" by simp
    show ?thesis
    proof (cases "status = 200")
      case True
      with iteration_Return_ok [OF Return pos, of rb] r0 iteration_Return_trace [OF Return] pos j0
      show ?thesis by (simp add: loop_Return [OF le Return])
    next
      case False
      with iteration_Return_status [OF Return pos r0 False nr] iteration_Return_trace [OF Return] pos j0
      show ?thesis by (simp add: loop_Return [OF le Return])
    qed
  next
    case (Continue e b' tr)
    from iteration_Continue_trace [OF Continue] obtain d
      where tr: "tr = [LimiterWait, HttpDo meth url None, BackoffWait d]" by blast
    from Continue have tra: "transient (httpClient_Do nw a)"
      using iteration_Continue [of c nw meth url decode a b] by simp
    from hyp have n: "n = nat (maxRetries c + 1 - (a + 1))" by simp
    show ?thesis
    proof (cases j)
      case 0
      with resp nr tra show ?thesis by (simp add: transient_def ShouldRetry_def)
    next
      case (Suc j')
      have eq: "a + 1 + int j' = a + int j" using Suc by simp
      from sent Suc have s': "j' < sends (snd (doRequest_loop c nw meth url decode result (a + 1) (Some e) b'))"
        by (simp add: loop_Continue [OF le Continue] tr)
      from IH [OF n s'] resp nr eq show ?thesis
        using Suc by (simp add: loop_Continue [OF le Continue] tr)
    qed
  qed
qed

lemma post_trace:
  "sends (snd (doRequestWithBody c nw meth path body decode result)) \<le> 1 \<and>
   (sends (snd (doRequestWithBody c nw meth path body decode result)) = 1) =
     (limiter_Wait nw 0 = None \<and> NewRequest nw = None) \<and>
   \<not> list_ex is_BackoffWait (snd (doRequestWithBody c nw meth path body decode result))"
  by (auto simp add: doRequestWithBody_def Let_def is_BackoffWait_def
        split: option.splits http_result.splits sum.splits)

lemma post_status:
  "sends (snd (doRequestWithBody c nw meth path body decode result)) = 1 \<Longrightarrow>
   httpClient_Do nw 0 = Response status rb \<Longrightarrow>
   fst (doRequestWithBody c nw meth path body decode result) =
     (if status \<noteq> 200 then Inl (ErrUnexpectedStatus status rb)
      else (case decode rb of Inl e \<Rightarrow> Inl (ErrDecode e) | Inr v \<Rightarrow> Inr v))"
  by (auto simp add: doRequestWithBody_def Let_def
        split: option.splits http_result.splits sum.splits)

text \<open>
  C2, as amended. A GET request makes at most \<open>max_retries + 1\<close> HTTP attempts (none when
  \<open>max_retries\<close> is negative), and never two without a backoff wait in between. The
  first attempt is made when the rate limiter admits it and the request can be built.
  Attempt \<open>k + 1\<close> is made exactly when attempt \<open>k\<close> was made and ended in a transport
  error or a status of 429 or 503, \<open>k\<close> is below \<open>max_retries\<close>, the backoff wait was not
  cancelled and the rate limiter admits the next attempt. An attempt answered with any
  other status than 200 is the last one, and the request returns the error that records
  the status and the body. A POST request makes at most one attempt, exactly one when
  the rate limiter admits it and the request can be built, never waits on a backoff,
  and returns the error recording status and body on every status other than 200.
\<close>

theorem request_retry_policy:
  "(case get c nw path decode result of
      (r, tr) \<Rightarrow>
        int (sends tr) \<le> max 0 (maxRetries c + 1) \<and>
        spaced True tr \<and>
        (0 < sends tr) = (0 \<le> maxRetries c \<and> limiter_Wait nw 0 = None \<and> NewRequest nw = None) \<and>
        (\<forall>k. (Suc k < sends tr) =
              (k < sends tr \<and> transient (httpClient_Do nw (int k)) \<and> int k < maxRetries c \<and>
               timer_fires nw (int k) \<and> limiter_Wait nw (int k + 1) = None)) \<and>
        (\<forall>k status rb.
            k < sends tr \<and> httpClient_Do nw (int k) = Response status rb \<and>
            status \<noteq> 200 \<and> status \<noteq> 429 \<and> status \<noteq> 503 \<longrightarrow>
            r = Inl (ErrUnexpectedStatus status rb) \<and> sends tr = Suc k)) \<and>
   (case post c nw path body decode result of
      (r, tr) \<Rightarrow>
        sends tr \<le> 1 \<and>
        (sends tr = 1) = (limiter_Wait nw 0 = None \<and> NewRequest nw = None) \<and>
        \<not> list_ex is_BackoffWait tr \<and>
        (\<forall>status rb.
            sends tr = 1 \<and> httpClient_Do nw 0 = Response status rb \<and> status \<noteq> 200 \<longrightarrow>
            r = Inl (ErrUnexpectedStatus status rb)))"
proof -
  let ?L = "doRequest_loop c nw ''GET'' (baseURL c @ path) decode result 0 None NewDefault"
  have g: "get c nw path decode result = (fst ?L, snd ?L)"
    by (simp add: get_def doRequest_def)
  have p: "post c nw path body decode result =
      (fst (doRequestWithBody c nw ''POST'' path body decode result),
       snd (doRequestWithBody c nw ''POST'' path body decode result))"
    by (simp add: post_def)
  have 1: "int (sends (snd ?L)) \<le> max 0 (maxRetries c + 1)"
    and 2: "spaced True (snd ?L)"
    and 3: "(0 < sends (snd ?L)) = (0 \<le> maxRetries c \<and> limiter_Wait nw 0 = None \<and> NewRequest nw = None)"
    using loop_trace [of c nw "''GET''" "baseURL c @ path" decode result 0 None NewDefault] by simp_all
  have 4: "(Suc k < sends (snd ?L)) =
              (k < sends (snd ?L) \<and> transient (httpClient_Do nw (int k)) \<and> int k < maxRetries c \<and>
               timer_fires nw (int k) \<and> limiter_Wait nw (int k + 1) = None)" for k
    using loop_retry [of k c nw "''GET''" "baseURL c @ path" decode result 0 None NewDefault] by simp
  have 5: "r = Inl (ErrUnexpectedStatus status rb) \<and> sends (snd ?L) = Suc k"
    if "k < sends (snd ?L)" "httpClient_Do nw (int k) = Response status rb"
       "status \<noteq> 200" "status \<noteq> 429" "status \<noteq> 503" "r = fst ?L" for k status rb r
    using loop_final [of k c nw "''GET''" "baseURL c @ path" decode result 0 None NewDefault status rb] that
    by (simp add: ShouldRetry_def)
  show ?thesis
    unfolding g p prod.case
    using 1 2 3 4 5 post_trace [of c nw "''POST''" path body decode result]
      post_status [of c nw "''POST''" path body decode result]
    by (intro conjI allI impI) (simp_all, blast+)
qed

theorem request_retry_policy_witness:
  "sends (snd (get example_client (net_flaky ''{}'') ''/eth/v1/node/syncing'' Inr [])) = 3 \<and>
   fst (get example_client (net_answering 404 ''not found'') ''/eth/v1/node/syncing'' Inr []) =
     Inl (ErrUnexpectedStatus 404 ''not found'') \<and>
   fst (post example_client (net_answering 503 ''busy'') ''/eth/v1/validator/duties/attester/2''
          [''100''] Inr []) =
     Inl (ErrUnexpectedStatus 503 ''busy'') \<and>
   sends (snd (post example_client (net_answering 503 ''busy'')
                 ''/eth/v1/validator/duties/attester/2'' [''100''] Inr [])) = 1"
proof -
  obtain r1 t1 where g1: "get example_client (net_flaky ''{}'') ''/eth/v1/node/syncing'' Inr [] = (r1, t1)"
    by (cases "get example_client (net_flaky ''{}'') ''/eth/v1/node/syncing'' Inr ([] :: string)") blast
  obtain r2 t2 where g2: "get example_client (net_answering 404 ''not found'') ''/eth/v1/node/syncing'' Inr [] = (r2, t2)"
    by (cases "get example_client (net_answering 404 ''not found'') ''/eth/v1/node/syncing'' Inr ([] :: string)") blast
  obtain r3 t3 where p3: "post example_client (net_answering 503 ''busy'')
      ''/eth/v1/validator/duties/attester/2'' [''100''] Inr [] = (r3, t3)"
    by (cases "post example_client (net_answering 503 ''busy'')
      ''/eth/v1/validator/duties/attester/2'' [''100''] Inr ([] :: string)") blast
  note a = request_retry_policy [where c = example_client and nw = "net_flaky ''{}''"
      and path = "''/eth/v1/node/syncing''" and decode = Inr and result = "[] :: string",
      THEN conjunct1, unfolded g1 prod.case]
  note b = request_retry_policy [where c = example_client and nw = "net_answering 404 ''not found''"
      and path = "''/eth/v1/node/syncing''" and decode = Inr and result = "[] :: string",
      THEN conjunct1, unfolded g2 prod.case]
  note c = request_retry_policy [where c = example_client and nw = "net_answering 503 ''busy''"
      and path = "''/eth/v1/validator/duties/attester/2''" and decode = Inr
      and result = "[] :: string" and body = "[''100'']", THEN conjunct2, unfolded p3 prod.case]
  from a have a3: "(0 < sends t1) =
        (0 \<le> maxRetries example_client \<and> limiter_Wait (net_flaky ''{}'') 0 = None \<and>
         NewRequest (net_flaky ''{}'') = None)"
    and a4: "\<forall>k. (Suc k < sends t1) =
              (k < sends t1 \<and> transient (httpClient_Do (net_flaky ''{}'') (int k)) \<and>
               int k < maxRetries example_client \<and> timer_fires (net_flaky ''{}'') (int k) \<and>
               limiter_Wait (net_flaky ''{}'') (int k + 1) = None)"
    by blast+
  from a3 have a0: "0 < sends t1"
    by (simp add: example_client_def net_flaky_def)
  from a4 [rule_format, of 0] a0 have a1: "1 < sends t1"
    by (simp add: example_client_def net_flaky_def transient_def)
  from a4 [rule_format, of 1] a1 have a2: "2 < sends t1"
    by (simp add: example_client_def net_flaky_def transient_def)
  from a4 [rule_format, of 2] have "\<not> 3 < sends t1"
    by (simp add: example_client_def net_flaky_def transient_def)
  with a2 have s1: "sends t1 = 3" by simp
  from b have b3: "(0 < sends t2) =
        (0 \<le> maxRetries example_client \<and> limiter_Wait (net_answering 404 ''not found'') 0 = None \<and>
         NewRequest (net_answering 404 ''not found'') = None)"
    and b5: "\<forall>k status rb. k < sends t2 \<and>
        httpClient_Do (net_answering 404 ''not found'') (int k) = Response status rb \<and>
        status \<noteq> 200 \<and> status \<noteq> 429 \<and> status \<noteq> 503 \<longrightarrow>
        r2 = Inl (ErrUnexpectedStatus status rb) \<and> sends t2 = Suc k"
    by blast+
  from b3 have b0: "0 < sends t2"
    by (simp add: example_client_def net_answering_def)
  from b5 [rule_format, of 0 404 "''not found''"] b0
  have s2: "r2 = Inl (ErrUnexpectedStatus 404 ''not found'')"
    by (simp add: net_answering_def)
  from c have c2: "(sends t3 = 1) =
        (limiter_Wait (net_answering 503 ''busy'') 0 = None \<and>
         NewRequest (net_answering 503 ''busy'') = None)"
    and c4: "\<forall>status rb. sends t3 = 1 \<and>
        httpClient_Do (net_answering 503 ''busy'') 0 = Response status rb \<and> status \<noteq> 200 \<longrightarrow>
        r3 = Inl (ErrUnexpectedStatus status rb)"
    by blast+
  from c2 have c1: "sends t3 = 1"
    by (simp add: net_answering_def)
  from c4 [rule_format, of 503 "''busy''"] c1
  have s3: "r3 = Inl (ErrUnexpectedStatus 503 ''busy'')"
    by (simp add: net_answering_def)
  show ?thesis by (simp add: g1 g2 p3 s1 s2 s3 c1)
qed

text \<open>
  C2 as the claim states it fails: with \<open>max_retries = 3\<close> and a node that answers 503
  to every attempt, the client makes four attempts.
\<close>

theorem get_attempts_counterexample:
  "\<not> int (sends (snd (get example_client (net_answering 503 ''busy'') ''/eth/v1/node/syncing''
                        Inr []))) \<le> maxRetries example_client"
  by code_simp

subsection \<open>The store writer\<close>

lemma session_run_eq:
  "session_run call w =
     (session_result w (length (session_calls w)),
      w\<lparr>session_calls := session_calls w @ [(call, session_result w (length (session_calls w)))]\<rparr>)"
  by (simp add: session_run_def Let_def)

lemma SaveValidatorSnapshot_eq:
  "SaveValidatorSnapshot w row =
     (let ts = (if IsZero (vs_Timestamp row) then now w (clock_reads w) else vs_Timestamp row);
          res = session_result w (length (session_calls w))
      in ((store_error ''failed to save validator snapshot'' res, row\<lparr>vs_Timestamp := ts\<rparr>),
          w\<lparr>clock_reads := (if IsZero (vs_Timestamp row) then Suc (clock_reads w) else clock_reads w),
            session_calls := session_calls w @ [(Exec (snapshot_insert (row\<lparr>vs_Timestamp := ts\<rparr>)), res)]\<rparr>))"
  by (simp add: SaveValidatorSnapshot_def session_run_eq time_Now_def Let_def)

lemma SaveAttestationDuty_eq:
  "SaveAttestationDuty w row =
     (let ts = (if IsZero (ad_Timestamp row) then now w (clock_reads w) else ad_Timestamp row);
          res = session_result w (length (session_calls w))
      in ((store_error ''failed to save attestation duty'' res, row\<lparr>ad_Timestamp := ts\<rparr>),
          w\<lparr>clock_reads := (if IsZero (ad_Timestamp row) then Suc (clock_reads w) else clock_reads w),
            session_calls := session_calls w @ [(Exec (duty_insert (row\<lparr>ad_Timestamp := ts\<rparr>)), res)]\<rparr>))"
  by (simp add: SaveAttestationDuty_def session_run_eq time_Now_def Let_def)

lemma SaveAttestationReward_eq:
  "SaveAttestationReward w row =
     (let ts = (if IsZero (ar_Timestamp row) then now w (clock_reads w) else ar_Timestamp row);
          res = session_result w (length (session_calls w))
      in ((store_error ''failed to save attestation reward'' res, row\<lparr>ar_Timestamp := ts\<rparr>),
          w\<lparr>clock_reads := (if IsZero (ar_Timestamp row) then Suc (clock_reads w) else clock_reads w),
            session_calls := session_calls w @ [(Exec (reward_insert (row\<lparr>ar_Timestamp := ts\<rparr>)), res)]\<rparr>))"
  by (simp add: SaveAttestationReward_def session_run_eq time_Now_def Let_def)

lemma SaveValidatorPenalty_eq:
  "SaveValidatorPenalty w row =
     (let ts = (if IsZero (vp_Timestamp row) then now w (clock_reads w) else vp_Timestamp row);
          res = session_result w (length (session_calls w))
      in ((store_error ''failed to save validator penalty'' res, row\<lparr>vp_Timestamp := ts\<rparr>),
          w\<lparr>clock_reads := (if IsZero (vp_Timestamp row) then Suc (clock_reads w) else clock_reads w),
            session_calls := session_calls w @ [(Exec (penalty_insert (row\<lparr>vp_Timestamp := ts\<rparr>)), res)]\<rparr>))"
  by (simp add: SaveValidatorPenalty_def session_run_eq time_Now_def Let_def)

text \<open>
  C9: each single-row save (snapshot, duty, reward, penalty) hands the session one
  statement on the row's table. When the row's timestamp is zero the clock is read
  before the insert and the reading is written to the row and bound as its timestamp;
  a timestamp that is not zero stays. Every other column is bound to the value of the
  matching field of the row as it was supplied.
\<close>

theorem single_row_saves:
  "(case SaveValidatorSnapshot w snapshot of
      ((err, snapshot'), w') \<Rightarrow>
        snapshot' = snapshot\<lparr>vs_Timestamp := stamp w (vs_Timestamp snapshot)\<rparr> \<and>
        (\<exists>st res. session_calls w' = session_calls w @ [(Exec st, res)] \<and>
           table st = ''validator_snapshots'' \<and>
           zip (columns st) (args st) =
             [(''validator_index'', V_uint64 (vs_ValidatorIndex snapshot)),
              (''slot'', V_uint64 (vs_Slot snapshot)),
              (''status'', V_string (vs_Status snapshot)),
              (''balance'', V_uint64 (vs_Balance snapshot)),
              (''effective_balance'', V_uint64 (vs_EffectiveBalance snapshot)),
              (''timestamp'', V_Time (stamp w (vs_Timestamp snapshot)))])) \<and>
   (case SaveAttestationDuty w duty of
      ((err, duty'), w') \<Rightarrow>
        duty' = duty\<lparr>ad_Timestamp := stamp w (ad_Timestamp duty)\<rparr> \<and>
        (\<exists>st res. session_calls w' = session_calls w @ [(Exec st, res)] \<and>
           table st = ''attestation_duties'' \<and>
           zip (columns st) (args st) =
             [(''validator_index'', V_uint64 (ad_ValidatorIndex duty)),
              (''epoch'', V_uint64 (ad_Epoch duty)),
              (''slot'', V_uint64 (ad_Slot duty)),
              (''committee_index'', V_int (ad_CommitteeIndex duty)),
              (''committee_position'', V_int (ad_CommitteePosition duty)),
              (''timestamp'', V_Time (stamp w (ad_Timestamp duty)))])) \<and>
   (case SaveAttestationReward w reward of
      ((err, reward'), w') \<Rightarrow>
        reward' = reward\<lparr>ar_Timestamp := stamp w (ar_Timestamp reward)\<rparr> \<and>
        (\<exists>st res. session_calls w' = session_calls w @ [(Exec st, res)] \<and>
           table st = ''attestation_rewards'' \<and>
           zip (columns st) (args st) =
             [(''validator_index'', V_uint64 (ar_ValidatorIndex reward)),
              (''epoch'', V_uint64 (ar_Epoch reward)),
              (''head_reward'', V_int64 (ar_HeadReward reward)),
              (''source_reward'', V_int64 (ar_SourceReward reward)),
              (''target_reward'', V_int64 (ar_TargetReward reward)),
              (''total_reward'', V_int64 (ar_TotalReward reward)),
              (''timestamp'', V_Time (stamp w (ar_Timestamp reward)))])) \<and>
   (case SaveValidatorPenalty w penalty of
      ((err, penalty'), w') \<Rightarrow>
        penalty' = penalty\<lparr>vp_Timestamp := stamp w (vp_Timestamp penalty)\<rparr> \<and>
        (\<exists>st res. session_calls w' = session_calls w @ [(Exec st, res)] \<and>
           table st = ''validator_penalties'' \<and>
           zip (columns st) (args st) =
             [(''validator_index'', V_uint64 (vp_ValidatorIndex penalty)),
              (''epoch'', V_uint64 (vp_Epoch penalty)),
              (''slot'', V_uint64 (vp_Slot penalty)),
              (''penalty_type'', V_string (vp_PenaltyType penalty)),
              (''penalty_gwei'', V_int64 (vp_PenaltyGwei penalty)),
              (''timestamp'', V_Time (stamp w (vp_Timestamp penalty)))]))"
proof (intro conjI)
  show "case SaveValidatorSnapshot w snapshot of
      ((err, snapshot'), w') \<Rightarrow>
        snapshot' = snapshot\<lparr>vs_Timestamp := stamp w (vs_Timestamp snapshot)\<rparr> \<and>
        (\<exists>st res. session_calls w' = session_calls w @ [(Exec st, res)] \<and>
           table st = ''validator_snapshots'' \<and>
           zip (columns st) (args st) =
             [(''validator_index'', V_uint64 (vs_ValidatorIndex snapshot)),
              (''slot'', V_uint64 (vs_Slot snapshot)),
              (''status'', V_string (vs_Status snapshot)),
              (''balance'', V_uint64 (vs_Balance snapshot)),
              (''effective_balance'', V_uint64 (vs_EffectiveBalance snapshot)),
              (''timestamp'', V_Time (stamp w (vs_Timestamp snapshot)))])"
    by (simp add: SaveValidatorSnapshot_eq Let_def stamp_def snapshot_insert_def)
  show "case SaveAttestationDuty w duty of
      ((err, duty'), w') \<Rightarrow>
        duty' = duty\<lparr>ad_Timestamp := stamp w (ad_Timestamp duty)\<rparr> \<and>
        (\<exists>st res. session_calls w' = session_calls w @ [(Exec st, res)] \<and>
           table st = ''attestation_duties'' \<and>
           zip (columns st) (args st) =
             [(''validator_index'', V_uint64 (ad_ValidatorIndex duty)),
              (''epoch'', V_uint64 (ad_Epoch duty)),
              (''slot'', V_uint64 (ad_Slot duty)),
              (''committee_index'', V_int (ad_CommitteeIndex duty)),
              (''committee_position'', V_int (ad_CommitteePosition duty)),
              (''timestamp'', V_Time (stamp w (ad_Timestamp duty)))])"
    by (simp add: SaveAttestationDuty_eq Let_def stamp_def duty_insert_def)
  show "case SaveAttestationReward w reward of
      ((err, reward'), w') \<Rightarrow>
        reward' = reward\<lparr>ar_Timestamp := stamp w (ar_Timestamp reward)\<rparr> \<and>
        (\<exists>st res. session_calls w' = session_calls w @ [(Exec st, res)] \<and>
           table st = ''attestation_rewards'' \<and>
           zip (columns st) (args st) =
             [(''validator_index'', V_uint64 (ar_ValidatorIndex reward)),
              (''epoch'', V_uint64 (ar_Epoch reward)),
              (''head_reward'', V_int64 (ar_HeadReward reward)),
              (''source_reward'', V_int64 (ar_SourceReward reward)),
              (''target_reward'', V_int64 (ar_TargetReward reward)),
              (''total_reward'', V_int64 (ar_TotalReward reward)),
              (''timestamp'', V_Time (stamp w (ar_Timestamp reward)))])"
    by (simp add: SaveAttestationReward_eq Let_def stamp_def reward_insert_def)
  show "case SaveValidatorPenalty w penalty of
      ((err, penalty'), w') \<Rightarrow>
        penalty' = penalty\<lparr>vp_Timestamp := stamp w (vp_Timestamp penalty)\<rparr> \<and>
        (\<exists>st res. session_calls w' = session_calls w @ [(Exec st, res)] \<and>
           table st = ''validator_penalties'' \<and>
           zip (columns st) (args st) =
             [(''validator_index'', V_uint64 (vp_ValidatorIndex penalty)),
              (''epoch'', V_uint64 (vp_Epoch penalty)),
              (''slot'', V_uint64 (vp_Slot penalty)),
              (''penalty_type'', V_string (vp_PenaltyType penalty)),
              (''penalty_gwei'', V_int64 (vp_PenaltyGwei penalty)),
              (''timestamp'', V_Time (stamp w (vp_Timestamp penalty)))])"
    by (simp add: SaveValidatorPenalty_eq Let_def stamp_def penalty_insert_def)
qed

theorem single_row_saves_witness:
  "fst (SaveValidatorPenalty (example_world (\<lambda>k. False))
          \<lparr>vp_ValidatorIndex = 100, vp_Epoch = 50, vp_Slot = 1600,
           vp_PenaltyType = ''attestation_miss'', vp_PenaltyGwei = 1300, vp_Timestamp = 0\<rparr>) =
     (None, \<lparr>vp_ValidatorIndex = 100, vp_Epoch = 50, vp_Slot = 1600,
             vp_PenaltyType = ''attestation_miss'', vp_PenaltyGwei = 1300, vp_Timestamp = 1000\<rparr>) \<and>
   snd (fst (SaveValidatorSnapshot (example_world (\<lambda>k. False))
          \<lparr>vs_ValidatorIndex = 100, vs_Slot = 1, vs_Status = ''active_ongoing'',
           vs_Balance = 32000000000, vs_EffectiveBalance = 32000000000, vs_Timestamp = 77\<rparr>)) =
     \<lparr>vs_ValidatorIndex = 100, vs_Slot = 1, vs_Status = ''active_ongoing'',
      vs_Balance = 32000000000, vs_EffectiveBalance = 32000000000, vs_Timestamp = 77\<rparr>"
proof -
  let ?W = "example_world (\<lambda>k. False)"
  let ?P = "\<lparr>vp_ValidatorIndex = 100, vp_Epoch = 50, vp_Slot = 1600,
           vp_PenaltyType = ''attestation_miss'', vp_PenaltyGwei = 1300, vp_Timestamp = 0\<rparr>"
  let ?S = "\<lparr>vs_ValidatorIndex = 100, vs_Slot = 1, vs_Status = ''active_ongoing'',
           vs_Balance = 32000000000, vs_EffectiveBalance = 32000000000, vs_Timestamp = 77\<rparr>"
  note pen = single_row_saves [where w = ?W and penalty = ?P,
      THEN conjunct2, THEN conjunct2, THEN conjunct2]
  note snap = single_row_saves [where w = ?W and snapshot = ?S, THEN conjunct1]
  have e: "fst (fst (SaveValidatorPenalty ?W ?P)) = None"
    by (simp add: SaveValidatorPenalty_eq Let_def example_world_def store_error_def)
  have "snd (fst (SaveValidatorPenalty ?W ?P)) = ?P\<lparr>vp_Timestamp := stamp ?W (vp_Timestamp ?P)\<rparr>"
    using pen by (cases "SaveValidatorPenalty ?W ?P") auto
  then have 1: "snd (fst (SaveValidatorPenalty ?W ?P)) = ?P\<lparr>vp_Timestamp := 1000\<rparr>"
    by (simp add: stamp_def IsZero_def example_world_def)
  have "snd (fst (SaveValidatorSnapshot ?W ?S)) = ?S\<lparr>vs_Timestamp := stamp ?W (vs_Timestamp ?S)\<rparr>"
    using snap by (cases "SaveValidatorSnapshot ?W ?S") auto
  then have 2: "snd (fst (SaveValidatorSnapshot ?W ?S)) = ?S"
    by (simp add: stamp_def IsZero_def)
  from e 1 have "fst (SaveValidatorPenalty ?W ?P) = (None, ?P\<lparr>vp_Timestamp := 1000\<rparr>)"
    by (simp add: prod_eq_iff)
  with 2 show ?thesis by simp
qed

subsection \<open>The scheduler's events\<close>

lemma finalized_loop_Some_not_max:
  assumes "finalized_loop slot vs e F events = Some y"
  shows "F \<noteq> - 1"
proof (rule finalized_loop.raw_induct [where P = "\<lambda>slot vs e F events y. F \<noteq> - 1", OF _ assms])
  fix rec :: "uint64 \<Rightarrow> uint64 list \<Rightarrow> uint64 \<Rightarrow> uint64 \<Rightarrow> ScheduleEvent list \<Rightarrow> ScheduleEvent list option"
  fix slot vs e F events y
  assume IH: "\<And>slot vs e F events y. rec slot vs e F events = Some y \<Longrightarrow> F \<noteq> - 1"
  assume st: "(if e \<le> F
        then rec slot vs (e + 1) F
          (events @ [\<lparr>ev_Slot = slot, ev_Epoch = e, ev_Type = EventTypeEpochFinalized, ev_Validators = vs\<rparr>])
        else Some events) = Some y"
  show "F \<noteq> - 1"
  proof (cases "e \<le> F")
    case True
    with st IH show ?thesis by simp
  next
    case False
    then show ?thesis by auto
  qed
qed

lemma finalized_loop_diverges: "finalized_loop slot vs e (- 1) events = None"
  using finalized_loop_Some_not_max [of slot vs e "- 1" events]
  by (cases "finalized_loop slot vs e (- 1) events") auto

lemma finalized_loop_returns:
  assumes "F \<noteq> - 1"
  shows "finalized_loop slot vs e F events = Some (events @ map (fin_event slot vs) (epochs_between e F))"
proof (induction "Suc (unat F) - unat e" arbitrary: e events)
  case 0
  then have "\<not> e \<le> F" by (simp add: word_le_nat_alt)
  moreover from 0 have "epochs_between e F = []" by (simp add: epochs_between_def)
  ultimately show ?case by (subst finalized_loop.simps) simp
next
  case (Suc k)
  then have le: "e \<le> F" by (simp add: word_le_nat_alt)
  have "unat F < 2 ^ 64 - 1"
  proof -
    have "unat F \<noteq> unat (- 1 :: uint64)" using assms by (simp add: word_unat_eq_iff)
    moreover have "unat F < 2 ^ 64" using unsigned_less [of F, where ?'a = nat] by simp
    ultimately show ?thesis by (simp add: unsigned_minus_1_eq_mask mask_eq_exp_minus_1)
  qed
  with le have ue: "unat (e + 1) = Suc (unat e)"
    by (simp add: word_le_nat_alt unat_word_ariths)
  with Suc(2) have k: "k = Suc (unat F) - unat (e + 1)" by simp
  have up: "[unat e ..< Suc (unat F)] = unat e # [Suc (unat e) ..< Suc (unat F)]"
    using le by (simp add: word_le_nat_alt upt_conv_Cons)
  have "epochs_between e F = e # epochs_between (e + 1) F"
    unfolding epochs_between_def ue by (subst up) simp
  then show ?case
    using le Suc(1) [OF k]
    by (subst finalized_loop.simps) (simp add: fin_event_def)
qed

lemma list_all_fin_events: "list_all (\<lambda>ev. ev_Type ev = EventTypeEpochFinalized) (map (fin_event slot vs) es)"
  by (induction es) (simp_all add: fin_event_def)

text \<open>NextEvents in terms of the outcome of the finality lookup.\<close>

lemma NextEvents_unfold:
  assumes "due = (slot mod SlotsPerEpoch = 0 \<and> slot div SlotsPerEpoch \<noteq> lastEpoch s)"
  shows "NextEvents s nw sc slot =
     (let s1 = (if due then s\<lparr>lastEpoch := slot div SlotsPerEpoch\<rparr> else s);
          events1 = \<lparr>ev_Slot = slot, ev_Epoch = slot div SlotsPerEpoch, ev_Type = EventTypeSlotPoll,
                      ev_Validators = validators s\<rparr> #
                    (if due then [\<lparr>ev_Slot = slot, ev_Epoch = slot div SlotsPerEpoch + 1,
                                   ev_Type = EventTypeEpochBoundary, ev_Validators = validators s\<rparr>]
                     else [])
      in case fst (GetFinalityCheckpoints (client s) nw sc ''head'') of
           Inl err \<Rightarrow>
             Some ((events1, None),
                   s1\<lparr>warnings := warnings s @ [LogWarn ''Failed to get finality checkpoints'' err]\<rparr>)
         | Inr checkpoints \<Rightarrow>
             if cp_Epoch (Finalized checkpoints) > lastFinalEpoch s then
               (case finalized_loop slot (validators s) (lastFinalEpoch s + 1)
                       (cp_Epoch (Finalized checkpoints)) events1 of
                  None \<Rightarrow> None
                | Some events2 \<Rightarrow>
                    Some ((events2, None), s1\<lparr>lastFinalEpoch := cp_Epoch (Finalized checkpoints)\<rparr>))
             else Some ((events1, None), s1))"
  unfolding NextEvents_def Let_def assms [symmetric]
  by (cases due) (simp_all split: sum.splits)

lemma boundary_epoch_no_wrap: "unat (slot div SlotsPerEpoch + 1 :: uint64) = unat slot div 32 + 1"
proof -
  have "unat slot < 2 ^ 64" using unsigned_less [of slot, where ?'a = nat] by simp
  then have "unat slot div 32 + 1 < 2 ^ 64" by simp
  then show ?thesis
    by (simp add: SlotsPerEpoch_def unat_word_ariths unat_div)
qed

text \<open>
  C4: a call of \<^verbatim>\<open>NextEvents\<close> at slot \<open>s\<close>, with \<open>e = s div 32\<close>, fails to return only
  when the finality lookup reports the largest 64-bit epoch (see C3). Whenever it
  returns, its error is nil and the list is: first the SLOT_POLL event with slot \<open>s\<close>,
  epoch \<open>e\<close> and the whole validator set; then the EPOCH_BOUNDARY event with epoch
  \<open>e + 1\<close> (no wrap-around), present exactly when \<open>s mod 32 = 0\<close> and \<open>e\<close> differs from
  \<open>lastEpoch\<close>, in which case \<open>lastEpoch\<close> becomes \<open>e\<close> and otherwise stays; then
  EPOCH_FINALIZED events only.
\<close>

theorem NextEvents_order:
  "case NextEvents s nw sc slot of
     None \<Rightarrow>
       (case fst (GetFinalityCheckpoints (client s) nw sc ''head'') of
          Inl err \<Rightarrow> False
        | Inr cp \<Rightarrow> cp_Epoch (Finalized cp) = - 1 \<and> lastFinalEpoch s < - 1)
   | Some ((events, err), s') \<Rightarrow>
       (\<exists>fins.
          events =
            \<lparr>ev_Slot = slot, ev_Epoch = slot div SlotsPerEpoch, ev_Type = EventTypeSlotPoll,
             ev_Validators = validators s\<rparr> #
            (if slot mod SlotsPerEpoch = 0 \<and> slot div SlotsPerEpoch \<noteq> lastEpoch s
             then [\<lparr>ev_Slot = slot, ev_Epoch = slot div SlotsPerEpoch + 1,
                    ev_Type = EventTypeEpochBoundary, ev_Validators = validators s\<rparr>]
             else []) @ fins \<and>
          list_all (\<lambda>ev. ev_Type ev = EventTypeEpochFinalized) fins) \<and>
       list_ex (\<lambda>ev. ev_Type ev = EventTypeEpochBoundary) events =
         (slot mod SlotsPerEpoch = 0 \<and> slot div SlotsPerEpoch \<noteq> lastEpoch s) \<and>
       lastEpoch s' =
         (if slot mod SlotsPerEpoch = 0 \<and> slot div SlotsPerEpoch \<noteq> lastEpoch s
          then slot div SlotsPerEpoch else lastEpoch s) \<and>
       unat (slot div SlotsPerEpoch + 1) = unat slot div 32 + 1 \<and>
       err = None"
proof -
  define due where "due = (slot mod SlotsPerEpoch = 0 \<and> slot div SlotsPerEpoch \<noteq> lastEpoch s)"
  note unf = NextEvents_unfold [OF due_def, of nw sc]
  have fin: "list_all (\<lambda>ev. ev_Type ev = EventTypeEpochFinalized)
               (map (fin_event slot (validators s)) es)" for es
    by (rule list_all_fin_events)
  have nb: "\<not> list_ex (\<lambda>ev. ev_Type ev = EventTypeEpochBoundary)
               (map (fin_event slot (validators s)) es)" for es
    by (induction es) (simp_all add: fin_event_def)
  have "case NextEvents s nw sc slot of
     None \<Rightarrow>
       (case fst (GetFinalityCheckpoints (client s) nw sc ''head'') of
          Inl err \<Rightarrow> False
        | Inr cp \<Rightarrow> cp_Epoch (Finalized cp) = - 1 \<and> lastFinalEpoch s < - 1)
   | Some ((events, err), s') \<Rightarrow>
       (\<exists>fins.
          events =
            \<lparr>ev_Slot = slot, ev_Epoch = slot div SlotsPerEpoch, ev_Type = EventTypeSlotPoll,
             ev_Validators = validators s\<rparr> #
            (if due
             then [\<lparr>ev_Slot = slot, ev_Epoch = slot div SlotsPerEpoch + 1,
                    ev_Type = EventTypeEpochBoundary, ev_Validators = validators s\<rparr>]
             else []) @ fins \<and>
          list_all (\<lambda>ev. ev_Type ev = EventTypeEpochFinalized) fins) \<and>
       list_ex (\<lambda>ev. ev_Type ev = EventTypeEpochBoundary) events = due \<and>
       lastEpoch s' = (if due then slot div SlotsPerEpoch else lastEpoch s) \<and>
       unat (slot div SlotsPerEpoch + 1) = unat slot div 32 + 1 \<and>
       err = None"
  proof (cases "fst (GetFinalityCheckpoints (client s) nw sc ''head'')")
    case (Inl err)
    then show ?thesis
      by (cases due) (simp_all add: unf Let_def boundary_epoch_no_wrap)
  next
    case (Inr cp)
    show ?thesis
    proof (cases "cp_Epoch (Finalized cp) > lastFinalEpoch s")
      case False
      with Inr show ?thesis
        by (cases due) (simp_all add: unf Let_def boundary_epoch_no_wrap)
    next
      case gt: True
      show ?thesis
      proof (cases "cp_Epoch (Finalized cp) = - 1")
        case True
        with Inr gt show ?thesis
          by (simp add: unf Let_def finalized_loop_diverges)
      next
        case False
        note ret = finalized_loop_returns [OF False, of slot "validators s" "lastFinalEpoch s + 1"]
        from Inr gt show ?thesis
          by (cases due) (simp_all add: unf Let_def ret fin nb boundary_epoch_no_wrap)
      qed
    qed
  qed
  then show ?thesis unfolding due_def .
qed

lemma example_finality_13:
  "NextEvents example_scheduler (net_answering 200 (quoted ''13'')) example_scanners 64 =
     Some (([\<lparr>ev_Slot = 64, ev_Epoch = 2, ev_Type = EventTypeSlotPoll, ev_Validators = [100]\<rparr>,
             \<lparr>ev_Slot = 64, ev_Epoch = 3, ev_Type = EventTypeEpochBoundary, ev_Validators = [100]\<rparr>,
             \<lparr>ev_Slot = 64, ev_Epoch = 11, ev_Type = EventTypeEpochFinalized, ev_Validators = [100]\<rparr>,
             \<lparr>ev_Slot = 64, ev_Epoch = 12, ev_Type = EventTypeEpochFinalized, ev_Validators = [100]\<rparr>,
             \<lparr>ev_Slot = 64, ev_Epoch = 13, ev_Type = EventTypeEpochFinalized, ev_Validators = [100]\<rparr>],
            None),
           example_scheduler\<lparr>lastEpoch := 2, lastFinalEpoch := 13\<rparr>)"
  by code_simp

theorem NextEvents_order_witness:
  "\<exists>events s'.
     NextEvents example_scheduler (net_answering 200 (quoted ''13'')) example_scanners 64 =
       Some ((events, None), s') \<and>
     (\<exists>fins.
        events =
          \<lparr>ev_Slot = 64, ev_Epoch = 2, ev_Type = EventTypeSlotPoll, ev_Validators = [100]\<rparr> #
          \<lparr>ev_Slot = 64, ev_Epoch = 3, ev_Type = EventTypeEpochBoundary, ev_Validators = [100]\<rparr> #
          fins \<and>
        list_all (\<lambda>ev. ev_Type ev = EventTypeEpochFinalized) fins) \<and>
     lastEpoch s' = 2"
proof -
  have e: "lastEpoch example_scheduler = 0" "validators example_scheduler = [100]"
    by (simp_all add: example_scheduler_def)
  from NextEvents_order [of example_scheduler "net_answering 200 (quoted ''13'')" example_scanners 64]
  show ?thesis
    by (simp add: example_finality_13 SlotsPerEpoch_def e)
qed

text \<open>
  C7: when the finality lookup fails, \<^verbatim>\<open>NextEvents\<close> returns with a nil error; the list
  holds the SLOT_POLL event, followed by the EPOCH_BOUNDARY event when one is due at
  that slot, and nothing else, so no EPOCH_FINALIZED event; \<open>lastFinalEpoch\<close> is unchanged
  and a warning is logged.
\<close>

theorem NextEvents_finality_failure:
  assumes "fst (GetFinalityCheckpoints (client s) nw sc ''head'') = Inl err"
  shows "\<exists>events s'.
     NextEvents s nw sc slot = Some ((events, None), s') \<and>
     events =
       \<lparr>ev_Slot = slot, ev_Epoch = slot div SlotsPerEpoch, ev_Type = EventTypeSlotPoll,
        ev_Validators = validators s\<rparr> #
       (if slot mod SlotsPerEpoch = 0 \<and> slot div SlotsPerEpoch \<noteq> lastEpoch s
        then [\<lparr>ev_Slot = slot, ev_Epoch = slot div SlotsPerEpoch + 1,
               ev_Type = EventTypeEpochBoundary, ev_Validators = validators s\<rparr>]
        else []) \<and>
     \<not> list_ex (\<lambda>ev. ev_Type ev = EventTypeEpochFinalized) events \<and>
     lastFinalEpoch s' = lastFinalEpoch s \<and>
     warnings s' = warnings s @ [LogWarn ''Failed to get finality checkpoints'' err]"
proof -
  define due where "due = (slot mod SlotsPerEpoch = 0 \<and> slot div SlotsPerEpoch \<noteq> lastEpoch s)"
  have "\<exists>events s'.
     NextEvents s nw sc slot = Some ((events, None), s') \<and>
     events =
       \<lparr>ev_Slot = slot, ev_Epoch = slot div SlotsPerEpoch, ev_Type = EventTypeSlotPoll,
        ev_Validators = validators s\<rparr> #
       (if due
        then [\<lparr>ev_Slot = slot, ev_Epoch = slot div SlotsPerEpoch + 1,
               ev_Type = EventTypeEpochBoundary, ev_Validators = validators s\<rparr>]
        else []) \<and>
     \<not> list_ex (\<lambda>ev. ev_Type ev = EventTypeEpochFinalized) events \<and>
     lastFinalEpoch s' = lastFinalEpoch s \<and>
     warnings s' = warnings s @ [LogWarn ''Failed to get finality checkpoints'' err]"
    using assms by (cases due) (simp_all add: NextEvents_unfold [OF due_def] Let_def)
  then show ?thesis unfolding due_def .
qed


lemma example_finality_503:
  "fst (GetFinalityCheckpoints (client example_scheduler) (net_answering 503 ''busy'')
          example_scanners ''head'') =
     Inl (ErrWrap ''failed to get finality checkpoints'' (RetryableError 503 ''busy''))"
  by code_simp

theorem NextEvents_finality_failure_witness:
  "\<exists>events s'.
     NextEvents example_scheduler (net_answering 503 ''busy'') example_scanners 65 =
       Some ((events, None), s') \<and>
     events = [\<lparr>ev_Slot = 65, ev_Epoch = 2, ev_Type = EventTypeSlotPoll, ev_Validators = [100]\<rparr>] \<and>
     lastFinalEpoch s' = 10"
  using NextEvents_finality_failure [OF example_finality_503, of 65]
  by (auto simp add: SlotsPerEpoch_def example_scheduler_def)

lemma unat_epochs_between:
  assumes "lo \<le> hi"
  shows "map unat (epochs_between lo hi) = [unat lo ..< Suc (unat hi)]"
proof -
  have "unat (of_nat k :: uint64) = k" if "k \<in> set [unat lo ..< Suc (unat hi)]" for k
  proof -
    from that have "k \<le> unat hi" by auto
    also have "unat hi < 2 ^ 64" using unsigned_less [of hi, where ?'a = nat] by simp
    finally show ?thesis by (simp add: unat_of_nat)
  qed
  then have "map (unat \<circ> (of_nat :: nat \<Rightarrow> uint64)) [unat lo ..< Suc (unat hi)] = map id [unat lo ..< Suc (unat hi)]"
    by (intro map_cong) simp_all
  then show ?thesis by (simp add: epochs_between_def)
qed

text \<open>Below the largest epoch the catch-up is as the specification describes it.\<close>

lemma NextEvents_catch_up:
  assumes "fst (GetFinalityCheckpoints (client s) nw sc ''head'') = Inr cp"
      and "lastFinalEpoch s < cp_Epoch (Finalized cp)" and "cp_Epoch (Finalized cp) \<noteq> - 1"
  shows "\<exists>events s'.
     NextEvents s nw sc slot = Some ((events, None), s') \<and>
     filter (\<lambda>ev. ev_Type ev = EventTypeEpochFinalized) events =
       map (fin_event slot (validators s)) (epochs_between (lastFinalEpoch s + 1) (cp_Epoch (Finalized cp))) \<and>
     map unat (epochs_between (lastFinalEpoch s + 1) (cp_Epoch (Finalized cp))) =
       [Suc (unat (lastFinalEpoch s)) ..< Suc (unat (cp_Epoch (Finalized cp)))] \<and>
     lastFinalEpoch s' = cp_Epoch (Finalized cp)"
proof -
  define due where "due = (slot mod SlotsPerEpoch = 0 \<and> slot div SlotsPerEpoch \<noteq> lastEpoch s)"
  let ?F = "cp_Epoch (Finalized cp)"
  note ret = finalized_loop_returns [OF assms(3), of slot "validators s" "lastFinalEpoch s + 1"]
  have lt: "unat (lastFinalEpoch s) < unat ?F" using assms(2) by (simp add: word_less_nat_alt)
  moreover have "unat ?F < 2 ^ 64" using unsigned_less [of ?F, where ?'a = nat] by simp
  ultimately have u: "unat (lastFinalEpoch s + 1) = Suc (unat (lastFinalEpoch s))"
    by (simp add: unat_word_ariths)
  with lt have le: "lastFinalEpoch s + 1 \<le> ?F" by (simp add: word_le_nat_alt)
  have flt: "filter (\<lambda>ev. ev_Type ev = EventTypeEpochFinalized) (map (fin_event slot (validators s)) es) =
             map (fin_event slot (validators s)) es" for es
    by (induction es) (simp_all add: fin_event_def)
  have "\<exists>events s'.
     NextEvents s nw sc slot = Some ((events, None), s') \<and>
     filter (\<lambda>ev. ev_Type ev = EventTypeEpochFinalized) events =
       map (fin_event slot (validators s)) (epochs_between (lastFinalEpoch s + 1) ?F) \<and>
     lastFinalEpoch s' = ?F"
    using assms(1,2) by (cases due) (simp_all add: NextEvents_unfold [OF due_def] Let_def ret flt)
  then show ?thesis using unat_epochs_between [OF le] u by auto
qed

lemma NextEvents_lastFinalEpoch_monotone:
  assumes "NextEvents s nw sc slot = Some (r, s')"
  shows "lastFinalEpoch s \<le> lastFinalEpoch s'"
proof -
  define due where "due = (slot mod SlotsPerEpoch = 0 \<and> slot div SlotsPerEpoch \<noteq> lastEpoch s)"
  show ?thesis
  proof (cases "fst (GetFinalityCheckpoints (client s) nw sc ''head'')")
    case (Inl err)
    with assms show ?thesis
      by (cases due) (auto simp add: NextEvents_unfold [OF due_def] Let_def)
  next
    case (Inr cp)
    with assms show ?thesis
      by (cases due)
         (auto simp add: NextEvents_unfold [OF due_def] Let_def split: if_splits option.splits)
  qed
qed

lemma NextEvents_never_returns_at_largest_epoch:
  assumes "fst (GetFinalityCheckpoints (client s) nw sc ''head'') = Inr cp"
      and "cp_Epoch (Finalized cp) = - 1" and "lastFinalEpoch s < - 1"
  shows "NextEvents s nw sc slot = None"
  using assms by (simp add: NextEvents_unfold [OF refl] Let_def finalized_loop_diverges)

lemma example_finality_max:
  "fst (GetFinalityCheckpoints example_client (net_answering 200 (quoted ''18446744073709551615''))
          example_scanners ''head'') =
   Inr \<lparr>PreviousJustified = \<lparr>cp_Epoch = 11, cp_Root = []\<rparr>,
        CurrentJustified = \<lparr>cp_Epoch = 12, cp_Root = []\<rparr>,
        Finalized = \<lparr>cp_Epoch = - 1, cp_Root = []\<rparr>\<rparr>"
  by code_simp

text \<open>
  C3: the claim holds for every finalized epoch below the largest 64-bit value
  (\<open>NextEvents_catch_up\<close>), and \<open>lastFinalEpoch\<close> never decreases over a call that
  returns (\<open>NextEvents_lastFinalEpoch_monotone\<close>). At the largest value the loop counter wraps around before
  the loop test can fail: with \<open>lastFinalEpoch = 10\<close> and a finality response whose
  finalized epoch is 18446744073709551615, \<^verbatim>\<open>NextEvents\<close> does not return.
\<close>

theorem NextEvents_largest_epoch_never_returns:
  "NextEvents example_scheduler (net_answering 200 (quoted ''18446744073709551615''))
     example_scanners 64 = None"
proof -
  have c: "client example_scheduler = example_client" "lastFinalEpoch example_scheduler = 10"
    by (simp_all add: example_scheduler_def)
  have "(10 :: uint64) < - 1" by simp
  then show ?thesis
    by (simp add: NextEvents_unfold [OF refl] Let_def c example_finality_max finalized_loop_diverges)
qed
subsection \<open>Job processing\<close>

lemma rewards_loop_result:
  "\<exists>R P w'. rewards_loop job w rs rewards penalties = ((rewards @ R, penalties @ P), w') \<and>
      same_rewards R (map (\<lambda>r. reward_of job r 0) rs) \<and>
      same_penalties P (map (\<lambda>r. penalty_of job r 0) (filter negative_total rs)) \<and>
      session_calls w' = session_calls w \<and> logged w' = logged w \<and>
      session_result w' = session_result w \<and> now w' = now w"
proof (induction rs arbitrary: w rewards penalties)
  case Nil
  then show ?case by (simp add: same_rewards_def same_penalties_def)
next
  case (Cons r rs)
  define w1 where "w1 = w\<lparr>clock_reads := Suc (clock_reads w)\<rparr>"
  define w2 where "w2 = w1\<lparr>clock_reads := Suc (clock_reads w1)\<rparr>"
  define reward where "reward = reward_of job r (now w (clock_reads w))"
  define penalty where "penalty = penalty_of job r (now w1 (clock_reads w1))"
  have sr: "reward\<lparr>ar_Timestamp := 0\<rparr> = (reward_of job r 0)\<lparr>ar_Timestamp := 0\<rparr>"
    by (simp add: reward_def reward_of_def)
  have sp: "penalty\<lparr>vp_Timestamp := 0\<rparr> = (penalty_of job r 0)\<lparr>vp_Timestamp := 0\<rparr>"
    by (simp add: penalty_def penalty_of_def)
  have ws: "session_calls w2 = session_calls w" "logged w2 = logged w"
      "session_result w2 = session_result w" "now w2 = now w"
      "session_calls w1 = session_calls w" "logged w1 = logged w"
      "session_result w1 = session_result w" "now w1 = now w"
    by (simp_all add: w1_def w2_def)
  show ?case
  proof (cases "negative_total r")
    case True
    then have unf: "rewards_loop job w (r # rs) rewards penalties =
        rewards_loop job w2 rs (rewards @ [reward]) (penalties @ [penalty])"
      by (simp add: negative_total_def time_Now_def Let_def w1_def w2_def reward_def penalty_def
            reward_of_def penalty_of_def PenaltyTypeAttestationMiss_def)
    from Cons.IH [of w2 "rewards @ [reward]" "penalties @ [penalty]"]
    obtain R P w' where f:
      "rewards_loop job w2 rs (rewards @ [reward]) (penalties @ [penalty]) =
         (((rewards @ [reward]) @ R, (penalties @ [penalty]) @ P), w')"
      "same_rewards R (map (\<lambda>r. reward_of job r 0) rs)"
      "same_penalties P (map (\<lambda>r. penalty_of job r 0) (filter negative_total rs))"
      "session_calls w' = session_calls w2" "logged w' = logged w2"
      "session_result w' = session_result w2" "now w' = now w2"
      by blast
    have "rewards_loop job w (r # rs) rewards penalties = ((rewards @ (reward # R), penalties @ (penalty # P)), w')"
      by (simp only: unf f(1)) simp
    moreover have "same_rewards (reward # R) (map (\<lambda>r. reward_of job r 0) (r # rs))"
      using f(2) sr by (simp add: same_rewards_def)
    moreover have "same_penalties (penalty # P) (map (\<lambda>r. penalty_of job r 0) (filter negative_total (r # rs)))"
      using f(3) sp True by (simp add: same_penalties_def)
    ultimately show ?thesis using f(4-7) ws by metis
  next
    case False
    then have unf: "rewards_loop job w (r # rs) rewards penalties =
        rewards_loop job w1 rs (rewards @ [reward]) penalties"
      by (simp add: negative_total_def time_Now_def Let_def w1_def reward_def reward_of_def)
    from Cons.IH [of w1 "rewards @ [reward]" penalties]
    obtain R P w' where f:
      "rewards_loop job w1 rs (rewards @ [reward]) penalties =
         (((rewards @ [reward]) @ R, penalties @ P), w')"
      "same_rewards R (map (\<lambda>r. reward_of job r 0) rs)"
      "same_penalties P (map (\<lambda>r. penalty_of job r 0) (filter negative_total rs))"
      "session_calls w' = session_calls w1" "logged w' = logged w1"
      "session_result w' = session_result w1" "now w' = now w1"
      by blast
    have "rewards_loop job w (r # rs) rewards penalties = ((rewards @ (reward # R), penalties @ P), w')"
      by (simp only: unf f(1)) simp
    moreover have "same_rewards (reward # R) (map (\<lambda>r. reward_of job r 0) (r # rs))"
      using f(2) sr by (simp add: same_rewards_def)
    moreover have "same_penalties P (map (\<lambda>r. penalty_of job r 0) (filter negative_total (r # rs)))"
      using f(3) False by simp
    ultimately show ?thesis using f(4-7) ws by metis
  qed
qed

lemma batch_rewards_result:
  "\<exists>rows' w'. batch_rewards w rows = ((rows', map reward_insert rows'), w') \<and>
      same_rewards rows' rows \<and>
      session_calls w' = session_calls w \<and> logged w' = logged w \<and>
      session_result w' = session_result w \<and> now w' = now w"
proof (induction rows arbitrary: w)
  case Nil
  then show ?case by (simp add: same_rewards_def)
next
  case (Cons row rows)
  define w1 where "w1 = (if IsZero (ar_Timestamp row) then w\<lparr>clock_reads := Suc (clock_reads w)\<rparr> else w)"
  define row1 where "row1 = (if IsZero (ar_Timestamp row) then row\<lparr>ar_Timestamp := now w (clock_reads w)\<rparr> else row)"
  have ws: "session_calls w1 = session_calls w" "logged w1 = logged w"
      "session_result w1 = session_result w" "now w1 = now w"
    by (simp_all add: w1_def)
  have sr: "row1\<lparr>ar_Timestamp := 0\<rparr> = row\<lparr>ar_Timestamp := 0\<rparr>"
    by (simp add: row1_def)
  have unf: "batch_rewards w (row # rows) =
      (case batch_rewards w1 rows of ((rows', batch), w2) \<Rightarrow> ((row1 # rows', reward_insert row1 # batch), w2))"
    by (cases "IsZero (ar_Timestamp row)") (simp_all add: time_Now_def w1_def row1_def)
  from Cons.IH [of w1] obtain rows' w' where
    r: "batch_rewards w1 rows = ((rows', map reward_insert rows'), w')"
      "same_rewards rows' rows" "session_calls w' = session_calls w1" "logged w' = logged w1"
      "session_result w' = session_result w1" "now w' = now w1"
    by blast
  have "batch_rewards w (row # rows) = ((row1 # rows', map reward_insert (row1 # rows')), w')"
    by (simp only: unf r(1)) simp
  moreover have "same_rewards (row1 # rows') (row # rows)"
    using r(2) sr by (simp add: same_rewards_def)
  ultimately show ?case using r(3-6) ws by metis
qed

lemma upt_from: "[n ..< n + Suc k] = n # [Suc n ..< Suc n + k]"
  by (simp add: upt_conv_Cons)

lemma same_penalties_length: "same_penalties xs ys \<Longrightarrow> length xs = length ys"
  unfolding same_penalties_def by (rule map_eq_imp_length_eq)

lemma save_penalties_result:
  "\<exists>ps'. same_penalties ps' ps \<and>
      session_calls (save_penalties w ps) =
        session_calls w @
        zip (map (\<lambda>p. Exec (penalty_insert p)) ps')
            (map (session_result w)
               [length (session_calls w) ..< length (session_calls w) + length ps])"
proof (induction ps arbitrary: w)
  case Nil
  then show ?case by (simp add: same_penalties_def)
next
  case (Cons p ps)
  define n where "n = length (session_calls w)"
  define ts where "ts = (if IsZero (vp_Timestamp p) then now w (clock_reads w) else vp_Timestamp p)"
  define res where "res = session_result w n"
  define p1 where "p1 = p\<lparr>vp_Timestamp := ts\<rparr>"
  define w1 where "w1 = w\<lparr>clock_reads := (if IsZero (vp_Timestamp p) then Suc (clock_reads w) else clock_reads w),
            session_calls := session_calls w @ [(Exec (penalty_insert p1), res)]\<rparr>"
  define w2 where "w2 = (case res of None \<Rightarrow> w1
     | Some e \<Rightarrow> log_line (LogError ''Failed to save validator penalty'' (ErrStore ''failed to save validator penalty'' e)) w1)"
  have sv: "SaveValidatorPenalty w p = ((store_error ''failed to save validator penalty'' res, p1), w1)"
    unfolding SaveValidatorPenalty_eq Let_def ts_def [symmetric] n_def [symmetric] res_def [symmetric]
      p1_def [symmetric] w1_def [symmetric] by (rule refl)
  have unf: "save_penalties w (p # ps) = save_penalties w2 ps"
    by (cases res) (simp_all add: sv w2_def store_error_def)
  have c: "session_calls w2 = session_calls w @ [(Exec (penalty_insert p1), res)]"
    and sr: "session_result w2 = session_result w"
    by (cases res; simp add: w2_def w1_def log_line_def)+
  from c have l: "length (session_calls w2) = Suc n" by (simp add: n_def)
  have sp: "p1\<lparr>vp_Timestamp := 0\<rparr> = p\<lparr>vp_Timestamp := 0\<rparr>" by (simp add: p1_def)
  from Cons.IH [of w2] obtain ps' where f:
    "same_penalties ps' ps"
    "session_calls (save_penalties w2 ps) =
        session_calls w2 @
        zip (map (\<lambda>p. Exec (penalty_insert p)) ps')
            (map (session_result w2)
               [length (session_calls w2) ..< length (session_calls w2) + length ps])"
    by blast
  have "same_penalties (p1 # ps') (p # ps)"
    using f(1) sp by (simp add: same_penalties_def)
  moreover have "session_calls (save_penalties w (p # ps)) =
        session_calls w @
        zip (map (\<lambda>p. Exec (penalty_insert p)) (p1 # ps'))
            (map (session_result w) [n ..< n + length (p # ps)])"
  proof -
    have e: "[n ..< n + length (p # ps)] = n # [Suc n ..< Suc n + length ps]"
      using upt_from [of n "length ps"] by simp
    from f(2) have "session_calls (save_penalties w2 ps) =
        session_calls w2 @
        zip (map (\<lambda>p. Exec (penalty_insert p)) ps')
            (map (session_result w2) [Suc n ..< Suc n + length ps])"
      by (simp only: l)
    then have "session_calls (save_penalties w2 ps) =
        (session_calls w @ [(Exec (penalty_insert p1), res)]) @
        zip (map (\<lambda>p. Exec (penalty_insert p)) ps')
            (map (session_result w) [Suc n ..< Suc n + length ps])"
      by (simp only: c sr)
    then show ?thesis
      by (simp only: unf e) (simp add: res_def)
  qed
  ultimately show ?case unfolding n_def by blast
qed

lemma same_rewards_trans: "same_rewards xs ys \<Longrightarrow> same_rewards ys zs \<Longrightarrow> same_rewards xs zs"
  by (simp add: same_rewards_def)

lemma same_duties_trans: "same_duties xs ys \<Longrightarrow> same_duties ys zs \<Longrightarrow> same_duties xs zs"
  by (simp add: same_duties_def)

lemma duties_loop_result:
  "\<exists>D w'. duties_loop job w ds duties = (duties @ D, w') \<and>
      same_duties D (map (\<lambda>d. duty_of job d 0) ds)"
proof (induction ds arbitrary: w duties)
  case Nil
  then show ?case by (simp add: same_duties_def)
next
  case (Cons d ds)
  define w1 where "w1 = w\<lparr>clock_reads := Suc (clock_reads w)\<rparr>"
  define duty where "duty = duty_of job d (now w (clock_reads w))"
  have sd: "duty\<lparr>ad_Timestamp := 0\<rparr> = (duty_of job d 0)\<lparr>ad_Timestamp := 0\<rparr>"
    by (simp add: duty_def duty_of_def)
  have unf: "duties_loop job w (d # ds) duties = duties_loop job w1 ds (duties @ [duty])"
    by (simp add: time_Now_def w1_def duty_def duty_of_def)
  from Cons.IH [of w1 "duties @ [duty]"] obtain D w' where f:
    "duties_loop job w1 ds (duties @ [duty]) = ((duties @ [duty]) @ D, w')"
    "same_duties D (map (\<lambda>d. duty_of job d 0) ds)"
    by blast
  have "duties_loop job w (d # ds) duties = (duties @ (duty # D), w')"
    by (simp only: unf f(1)) simp
  moreover have "same_duties (duty # D) (map (\<lambda>d. duty_of job d 0) (d # ds))"
    using f(2) sd by (simp add: same_duties_def)
  ultimately show ?case by blast
qed

lemma batch_duties_result:
  "\<exists>rows' batch w'. batch_duties w rows = ((rows', batch), w') \<and> same_duties rows' rows"
proof (induction rows arbitrary: w)
  case Nil
  then show ?case by (simp add: same_duties_def)
next
  case (Cons row rows)
  define w1 where "w1 = (if IsZero (ad_Timestamp row) then w\<lparr>clock_reads := Suc (clock_reads w)\<rparr> else w)"
  define row1 where "row1 = (if IsZero (ad_Timestamp row) then row\<lparr>ad_Timestamp := now w (clock_reads w)\<rparr> else row)"
  have sr: "row1\<lparr>ad_Timestamp := 0\<rparr> = row\<lparr>ad_Timestamp := 0\<rparr>"
    by (simp add: row1_def)
  have unf: "batch_duties w (row # rows) =
      (case batch_duties w1 rows of ((rows', batch), w2) \<Rightarrow> ((row1 # rows', duty_insert row1 # batch), w2))"
    by (cases "IsZero (ad_Timestamp row)") (simp_all add: time_Now_def w1_def row1_def)
  from Cons.IH [of w1] obtain rows' batch w' where
    r: "batch_duties w1 rows = ((rows', batch), w')" "same_duties rows' rows"
    by blast
  have "batch_duties w (row # rows) = ((row1 # rows', duty_insert row1 # batch), w')"
    by (simp only: unf r(1)) simp
  moreover have "same_duties (row1 # rows') (row # rows)"
    using r(2) sr by (simp add: same_duties_def)
  ultimately show ?case by blast
qed

lemma processStatusJob_result:
  assumes "fst (GetValidator (m_client m) nw sc ''head'' (job_ValidatorIndex job)) = Inr v"
  shows "\<exists>snapshot. fst (processStatusJob m nw sc w job) = Inr snapshot \<and>
     snapshot\<lparr>vs_Timestamp := 0\<rparr> =
       \<lparr>vs_ValidatorIndex = job_ValidatorIndex job, vs_Slot = job_Slot job,
        vs_Status = v_Status v, vs_Balance = v_Balance v,
        vs_EffectiveBalance = v_EffectiveBalance v, vs_Timestamp = 0\<rparr>"
  using assms
  by (cases "session_result (snd (time_Now w)) (length (session_calls (snd (time_Now w))))")
     (simp_all add: processStatusJob_def SaveValidatorSnapshot_eq Let_def store_error_def split_def)

lemma processDutiesJob_result:
  assumes "fst (GetAttesterDuties (m_client m) nw sc (job_Epoch job) (cfg_Validators m)) = Inr resp"
  shows "\<exists>duties. fst (processDutiesJob m nw sc w job) = Inr duties \<and>
     same_duties duties (map (\<lambda>d. duty_of job d 0) (Data resp))"
proof -
  from duties_loop_result [of job w "Data resp" "[]"] obtain D w1 where
    l: "duties_loop job w (Data resp) [] = (D, w1)" "same_duties D (map (\<lambda>d. duty_of job d 0) (Data resp))"
    by auto
  from batch_duties_result [of w1 D] obtain rows batch w2 where
    b: "batch_duties w1 D = ((rows, batch), w2)" "same_duties rows D"
    by blast
  have "fst (processDutiesJob m nw sc w job) = Inr rows"
    using assms
    by (cases "session_result w2 (length (session_calls w2))")
       (simp_all add: processDutiesJob_def l(1) SaveAttestationDuties_def b(1) session_run_eq store_error_def)
  with same_duties_trans [OF b(2) l(2)] show ?thesis by blast
qed

lemma processRewardsJob_result:
  assumes "fst (GetAttestationRewards (m_client m) nw sc (job_Epoch job) (cfg_Validators m)) = Inr resp"
  shows "\<exists>rewards penalties w'.
     processRewardsJob m nw sc w job = (Inr rewards, w') \<and>
     same_rewards rewards (map (\<lambda>r. reward_of job r 0) (TotalRewards resp)) \<and>
     same_penalties penalties
       (map (\<lambda>r. penalty_of job r 0) (filter negative_total (TotalRewards resp))) \<and>
     session_calls w' =
       session_calls w @
       zip (ExecuteBatch (map reward_insert rewards) # map (\<lambda>p. Exec (penalty_insert p)) penalties)
           (map (session_result w)
              [length (session_calls w) ..< length (session_calls w) + Suc (length penalties)])"
proof -
  define n where "n = length (session_calls w)"
  from rewards_loop_result [of job w "TotalRewards resp" "[]" "[]"] obtain R P w1 where
    l: "rewards_loop job w (TotalRewards resp) [] [] = ((R, P), w1)"
      "same_rewards R (map (\<lambda>r. reward_of job r 0) (TotalRewards resp))"
      "same_penalties P (map (\<lambda>r. penalty_of job r 0) (filter negative_total (TotalRewards resp)))"
      "session_calls w1 = session_calls w" "session_result w1 = session_result w"
    by auto
  from batch_rewards_result [of w1 R] obtain rows w2 where
    b: "batch_rewards w1 R = ((rows, map reward_insert rows), w2)" "same_rewards rows R"
      "session_calls w2 = session_calls w1" "session_result w2 = session_result w1"
    by blast
  define res where "res = session_result w n"
  define w3 where "w3 = w2\<lparr>session_calls := session_calls w2 @ [(ExecuteBatch (map reward_insert rows), res)]\<rparr>"
  define w4 where "w4 = (case store_error ''failed to save attestation rewards batch'' res of
                            None \<Rightarrow> w3
                          | Some err \<Rightarrow> log_line (LogError ''Failed to save attestation rewards'' err) w3)"
  have sv: "SaveAttestationRewards w1 R =
      ((store_error ''failed to save attestation rewards batch'' res, rows), w3)"
    by (simp add: SaveAttestationRewards_def b(1,3,4) l(4,5) session_run_eq res_def w3_def n_def)
  have p: "processRewardsJob m nw sc w job = (Inr rows, save_penalties w4 P)"
    using assms by (simp add: processRewardsJob_def l(1) sv w4_def)
  have c4: "session_calls w4 = session_calls w @ [(ExecuteBatch (map reward_insert rows), res)]"
    and r4: "session_result w4 = session_result w"
    by (cases res; simp add: w4_def w3_def store_error_def log_line_def b(3,4) l(4,5))+
  from c4 have l4: "length (session_calls w4) = Suc n" by (simp add: n_def)
  from save_penalties_result [of P w4] obtain ps' where
    s: "same_penalties ps' P"
      "session_calls (save_penalties w4 P) =
        session_calls w4 @
        zip (map (\<lambda>p. Exec (penalty_insert p)) ps')
            (map (session_result w4)
               [length (session_calls w4) ..< length (session_calls w4) + length P])"
    by blast
  have len: "length ps' = length P" using s(1) by (rule same_penalties_length)
  have "same_penalties ps' (map (\<lambda>r. penalty_of job r 0) (filter negative_total (TotalRewards resp)))"
    using s(1) l(3) by (simp add: same_penalties_def)
  moreover have "session_calls (save_penalties w4 P) =
       session_calls w @
       zip (ExecuteBatch (map reward_insert rows) # map (\<lambda>p. Exec (penalty_insert p)) ps')
           (map (session_result w) [n ..< n + Suc (length ps')])"
  proof -
    have e: "[n ..< n + Suc (length ps')] = n # [Suc n ..< Suc n + length P]"
      using upt_from [of n "length P"] len by simp
    from s(2) have "session_calls (save_penalties w4 P) =
        session_calls w4 @
        zip (map (\<lambda>p. Exec (penalty_insert p)) ps')
            (map (session_result w4) [Suc n ..< Suc n + length P])"
      by (simp only: l4)
    then have "session_calls (save_penalties w4 P) =
        (session_calls w @ [(ExecuteBatch (map reward_insert rows), res)]) @
        zip (map (\<lambda>p. Exec (penalty_insert p)) ps')
            (map (session_result w) [Suc n ..< Suc n + length P])"
      by (simp only: c4 r4)
    then show ?thesis
      by (simp only: e) (simp add: res_def)
  qed
  ultimately show ?thesis
    using p same_rewards_trans [OF b(2) l(2)] unfolding n_def by blast
qed

lemma sint_sum3:
  fixes a b c :: int64
  assumes "- (2 ^ 63) \<le> sint a + sint b + sint c" "sint a + sint b + sint c < 2 ^ 63"
  shows "sint (a + b + c) = sint a + sint b + sint c"
proof -
  have "a + b + c = word_of_int (sint a + sint b + sint c)" by simp
  then have "sint (a + b + c) = signed_take_bit 63 (sint a + sint b + sint c)"
    by (simp only: sint_sbintrunc') simp
  also have "\<dots> = sint a + sint b + sint c"
    using assms by (simp add: signed_take_bit_int_eq_self)
  finally show ?thesis .
qed

lemma sint_neg:
  fixes a :: int64
  assumes "- (2 ^ 63) < sint a"
  shows "sint (- a) = - sint a"
proof -
  have "sint a < 2 ^ 63" using sint_lt [of a] by simp
  have "- a = word_of_int (- sint a)" by simp
  then have "sint (- a) = signed_take_bit 63 (- sint a)"
    by (simp only: sint_sbintrunc') simp
  also have "\<dots> = - sint a"
    using assms \<open>sint a < 2 ^ 63\<close> by (simp add: signed_take_bit_int_eq_self)
  finally show ?thesis .
qed

lemma totals_as_integers:
  fixes h s t :: int64
  assumes "- (2 ^ 63) < sint h + sint s + sint t" "sint h + sint s + sint t < 2 ^ 63"
  shows "sint (h + s + t) = sint h + sint s + sint t \<and>
         sint (- (h + s + t)) = - (sint h + sint s + sint t)"
proof -
  have 1: "sint (h + s + t) = sint h + sint s + sint t"
    using assms by (intro sint_sum3) simp_all
  with assms(1) have "sint (- (h + s + t)) = - sint (h + s + t)"
    by (intro sint_neg) simp
  with 1 show ?thesis by simp
qed

lemma Process_status:
  "job_Type job = JobTypeStatus \<Longrightarrow> fst (processStatusJob m nw sc w job) = Inr snapshot \<Longrightarrow>
   fst (Process m nw sc w job) = Inr (SnapshotData snapshot)"
  by (cases "processStatusJob m nw sc w job") (simp add: Process_def)

lemma Process_duties:
  "job_Type job = JobTypeDuties \<Longrightarrow> fst (processDutiesJob m nw sc w job) = Inr duties \<Longrightarrow>
   fst (Process m nw sc w job) = Inr (DutiesData duties)"
  by (cases "processDutiesJob m nw sc w job") (simp add: Process_def)

lemma Process_rewards:
  "job_Type job = JobTypeRewards \<Longrightarrow> fst (processRewardsJob m nw sc w job) = Inr rewards \<Longrightarrow>
   fst (Process m nw sc w job) = Inr (RewardsData rewards)"
  by (cases "processRewardsJob m nw sc w job") (simp add: Process_def)

lemma example_rewards_fetch:
  "fst (GetAttestationRewards (m_client example_monitor) (net_answering 200 (quoted ''-1000''))
          example_scanners (job_Epoch (example_job JobTypeRewards)) (cfg_Validators example_monitor)) =
     Inr \<lparr>IdealRewards = [],
          TotalRewards = [\<lparr>r_ValidatorIndex = 100, r_Head = - 1000, r_Target = 200, r_Source = - 500\<rparr>]\<rparr>"
  by code_simp

lemma example_duties_fetch:
  "fst (GetAttesterDuties (m_client example_monitor) (net_answering 200 (quoted ''70''))
          example_scanners (job_Epoch (example_job JobTypeDuties)) (cfg_Validators example_monitor)) =
     Inr \<lparr>DependentRoot = [], ExecutionOptimistic = False,
          Data = [\<lparr>d_Pubkey = [], d_ValidatorIndex = 100, d_CommitteeIndex = 3,
                   d_CommitteeLength = 128, d_CommitteesAtSlot = 4,
                   d_ValidatorCommitteeIndex = 5, d_Slot = 70\<rparr>]\<rparr>"
  by code_simp

lemma example_validator_fetch:
  "fst (GetValidator (m_client example_monitor) (net_answering 200 (quoted ''32000000000''))
          example_scanners ''head'' (job_ValidatorIndex (example_job JobTypeStatus))) =
     Inr \<lparr>v_Index = 100, v_Balance = 32000000000, v_Status = ''active_ongoing'', v_Pubkey = [],
          v_WithdrawalCredentials = [], v_EffectiveBalance = 32000000000, v_Slashed = False,
          v_ActivationEligibilityEpoch = 0, v_ActivationEpoch = 0, v_ExitEpoch = - 1,
          v_WithdrawableEpoch = - 1\<rparr>"
  by code_simp

lemma rows_within_int64:
  assumes "- (2 ^ 63) < spec_total r" and "spec_total r < 2 ^ 63"
  shows "sint (ar_TotalReward (reward_of job r t)) = spec_total r"
    and "negative_total r = (spec_total r < 0)"
    and "sint (vp_PenaltyGwei (penalty_of job r t)) = - spec_total r"
proof -
  from assms have t: "sint (r_Head r + r_Source r + r_Target r) =
                  sint (r_Head r) + sint (r_Source r) + sint (r_Target r) \<and>
                sint (- (r_Head r + r_Source r + r_Target r)) =
                  - (sint (r_Head r) + sint (r_Source r) + sint (r_Target r))"
    unfolding spec_total_def by (intro totals_as_integers) simp_all
  from t show "sint (ar_TotalReward (reward_of job r t)) = spec_total r"
    by (simp add: reward_of_def spec_total_def)
  from t show "negative_total r = (spec_total r < 0)"
    by (simp add: negative_total_def spec_total_def)
  from t show "sint (vp_PenaltyGwei (penalty_of job r t)) = - spec_total r"
    by (simp add: penalty_of_def spec_total_def)
qed

text \<open>
  C1: for every entry whose integer sum head + source + target lies strictly between
  \<open>-2^63\<close> and \<open>2^63\<close> the job does what the claim says (\<open>processRewardsJob_result\<close> with
  \<open>rows_within_int64\<close>). At the bounds of \<^verbatim>\<open>int64\<close> it does not. The REWARDS job of
  epoch 50 and slot 1600 receives a response with three entries (head, source, target):
  \<open>(-2^63, 0, 0)\<close> for validator 100, \<open>(-2^63, -1, 0)\<close> for validator 101 and
  \<open>(2^63 - 1, 1, 0)\<close> for validator 102. Then
  \<^item> for validator 100 the total is \<open>-2^63\<close> and the session is handed a penalty whose
    \<^verbatim>\<open>penalty_gwei\<close> is \<open>-2^63\<close>: a negative amount, not the negation of the total;
  \<^item> for validator 101 the sum is \<open>-2^63 - 1\<close>, the stored total is \<open>2^63 - 1\<close> and no
    penalty is built;
  \<^item> for validator 102 the sum is \<open>2^63\<close>, a gain, the stored total is \<open>-2^63\<close> and the
    session is handed a penalty of \<open>-2^63\<close>.
\<close>

theorem rewards_job_at_int64_bounds:
  "let entries =
         [\<lparr>r_ValidatorIndex = 100, r_Head = - 9223372036854775808, r_Target = 0, r_Source = 0\<rparr>,
          \<lparr>r_ValidatorIndex = 101, r_Head = - 9223372036854775808, r_Target = 0, r_Source = - 1\<rparr>,
          \<lparr>r_ValidatorIndex = 102, r_Head = 9223372036854775807, r_Target = 0, r_Source = 1\<rparr>];
       result =
         processRewardsJob boundary_monitor (net_answering 200 []) boundary_scanners
           (example_world (\<lambda>k. False)) (example_job JobTypeRewards);
       rewards =
         [\<lparr>ar_ValidatorIndex = 100, ar_Epoch = 50, ar_HeadReward = - 9223372036854775808,
           ar_SourceReward = 0, ar_TargetReward = 0, ar_TotalReward = - 9223372036854775808,
           ar_Timestamp = 1000\<rparr>,
          \<lparr>ar_ValidatorIndex = 101, ar_Epoch = 50, ar_HeadReward = - 9223372036854775808,
           ar_SourceReward = - 1, ar_TargetReward = 0, ar_TotalReward = 9223372036854775807,
           ar_Timestamp = 1002\<rparr>,
          \<lparr>ar_ValidatorIndex = 102, ar_Epoch = 50, ar_HeadReward = 9223372036854775807,
           ar_SourceReward = 1, ar_TargetReward = 0, ar_TotalReward = - 9223372036854775808,
           ar_Timestamp = 1003\<rparr>];
       reward_columns =
         [''validator_index'', ''epoch'', ''head_reward'', ''source_reward'', ''target_reward'',
          ''total_reward'', ''timestamp''];
       penalty_columns =
         [''validator_index'', ''epoch'', ''slot'', ''penalty_type'', ''penalty_gwei'',
          ''timestamp''];
       penalty_100 =
         \<lparr>table = ''validator_penalties'', columns = penalty_columns,
          args = [V_uint64 100, V_uint64 50, V_uint64 1600, V_string ''attestation_miss'',
                  V_int64 (- 9223372036854775808), V_Time 1001]\<rparr>;
       penalty_102 =
         \<lparr>table = ''validator_penalties'', columns = penalty_columns,
          args = [V_uint64 102, V_uint64 50, V_uint64 1600, V_string ''attestation_miss'',
                  V_int64 (- 9223372036854775808), V_Time 1004]\<rparr>
   in fst (GetAttestationRewards (m_client boundary_monitor) (net_answering 200 [])
             boundary_scanners (job_Epoch (example_job JobTypeRewards))
             (cfg_Validators boundary_monitor)) =
        Inr \<lparr>IdealRewards = [], TotalRewards = entries\<rparr> \<and>
      map spec_total entries =
        [- 9223372036854775808, - 9223372036854775809, 9223372036854775808] \<and>
      fst result = Inr rewards \<and>
      map (\<lambda>r. sint (ar_TotalReward r)) rewards =
        [- 9223372036854775808, 9223372036854775807, - 9223372036854775808] \<and>
      session_calls (snd result) =
        [(ExecuteBatch
            [\<lparr>table = ''attestation_rewards'', columns = reward_columns,
              args = [V_uint64 100, V_uint64 50, V_int64 (- 9223372036854775808), V_int64 0,
                      V_int64 0, V_int64 (- 9223372036854775808), V_Time 1000]\<rparr>,
             \<lparr>table = ''attestation_rewards'', columns = reward_columns,
              args = [V_uint64 101, V_uint64 50, V_int64 (- 9223372036854775808), V_int64 (- 1),
                      V_int64 0, V_int64 9223372036854775807, V_Time 1002]\<rparr>,
             \<lparr>table = ''attestation_rewards'', columns = reward_columns,
              args = [V_uint64 102, V_uint64 50, V_int64 9223372036854775807, V_int64 1,
                      V_int64 0, V_int64 (- 9223372036854775808), V_Time 1003]\<rparr>], None),
         (Exec penalty_100, None),
         (Exec penalty_102, None)] \<and>
      int64_args penalty_100 = [- 9223372036854775808] \<and>
      int64_args penalty_102 = [- 9223372036854775808]"
  unfolding Let_def
proof (intro conjI)
  show "fst (GetAttestationRewards (m_client boundary_monitor) (net_answering 200 [])
             boundary_scanners (job_Epoch (example_job JobTypeRewards))
             (cfg_Validators boundary_monitor)) =
        Inr \<lparr>IdealRewards = [], TotalRewards = 
         [\<lparr>r_ValidatorIndex = 100, r_Head = - 9223372036854775808, r_Target = 0, r_Source = 0\<rparr>,
          \<lparr>r_ValidatorIndex = 101, r_Head = - 9223372036854775808, r_Target = 0, r_Source = - 1\<rparr>,
          \<lparr>r_ValidatorIndex = 102, r_Head = 9223372036854775807, r_Target = 0, r_Source = 1\<rparr>]\<rparr>"
    by code_simp
qed (code_simp+)

text \<open>
  C8: whatever the database session answers to the writes of a job, when the fetch of
  a STATUS, DUTIES or REWARDS job succeeds, \<^verbatim>\<open>Process\<close> returns a nil error with the
  objects built from the response: the snapshot, the list of duties, the list of
  rewards (each up to its timestamp).
\<close>

theorem write_failures_do_not_fail_jobs:
  "(job_Type job = JobTypeStatus \<and>
    fst (GetValidator (m_client m) nw sc ''head'' (job_ValidatorIndex job)) = Inr v \<longrightarrow>
      (\<exists>snapshot.
         fst (Process m nw sc w job) = Inr (SnapshotData snapshot) \<and>
         snapshot\<lparr>vs_Timestamp := 0\<rparr> =
           \<lparr>vs_ValidatorIndex = job_ValidatorIndex job, vs_Slot = job_Slot job,
            vs_Status = v_Status v, vs_Balance = v_Balance v,
            vs_EffectiveBalance = v_EffectiveBalance v, vs_Timestamp = 0\<rparr>)) \<and>
   (job_Type job = JobTypeDuties \<and>
    fst (GetAttesterDuties (m_client m) nw sc (job_Epoch job) (cfg_Validators m)) = Inr dresp \<longrightarrow>
      (\<exists>duties.
         fst (Process m nw sc w job) = Inr (DutiesData duties) \<and>
         same_duties duties (map (\<lambda>d. duty_of job d 0) (Data dresp)))) \<and>
   (job_Type job = JobTypeRewards \<and>
    fst (GetAttestationRewards (m_client m) nw sc (job_Epoch job) (cfg_Validators m)) = Inr rresp \<longrightarrow>
      (\<exists>rewards.
         fst (Process m nw sc w job) = Inr (RewardsData rewards) \<and>
         same_rewards rewards (map (\<lambda>r. reward_of job r 0) (TotalRewards rresp))))"
proof (intro conjI impI)
  assume a: "job_Type job = JobTypeStatus \<and>
    fst (GetValidator (m_client m) nw sc ''head'' (job_ValidatorIndex job)) = Inr v"
  from processStatusJob_result [OF a [THEN conjunct2], of w] obtain snapshot where
    s: "fst (processStatusJob m nw sc w job) = Inr snapshot"
      "snapshot\<lparr>vs_Timestamp := 0\<rparr> =
           \<lparr>vs_ValidatorIndex = job_ValidatorIndex job, vs_Slot = job_Slot job,
            vs_Status = v_Status v, vs_Balance = v_Balance v,
            vs_EffectiveBalance = v_EffectiveBalance v, vs_Timestamp = 0\<rparr>"
    by blast
  from Process_status [OF a [THEN conjunct1] s(1)] s(2)
  show "\<exists>snapshot.
         fst (Process m nw sc w job) = Inr (SnapshotData snapshot) \<and>
         snapshot\<lparr>vs_Timestamp := 0\<rparr> =
           \<lparr>vs_ValidatorIndex = job_ValidatorIndex job, vs_Slot = job_Slot job,
            vs_Status = v_Status v, vs_Balance = v_Balance v,
            vs_EffectiveBalance = v_EffectiveBalance v, vs_Timestamp = 0\<rparr>"
    by blast
next
  assume a: "job_Type job = JobTypeDuties \<and>
    fst (GetAttesterDuties (m_client m) nw sc (job_Epoch job) (cfg_Validators m)) = Inr dresp"
  from processDutiesJob_result [OF a [THEN conjunct2], of w] obtain duties where
    d: "fst (processDutiesJob m nw sc w job) = Inr duties"
      "same_duties duties (map (\<lambda>d. duty_of job d 0) (Data dresp))"
    by blast
  from Process_duties [OF a [THEN conjunct1] d(1)] d(2)
  show "\<exists>duties.
         fst (Process m nw sc w job) = Inr (DutiesData duties) \<and>
         same_duties duties (map (\<lambda>d. duty_of job d 0) (Data dresp))"
    by blast
next
  assume a: "job_Type job = JobTypeRewards \<and>
    fst (GetAttestationRewards (m_client m) nw sc (job_Epoch job) (cfg_Validators m)) = Inr rresp"
  from processRewardsJob_result [OF a [THEN conjunct2], of w] obtain rewards w' where
    r: "processRewardsJob m nw sc w job = (Inr rewards, w')"
      "same_rewards rewards (map (\<lambda>r. reward_of job r 0) (TotalRewards rresp))"
    by blast
  from r(1) have "fst (processRewardsJob m nw sc w job) = Inr rewards" by simp
  from Process_rewards [OF a [THEN conjunct1] this] r(2)
  show "\<exists>rewards.
         fst (Process m nw sc w job) = Inr (RewardsData rewards) \<and>
         same_rewards rewards (map (\<lambda>r. reward_of job r 0) (TotalRewards rresp))"
    by blast
qed

text \<open>The same three jobs in a world where every write fails.\<close>

theorem write_failures_do_not_fail_jobs_witness:
  "(\<exists>snapshot.
      fst (Process example_monitor (net_answering 200 (quoted ''32000000000'')) example_scanners
             (example_world (\<lambda>k. True)) (example_job JobTypeStatus)) = Inr (SnapshotData snapshot) \<and>
      snapshot\<lparr>vs_Timestamp := 0\<rparr> =
        \<lparr>vs_ValidatorIndex = 100, vs_Slot = 1600, vs_Status = ''active_ongoing'',
         vs_Balance = 32000000000, vs_EffectiveBalance = 32000000000, vs_Timestamp = 0\<rparr>) \<and>
   (\<exists>duties.
      fst (Process example_monitor (net_answering 200 (quoted ''70'')) example_scanners
             (example_world (\<lambda>k. True)) (example_job JobTypeDuties)) = Inr (DutiesData duties) \<and>
      same_duties duties
        [\<lparr>ad_ValidatorIndex = 100, ad_Epoch = 50, ad_Slot = 70, ad_CommitteeIndex = 3,
          ad_CommitteePosition = 5, ad_Timestamp = 0\<rparr>]) \<and>
   (\<exists>rewards.
      fst (Process example_monitor (net_answering 200 (quoted ''-1000'')) example_scanners
             (example_world (\<lambda>k. True)) (example_job JobTypeRewards)) = Inr (RewardsData rewards) \<and>
      same_rewards rewards
        [\<lparr>ar_ValidatorIndex = 100, ar_Epoch = 50, ar_HeadReward = - 1000, ar_SourceReward = - 500,
          ar_TargetReward = 200, ar_TotalReward = - 1300, ar_Timestamp = 0\<rparr>])"
proof -
  let ?W = "example_world (\<lambda>k. True)"
  have t: "job_Type (example_job ty) = ty" for ty by (simp add: example_job_def)
  note s = write_failures_do_not_fail_jobs [where m = example_monitor and w = ?W
      and job = "example_job JobTypeStatus" and nw = "net_answering 200 (quoted ''32000000000'')"
      and sc = example_scanners, THEN conjunct1, rule_format, OF conjI, OF t example_validator_fetch]
  note d = write_failures_do_not_fail_jobs [where m = example_monitor and w = ?W
      and job = "example_job JobTypeDuties" and nw = "net_answering 200 (quoted ''70'')"
      and sc = example_scanners, THEN conjunct2, THEN conjunct1, rule_format, OF conjI,
      OF t example_duties_fetch]
  note r = write_failures_do_not_fail_jobs [where m = example_monitor and w = ?W
      and job = "example_job JobTypeRewards" and nw = "net_answering 200 (quoted ''-1000'')"
      and sc = example_scanners, THEN conjunct2, THEN conjunct2, rule_format, OF conjI,
      OF t example_rewards_fetch]
  from s have 1: "\<exists>snapshot.
      fst (Process example_monitor (net_answering 200 (quoted ''32000000000'')) example_scanners
             ?W (example_job JobTypeStatus)) = Inr (SnapshotData snapshot) \<and>
      snapshot\<lparr>vs_Timestamp := 0\<rparr> =
        \<lparr>vs_ValidatorIndex = 100, vs_Slot = 1600, vs_Status = ''active_ongoing'',
         vs_Balance = 32000000000, vs_EffectiveBalance = 32000000000, vs_Timestamp = 0\<rparr>"
    by (simp add: example_job_def)
  from d have 2: "\<exists>duties.
      fst (Process example_monitor (net_answering 200 (quoted ''70'')) example_scanners
             ?W (example_job JobTypeDuties)) = Inr (DutiesData duties) \<and>
      same_duties duties
        [\<lparr>ad_ValidatorIndex = 100, ad_Epoch = 50, ad_Slot = 70, ad_CommitteeIndex = 3,
          ad_CommitteePosition = 5, ad_Timestamp = 0\<rparr>]"
    by (simp add: example_job_def duty_of_def)
  from r have 3: "\<exists>rewards.
      fst (Process example_monitor (net_answering 200 (quoted ''-1000'')) example_scanners
             ?W (example_job JobTypeRewards)) = Inr (RewardsData rewards) \<and>
      same_rewards rewards
        [\<lparr>ar_ValidatorIndex = 100, ar_Epoch = 50, ar_HeadReward = - 1000, ar_SourceReward = - 500,
          ar_TargetReward = 200, ar_TotalReward = - 1300, ar_Timestamp = 0\<rparr>]"
    by (simp add: example_job_def reward_of_def)
  from 1 2 3 show ?thesis by blast
qed

subsection \<open>Tokens the decoders refuse\<close>

lemma field_uint64_error: "field_uint64 member = Inl x \<Longrightarrow> \<exists>e. x = JsonField e"
  by (auto simp add: field_uint64_def split: option.splits sum.splits)

lemma field_uint64_refuses:
  assumes "\<not> optionally_quoted uint64_literal data"
  shows "\<exists>e. field_uint64 (Some data) = Inl (JsonField e)"
  using Uint64Str_rejects [OF assms] by (auto simp add: field_uint64_def)

lemma decode_Validator_refuses_balance:
  assumes "rv_balance raw = Some data" and "\<not> optionally_quoted uint64_literal data"
  shows "\<exists>e. decode_Validator raw = Inl (JsonField e)"
proof (cases "field_uint64 (rv_index raw)")
  case (Inl x)
  with field_uint64_error [OF Inl] show ?thesis
    by (auto simp add: decode_Validator_def and_then_def)
next
  case (Inr index)
  from field_uint64_refuses [OF assms(2)] obtain e
    where "field_uint64 (rv_balance raw) = Inl (JsonField e)"
    using assms(1) by auto
  with Inr show ?thesis
    by (simp add: decode_Validator_def and_then_def)
qed

lemma get_refuses_undecodable:
  assumes "0 \<le> maxRetries c" and "limiter_Wait nw 0 = None" and "NewRequest nw = None"
      and "httpClient_Do nw 0 = Response 200 body" and "decode body = Inl e"
  shows "fst (get c nw path decode result) = Inl (ErrDecode e)"
proof -
  have "iteration c nw ''GET'' (baseURL c @ path) decode 0 NewDefault =
          Return (Inl (ErrDecode e)) [LimiterWait, HttpDo ''GET'' (baseURL c @ path) None]"
    using assms by (simp add: iteration_def ShouldRetry_def)
  from loop_Return [OF assms(1) this] show ?thesis
    by (simp add: get_def doRequest_def)
qed

lemma processStatusJob_refuses_balance:
  assumes "scan_Validator sc body = Some raw" and "rv_balance raw = Some data"
      and "\<not> optionally_quoted uint64_literal data"
      and "httpClient_Do nw 0 = Response 200 body" and "limiter_Wait nw 0 = None"
      and "NewRequest nw = None" and "0 \<le> maxRetries (m_client m)"
  shows "\<exists>e. processStatusJob m nw sc w job =
           (Inl (ErrWrap (''failed to get validator '' @ fmt_d (job_ValidatorIndex job))
                   (ErrDecode (JsonField e))), w)"
proof -
  from decode_Validator_refuses_balance [OF assms(2,3)] obtain e
    where "decode_Validator raw = Inl (JsonField e)" by blast
  then have "decode_body (scan_Validator sc) decode_Validator body = Inl (JsonField e)"
    using assms(1) by (simp add: decode_body_def)
  from get_refuses_undecodable [where decode = "decode_body (scan_Validator sc) decode_Validator"
      and nw = nw and c = "m_client m" and body = body, OF assms(7,5,6,4) this]
  have "fst (GetValidator (m_client m) nw sc ''head'' (job_ValidatorIndex job)) =
          Inl (ErrWrap (''failed to get validator '' @ fmt_d (job_ValidatorIndex job))
                 (ErrDecode (JsonField e)))"
    by (simp add: GetValidator_def wrap_def split_def split: sum.splits)
  then show ?thesis by (simp add: processStatusJob_def)
qed

lemma get_refuses_undecodable_at:
  assumes "k < sends (snd (get c nw path decode result))"
      and "httpClient_Do nw (int k) = Response 200 body" and "decode body = Inl e"
  shows "fst (get c nw path decode result) = Inl (ErrDecode e)"
  using loop_final [of k c nw "''GET''" "baseURL c @ path" decode result 0 None NewDefault 200 body]
    assms by (simp add: get_def doRequest_def ShouldRetry_def)

lemma processStatusJob_refuses_balance_at:
  assumes "scan_Validator sc body = Some raw" and "rv_balance raw = Some data"
      and "\<not> optionally_quoted uint64_literal data"
      and "k < sends (snd (GetValidator (m_client m) nw sc ''head'' (job_ValidatorIndex job)))"
      and "httpClient_Do nw (int k) = Response 200 body"
  shows "\<exists>e. processStatusJob m nw sc w job =
           (Inl (ErrWrap (''failed to get validator '' @ fmt_d (job_ValidatorIndex job))
                   (ErrDecode (JsonField e))), w)"
proof -
  from decode_Validator_refuses_balance [OF assms(2,3)] obtain e
    where "decode_Validator raw = Inl (JsonField e)" by blast
  then have d: "decode_body (scan_Validator sc) decode_Validator body = Inl (JsonField e)"
    using assms(1) by (simp add: decode_body_def)
  from assms(4) have "k < sends (snd (get (m_client m) nw
      (''/eth/v1/beacon/states/'' @ ''head'' @ ''/validators/'' @ fmt_d (job_ValidatorIndex job))
      (decode_body (scan_Validator sc) decode_Validator) zero_Validator))"
    by (simp add: GetValidator_def wrap_def split_def split: sum.splits)
  from get_refuses_undecodable_at [OF this assms(5) d]
  have "fst (GetValidator (m_client m) nw sc ''head'' (job_ValidatorIndex job)) =
          Inl (ErrWrap (''failed to get validator '' @ fmt_d (job_ValidatorIndex job))
                 (ErrDecode (JsonField e)))"
    by (simp add: GetValidator_def wrap_def split_def split: sum.splits)
  then show ?thesis by (simp add: processStatusJob_def)
qed

text \<open>
  C10: a token that is not a decimal integer of the field's 64-bit type (digits, after
  an optional sign for a signed field), bare or between one pair of double quotes, is
  answered with an error by the decoder and never with a value. In particular
  \<^verbatim>\<open>Uint64Str\<close> refuses a token that starts with a minus sign (a syntax error) and a
  run of digits whose value does not fit 64 bits (a range error). A validator response
  whose balance is such a token fails to decode: the STATUS job returns the error of
  the request and leaves the world as it was, so nothing is stored; this holds when
  the response is the answer to the first attempt of the request and when it is the
  answer to any later attempt that the request makes.
\<close>

theorem decoders_reject_other_tokens:
  "(\<not> optionally_quoted uint64_literal data \<longrightarrow> (\<exists>e. Uint64Str_UnmarshalJSON data = Inl e)) \<and>
   (\<not> optionally_quoted int64_literal data \<longrightarrow> (\<exists>e. Int64Str_UnmarshalJSON data = Inl e)) \<and>
   (unquote data \<noteq> [] \<and> hd (unquote data) = CHR ''-'' \<longrightarrow>
      Uint64Str_UnmarshalJSON data = Inl (syntaxError ''ParseUint'' (unquote data))) \<and>
   (unquote data \<noteq> [] \<and> list_all is_digit (unquote data) \<and> 2 ^ 64 \<le> dec_value (unquote data) \<longrightarrow>
      Uint64Str_UnmarshalJSON data = Inl (rangeError ''ParseUint'' (unquote data))) \<and>
   (scan_Validator sc body = Some raw \<and> rv_balance raw = Some data \<and>
    \<not> optionally_quoted uint64_literal data \<and>
    httpClient_Do nw 0 = Response 200 body \<and> limiter_Wait nw 0 = None \<and> NewRequest nw = None \<and>
    0 \<le> maxRetries (m_client m) \<longrightarrow>
      (\<exists>e. processStatusJob m nw sc w job =
             (Inl (ErrWrap (''failed to get validator '' @ fmt_d (job_ValidatorIndex job))
                     (ErrDecode (JsonField e))), w))) \<and>
   (scan_Validator sc body = Some raw \<and> rv_balance raw = Some data \<and>
    \<not> optionally_quoted uint64_literal data \<and>
    k < sends (snd (GetValidator (m_client m) nw sc ''head'' (job_ValidatorIndex job))) \<and>
    httpClient_Do nw (int k) = Response 200 body \<longrightarrow>
      (\<exists>e. processStatusJob m nw sc w job =
             (Inl (ErrWrap (''failed to get validator '' @ fmt_d (job_ValidatorIndex job))
                     (ErrDecode (JsonField e))), w)))"
proof (intro conjI impI)
  assume "\<not> optionally_quoted uint64_literal data"
  then show "\<exists>e. Uint64Str_UnmarshalJSON data = Inl e" by (rule Uint64Str_rejects)
next
  assume "\<not> optionally_quoted int64_literal data"
  then show "\<exists>e. Int64Str_UnmarshalJSON data = Inl e" by (rule Int64Str_rejects)
next
  assume "unquote data \<noteq> [] \<and> hd (unquote data) = CHR ''-''"
  then show "Uint64Str_UnmarshalJSON data = Inl (syntaxError ''ParseUint'' (unquote data))"
    by (intro Uint64Str_rejects_sign) simp_all
next
  assume "unquote data \<noteq> [] \<and> list_all is_digit (unquote data) \<and> 2 ^ 64 \<le> dec_value (unquote data)"
  then show "Uint64Str_UnmarshalJSON data = Inl (rangeError ''ParseUint'' (unquote data))"
    by (intro Uint64Str_rejects_range) simp_all
next
  assume "scan_Validator sc body = Some raw \<and> rv_balance raw = Some data \<and>
    \<not> optionally_quoted uint64_literal data \<and>
    httpClient_Do nw 0 = Response 200 body \<and> limiter_Wait nw 0 = None \<and> NewRequest nw = None \<and>
    0 \<le> maxRetries (m_client m)"
  then show "\<exists>e. processStatusJob m nw sc w job =
             (Inl (ErrWrap (''failed to get validator '' @ fmt_d (job_ValidatorIndex job))
                     (ErrDecode (JsonField e))), w)"
    by (intro processStatusJob_refuses_balance [where body = body and raw = raw and data = data])
       simp_all
next
  assume "scan_Validator sc body = Some raw \<and> rv_balance raw = Some data \<and>
    \<not> optionally_quoted uint64_literal data \<and>
    k < sends (snd (GetValidator (m_client m) nw sc ''head'' (job_ValidatorIndex job))) \<and>
    httpClient_Do nw (int k) = Response 200 body"
  then show "\<exists>e. processStatusJob m nw sc w job =
             (Inl (ErrWrap (''failed to get validator '' @ fmt_d (job_ValidatorIndex job))
                     (ErrDecode (JsonField e))), w)"
    by (intro processStatusJob_refuses_balance_at [where body = body and raw = raw
          and data = data and k = k]) simp_all
qed

theorem decoders_reject_other_tokens_witness:
  "Uint64Str_UnmarshalJSON ''-5'' = Inl (syntaxError ''ParseUint'' ''-5'') \<and>
   Uint64Str_UnmarshalJSON (quoted ''-5'') = Inl (syntaxError ''ParseUint'' ''-5'') \<and>
   Uint64Str_UnmarshalJSON ''18446744073709551616'' =
     Inl (rangeError ''ParseUint'' ''18446744073709551616'') \<and>
   (\<exists>e. Int64Str_UnmarshalJSON ''1.5'' = Inl e) \<and>
   (\<exists>e. processStatusJob example_monitor (net_answering 200 ''-5'') example_scanners
           (example_world (\<lambda>k. False)) (example_job JobTypeStatus) =
         (Inl (ErrWrap (''failed to get validator '' @ fmt_d 100) (ErrDecode (JsonField e))),
          example_world (\<lambda>k. False))) \<and>
   (\<exists>e. processStatusJob example_monitor (net_flaky ''-5'') example_scanners
           (example_world (\<lambda>k. False)) (example_job JobTypeStatus) =
         (Inl (ErrWrap (''failed to get validator '' @ fmt_d 100) (ErrDecode (JsonField e))),
          example_world (\<lambda>k. False)))"
proof -
  have u1: "unquote ''-5'' = ''-5''" and u2: "unquote (quoted ''-5'') = ''-5''"
    and u3: "unquote ''18446744073709551616'' = ''18446744073709551616''"
    by (simp_all add: unquote_def quoted_def)
  have big: "list_all is_digit ''18446744073709551616'' \<and> 2 ^ 64 \<le> dec_value ''18446744073709551616''"
    by (simp add: is_digit_def dec_value_def dec_from_def)
  have n1: "\<not> optionally_quoted int64_literal ''1.5''" by code_simp
  have n2: "\<not> optionally_quoted uint64_literal ''-5''" by code_simp
  from decoders_reject_other_tokens [where data = "''-5''", THEN conjunct2, THEN conjunct2, THEN conjunct1]
  have 1: "Uint64Str_UnmarshalJSON ''-5'' = Inl (syntaxError ''ParseUint'' ''-5'')"
    by (simp add: u1)
  from decoders_reject_other_tokens [where data = "quoted ''-5''", THEN conjunct2, THEN conjunct2, THEN conjunct1]
  have 2: "Uint64Str_UnmarshalJSON (quoted ''-5'') = Inl (syntaxError ''ParseUint'' ''-5'')"
    by (simp add: u2)
  from decoders_reject_other_tokens [where data = "''18446744073709551616''",
      THEN conjunct2, THEN conjunct2, THEN conjunct2, THEN conjunct1] big
  have 3: "Uint64Str_UnmarshalJSON ''18446744073709551616'' =
      Inl (rangeError ''ParseUint'' ''18446744073709551616'')"
    by (simp add: u3)
  from decoders_reject_other_tokens [where data = "''1.5''", THEN conjunct2, THEN conjunct1] n1
  have 4: "\<exists>e. Int64Str_UnmarshalJSON ''1.5'' = Inl e"
    by simp
  from decoders_reject_other_tokens [where data = "''-5''" and sc = example_scanners
      and body = "''-5''" and nw = "net_answering 200 ''-5''" and m = example_monitor
      and w = "example_world (\<lambda>k. False)" and job = "example_job JobTypeStatus"
      and raw = "the (scan_Validator example_scanners ''-5'')",
      THEN conjunct2, THEN conjunct2, THEN conjunct2, THEN conjunct2, THEN conjunct1] n2
  have 5: "\<exists>e. processStatusJob example_monitor (net_answering 200 ''-5'') example_scanners
           (example_world (\<lambda>k. False)) (example_job JobTypeStatus) =
         (Inl (ErrWrap (''failed to get validator '' @ fmt_d 100) (ErrDecode (JsonField e))),
          example_world (\<lambda>k. False))"
    by (simp add: example_scanners_def net_answering_def example_monitor_def example_client_def
          example_job_def)
  have third: "2 < sends (snd (GetValidator (m_client example_monitor) (net_flaky ''-5'')
      example_scanners ''head'' (job_ValidatorIndex (example_job JobTypeStatus))))"
    by code_simp
  from decoders_reject_other_tokens [where data = "''-5''" and sc = example_scanners
      and body = "''-5''" and nw = "net_flaky ''-5''" and m = example_monitor
      and w = "example_world (\<lambda>k. False)" and job = "example_job JobTypeStatus"
      and raw = "the (scan_Validator example_scanners ''-5'')" and k = 2,
      THEN conjunct2, THEN conjunct2, THEN conjunct2, THEN conjunct2, THEN conjunct2] n2 third
  have 6: "\<exists>e. processStatusJob example_monitor (net_flaky ''-5'') example_scanners
           (example_world (\<lambda>k. False)) (example_job JobTypeStatus) =
         (Inl (ErrWrap (''failed to get validator '' @ fmt_d 100) (ErrDecode (JsonField e))),
          example_world (\<lambda>k. False))"
    by (simp add: example_scanners_def net_flaky_def example_job_def)
  from 1 2 3 4 5 6 show ?thesis by blast
qed


end
